theory Spec2Isabelle
  imports Complex_Main
begin

section \<open>Numbers\<close>

text \<open>
  The engine computes with JavaScript numbers, IEEE 754 doubles. A number is a finite
  value, one of the two infinities, or \<open>NaN\<close>. The sum, difference, product, quotient
  and square root of finite numbers are the exact results rounded, and the rounding is a
  parameter \<open>rnd\<close> of every operation of the model: the doubles round to the nearest
  binary64 value (an infinity on overflow), and \<open>exact\<close> does not round at all. What is
  proved for every \<open>rnd\<close> holds for the doubles; where a property of the rounding is
  needed it is a hypothesis, and every such hypothesis holds for the rounding of the
  doubles. Operations on infinities and \<open>NaN\<close>, comparisons, negation, \<open>Math.min\<close>,
  \<open>Math.max\<close>, \<open>Math.ceil\<close> and \<open>Math.abs\<close> do not round and follow IEEE 754. The two
  zeros are one value: the engine never divides by a negative zero (its only divisor that
  can be zero is a square root).
\<close>

datatype num = Num real | PosInf | NegInf | NaN

type_synonym rounding = "real \<Rightarrow> num"

definition exact :: rounding where
  "exact x = Num x"

definition infinity :: "bool \<Rightarrow> num" where
  "infinity positive = (if positive then PosInf else NegInf)"

fun neg :: "num \<Rightarrow> num" where
  "neg (Num a) = Num (- a)"
| "neg PosInf = NegInf"
| "neg NegInf = PosInf"
| "neg NaN = NaN"

fun fadd :: "rounding \<Rightarrow> num \<Rightarrow> num \<Rightarrow> num" where
  "fadd rnd (Num a) (Num b) = rnd (a + b)"
| "fadd rnd NaN y = NaN"
| "fadd rnd x NaN = NaN"
| "fadd rnd PosInf NegInf = NaN"
| "fadd rnd NegInf PosInf = NaN"
| "fadd rnd PosInf y = PosInf"
| "fadd rnd x PosInf = PosInf"
| "fadd rnd NegInf y = NegInf"
| "fadd rnd x NegInf = NegInf"

definition fsub :: "rounding \<Rightarrow> num \<Rightarrow> num \<Rightarrow> num" where
  "fsub rnd x y = fadd rnd x (neg y)"

fun fmul :: "rounding \<Rightarrow> num \<Rightarrow> num \<Rightarrow> num" where
  "fmul rnd (Num a) (Num b) = rnd (a * b)"
| "fmul rnd NaN y = NaN"
| "fmul rnd x NaN = NaN"
| "fmul rnd (Num a) PosInf = (if a = 0 then NaN else infinity (0 < a))"
| "fmul rnd (Num a) NegInf = (if a = 0 then NaN else infinity (a < 0))"
| "fmul rnd PosInf (Num b) = (if b = 0 then NaN else infinity (0 < b))"
| "fmul rnd NegInf (Num b) = (if b = 0 then NaN else infinity (b < 0))"
| "fmul rnd PosInf PosInf = PosInf"
| "fmul rnd PosInf NegInf = NegInf"
| "fmul rnd NegInf PosInf = NegInf"
| "fmul rnd NegInf NegInf = PosInf"

text \<open>A finite number divided by zero: \<open>NaN\<close> for \<open>0 / 0\<close>, else an infinity, the zero
  taken as positive.\<close>

fun fdiv :: "rounding \<Rightarrow> num \<Rightarrow> num \<Rightarrow> num" where
  "fdiv rnd (Num a) (Num b) =
     (if b = 0 then (if a = 0 then NaN else infinity (0 < a)) else rnd (a / b))"
| "fdiv rnd NaN y = NaN"
| "fdiv rnd x NaN = NaN"
| "fdiv rnd (Num a) PosInf = Num 0"
| "fdiv rnd (Num a) NegInf = Num 0"
| "fdiv rnd PosInf (Num b) = infinity (0 \<le> b)"
| "fdiv rnd NegInf (Num b) = infinity (b < 0)"
| "fdiv rnd PosInf PosInf = NaN"
| "fdiv rnd PosInf NegInf = NaN"
| "fdiv rnd NegInf PosInf = NaN"
| "fdiv rnd NegInf NegInf = NaN"

fun Math_sqrt :: "rounding \<Rightarrow> num \<Rightarrow> num" where
  "Math_sqrt rnd (Num a) = (if a < 0 then NaN else rnd (sqrt a))"
| "Math_sqrt rnd PosInf = PosInf"
| "Math_sqrt rnd NegInf = NaN"
| "Math_sqrt rnd NaN = NaN"

instantiation num :: ord
begin

fun less_num :: "num \<Rightarrow> num \<Rightarrow> bool" where
  "less_num (Num a) (Num b) = (a < b)"
| "less_num NaN y = False"
| "less_num x NaN = False"
| "less_num x NegInf = False"
| "less_num NegInf y = True"
| "less_num PosInf y = False"
| "less_num x PosInf = True"

fun less_eq_num :: "num \<Rightarrow> num \<Rightarrow> bool" where
  "less_eq_num (Num a) (Num b) = (a \<le> b)"
| "less_eq_num NaN y = False"
| "less_eq_num x NaN = False"
| "less_eq_num NegInf y = True"
| "less_eq_num x PosInf = True"
| "less_eq_num x NegInf = False"
| "less_eq_num PosInf y = False"

instance ..

end

fun Math_min :: "num \<Rightarrow> num \<Rightarrow> num" where
  "Math_min (Num a) (Num b) = Num (min a b)"
| "Math_min NaN y = NaN"
| "Math_min x NaN = NaN"
| "Math_min NegInf y = NegInf"
| "Math_min x NegInf = NegInf"
| "Math_min PosInf y = y"
| "Math_min x PosInf = x"

fun Math_max :: "num \<Rightarrow> num \<Rightarrow> num" where
  "Math_max (Num a) (Num b) = Num (max a b)"
| "Math_max NaN y = NaN"
| "Math_max x NaN = NaN"
| "Math_max PosInf y = PosInf"
| "Math_max x PosInf = PosInf"
| "Math_max NegInf y = y"
| "Math_max x NegInf = x"

fun Math_ceil :: "num \<Rightarrow> num" where
  "Math_ceil (Num a) = Num (of_int \<lceil>a\<rceil>)"
| "Math_ceil PosInf = PosInf"
| "Math_ceil NegInf = NegInf"
| "Math_ceil NaN = NaN"

fun Math_abs :: "num \<Rightarrow> num" where
  "Math_abs (Num a) = Num \<bar>a\<bar>"
| "Math_abs PosInf = PosInf"
| "Math_abs NegInf = PosInf"
| "Math_abs NaN = NaN"

section \<open>Data model\<close>

text \<open>
  \<open>{ x: number; y: number }\<close> and \<open>{ width: number; height: number }\<close>. The fields
  \<open>x\<close> and \<open>y\<close> are named \<open>vec_x\<close> and \<open>vec_y\<close>.
\<close>

record vec2 =
  vec_x :: num
  vec_y :: num

record box =
  width :: num
  height :: num

text \<open>
  Objects are reached by reference and may be shared. The engine assigns to the \<open>x\<close>
  and \<open>y\<close> of position, velocity and acceleration objects and to nothing else of a
  body. So the vector objects live in a store from addresses to vectors, which the
  operations take and return, and a body holds the addresses of its three vectors: two
  bodies, or two fields of one body, that share a vector object hold the same address.
  The bounds object is only read and is a value of the body.
\<close>

type_synonym vref = nat

type_synonym vectors = "vref \<Rightarrow> vec2"

text \<open>\<open>interface PhysicsBody\<close>.\<close>

record body =
  position :: vref
  velocity :: vref
  acceleration :: vref
  mass :: num
  restitution :: num
  friction :: num
  isStatic :: bool
  bounds :: box

text \<open>
  The body objects, by reference: the registry is a \<open>Set\<close> of references, which holds
  a reference at most once and iterates in insertion order; it is the list of its
  members in insertion order.
\<close>

type_synonym ref = nat

type_synonym heap = "ref \<Rightarrow> body"

text \<open>
  The gravity object of the engine: the one the engine made itself (the field
  initialiser, \<open>setGravity\<close>), which nothing else can reach, or the object of the
  config, which the caller may share with a body.
\<close>

datatype vec_obj = Own vec2 | Ref vref

fun read_vec :: "vec_obj \<Rightarrow> vectors \<Rightarrow> vec2" where
  "read_vec (Own v) st = v"
| "read_vec (Ref r) st = st r"

text \<open>\<open>interface PhysicsConfig\<close>: every field is optional.\<close>

record PhysicsConfig =
  config_gravity :: "vref option"
  config_timeScale :: "num option"
  config_maxSteps :: "num option"

text \<open>
  The fields of \<open>class PhysicsEngine\<close>. The private field \<open>fixedTimeStep\<close> is
  initialised to \<open>1 / 60\<close> and assigned nowhere: it is the constant \<open>fixedTimeStep\<close>,
  the rounded quotient.
\<close>

record engine =
  gravity :: vec_obj
  timeScale :: num
  maxSteps :: num
  bodies :: "ref list"

definition fixedTimeStep :: "rounding \<Rightarrow> num" where
  "fixedTimeStep rnd = fdiv rnd (Num 1) (Num 60)"

text \<open>The field initialisers of the class; the literal \<open>9.81\<close> is its rounded value.\<close>

definition new_engine :: "rounding \<Rightarrow> engine" where
  "new_engine rnd = \<lparr>gravity = Own \<lparr>vec_x = Num 0, vec_y = rnd (981 / 100)\<rparr>,
     timeScale = Num 1, maxSteps = Num 3, bodies = []\<rparr>"

section \<open>Operations\<close>

definition initialize :: "PhysicsConfig \<Rightarrow> engine \<Rightarrow> engine" where
  "initialize config e =
     e\<lparr>gravity := (case config_gravity config of Some g \<Rightarrow> Ref g | None \<Rightarrow> gravity e),
       timeScale := (case config_timeScale config of Some t \<Rightarrow> t | None \<Rightarrow> Num 1),
       maxSteps := (case config_maxSteps config of Some m \<Rightarrow> m | None \<Rightarrow> Num 3)\<rparr>"

text \<open>\<open>Set.add\<close> and \<open>Set.delete\<close> on the registry.\<close>

definition addBody :: "ref \<Rightarrow> engine \<Rightarrow> engine" where
  "addBody b e = (if b \<in> set (bodies e) then e else e\<lparr>bodies := bodies e @ [b]\<rparr>)"

definition removeBody :: "ref \<Rightarrow> engine \<Rightarrow> engine" where
  "removeBody b e = e\<lparr>bodies := removeAll b (bodies e)\<rparr>"

definition setGravity :: "num \<Rightarrow> num \<Rightarrow> engine \<Rightarrow> engine" where
  "setGravity x y e = e\<lparr>gravity := Own \<lparr>vec_x = x, vec_y = y\<rparr>\<rparr>"

definition setTimeScale :: "num \<Rightarrow> engine \<Rightarrow> engine" where
  "setTimeScale scale e = e\<lparr>timeScale := Math_max (Num 0) scale\<rparr>"

definition getBodies :: "engine \<Rightarrow> ref list" where
  "getBodies e = bodies e"

subsection \<open>Assignments to a vector object\<close>

text \<open>\<open>v.x += a\<close>, \<open>v.x -= a\<close>, \<open>v.x = a\<close>, and the same for \<open>y\<close>.\<close>

definition set_x :: "vref \<Rightarrow> num \<Rightarrow> vectors \<Rightarrow> vectors" where
  "set_x v a st = st(v := (st v)\<lparr>vec_x := a\<rparr>)"

definition set_y :: "vref \<Rightarrow> num \<Rightarrow> vectors \<Rightarrow> vectors" where
  "set_y v a st = st(v := (st v)\<lparr>vec_y := a\<rparr>)"

definition add_x :: "rounding \<Rightarrow> vref \<Rightarrow> num \<Rightarrow> vectors \<Rightarrow> vectors" where
  "add_x rnd v a st = set_x v (fadd rnd (vec_x (st v)) a) st"

definition add_y :: "rounding \<Rightarrow> vref \<Rightarrow> num \<Rightarrow> vectors \<Rightarrow> vectors" where
  "add_y rnd v a st = set_y v (fadd rnd (vec_y (st v)) a) st"

definition sub_x :: "rounding \<Rightarrow> vref \<Rightarrow> num \<Rightarrow> vectors \<Rightarrow> vectors" where
  "sub_x rnd v a st = set_x v (fsub rnd (vec_x (st v)) a) st"

definition sub_y :: "rounding \<Rightarrow> vref \<Rightarrow> num \<Rightarrow> vectors \<Rightarrow> vectors" where
  "sub_y rnd v a st = set_y v (fsub rnd (vec_y (st v)) a) st"

subsection \<open>Collision test\<close>

definition isColliding :: "rounding \<Rightarrow> body \<Rightarrow> body \<Rightarrow> vectors \<Rightarrow> bool" where
  "isColliding rnd bodyA bodyB st =
     (let aLeft = vec_x (st (position bodyA));
          aRight = fadd rnd (vec_x (st (position bodyA))) (width (bounds bodyA));
          aTop = vec_y (st (position bodyA));
          aBottom = fadd rnd (vec_y (st (position bodyA))) (height (bounds bodyA));
          bLeft = vec_x (st (position bodyB));
          bRight = fadd rnd (vec_x (st (position bodyB))) (width (bounds bodyB));
          bTop = vec_y (st (position bodyB));
          bBottom = fadd rnd (vec_y (st (position bodyB))) (height (bounds bodyB))
      in \<not> (aRight < bLeft \<or> aLeft > bRight \<or> aBottom < bTop \<or> aTop > bBottom))"

subsection \<open>Collision resolution\<close>

text \<open>The local constants of \<open>resolveCollision\<close>, as functions of the two bodies and
  the store at the call.\<close>

definition collision_dx :: "rounding \<Rightarrow> body \<Rightarrow> body \<Rightarrow> vectors \<Rightarrow> num" where
  "collision_dx rnd bodyA bodyB st =
     fsub rnd
       (fadd rnd (vec_x (st (position bodyB))) (fdiv rnd (width (bounds bodyB)) (Num 2)))
       (fadd rnd (vec_x (st (position bodyA))) (fdiv rnd (width (bounds bodyA)) (Num 2)))"

definition collision_dy :: "rounding \<Rightarrow> body \<Rightarrow> body \<Rightarrow> vectors \<Rightarrow> num" where
  "collision_dy rnd bodyA bodyB st =
     fsub rnd
       (fadd rnd (vec_y (st (position bodyB))) (fdiv rnd (height (bounds bodyB)) (Num 2)))
       (fadd rnd (vec_y (st (position bodyA))) (fdiv rnd (height (bounds bodyA)) (Num 2)))"

definition collision_length :: "rounding \<Rightarrow> body \<Rightarrow> body \<Rightarrow> vectors \<Rightarrow> num" where
  "collision_length rnd bodyA bodyB st =
     (let dx = collision_dx rnd bodyA bodyB st; dy = collision_dy rnd bodyA bodyB st
      in Math_sqrt rnd (fadd rnd (fmul rnd dx dx) (fmul rnd dy dy)))"

definition collision_nx :: "rounding \<Rightarrow> body \<Rightarrow> body \<Rightarrow> vectors \<Rightarrow> num" where
  "collision_nx rnd bodyA bodyB st =
     fdiv rnd (collision_dx rnd bodyA bodyB st) (collision_length rnd bodyA bodyB st)"

definition collision_ny :: "rounding \<Rightarrow> body \<Rightarrow> body \<Rightarrow> vectors \<Rightarrow> num" where
  "collision_ny rnd bodyA bodyB st =
     fdiv rnd (collision_dy rnd bodyA bodyB st) (collision_length rnd bodyA bodyB st)"

definition relativeVelocity :: "rounding \<Rightarrow> body \<Rightarrow> body \<Rightarrow> vectors \<Rightarrow> num" where
  "relativeVelocity rnd bodyA bodyB st =
     (let relativeVelocityX = fsub rnd (vec_x (st (velocity bodyB))) (vec_x (st (velocity bodyA)));
          relativeVelocityY = fsub rnd (vec_y (st (velocity bodyB))) (vec_y (st (velocity bodyA)))
      in fadd rnd (fmul rnd relativeVelocityX (collision_nx rnd bodyA bodyB st))
           (fmul rnd relativeVelocityY (collision_ny rnd bodyA bodyB st)))"

definition collision_impulse :: "rounding \<Rightarrow> body \<Rightarrow> body \<Rightarrow> vectors \<Rightarrow> num" where
  "collision_impulse rnd bodyA bodyB st =
     (let restitution = Math_min (restitution bodyA) (restitution bodyB);
          impulse = fmul rnd (neg (fadd rnd (Num 1) restitution))
                      (relativeVelocity rnd bodyA bodyB st)
      in if \<not> isStatic bodyA \<and> \<not> isStatic bodyB then fdiv rnd impulse (Num 2) else impulse)"

definition collision_overlap :: "rounding \<Rightarrow> body \<Rightarrow> body \<Rightarrow> vectors \<Rightarrow> num" where
  "collision_overlap rnd bodyA bodyB st =
     fsub rnd
       (fdiv rnd (fadd rnd (width (bounds bodyA)) (width (bounds bodyB))) (Num 2))
       (Math_abs (collision_dx rnd bodyA bodyB st))"

text \<open>
  \<open>resolveCollision\<close>. All local constants are computed from the store at the call,
  before the first assignment (\<open>overlap\<close>, computed later in the source, depends on the
  bounds and on \<open>dx\<close> only). The assignments follow one by one in the order of the
  source, each on the store the one before it left.
\<close>

definition resolveCollision :: "rounding \<Rightarrow> body \<Rightarrow> body \<Rightarrow> vectors \<Rightarrow> vectors" where
  "resolveCollision rnd bodyA bodyB st =
     (if isStatic bodyA \<and> isStatic bodyB then st
      else
        let nx = collision_nx rnd bodyA bodyB st;
            ny = collision_ny rnd bodyA bodyB st;
            relativeVelocity = relativeVelocity rnd bodyA bodyB st
        in
        if relativeVelocity > Num 0 then st
        else
          let impulse = collision_impulse rnd bodyA bodyB st;
              st1 = (if \<not> isStatic bodyA then
                       sub_y rnd (velocity bodyA) (fmul rnd impulse ny)
                         (sub_x rnd (velocity bodyA) (fmul rnd impulse nx) st)
                     else st);
              st2 = (if \<not> isStatic bodyB then
                       add_y rnd (velocity bodyB) (fmul rnd impulse ny)
                         (add_x rnd (velocity bodyB) (fmul rnd impulse nx) st1)
                     else st1);
              overlap = collision_overlap rnd bodyA bodyB st
          in
          if overlap > Num 0 then
            (if \<not> isStatic bodyA \<and> \<not> isStatic bodyB then
               add_y rnd (position bodyB) (fdiv rnd (fmul rnd overlap ny) (Num 2))
                 (add_x rnd (position bodyB) (fdiv rnd (fmul rnd overlap nx) (Num 2))
                   (sub_y rnd (position bodyA) (fdiv rnd (fmul rnd overlap ny) (Num 2))
                     (sub_x rnd (position bodyA) (fdiv rnd (fmul rnd overlap nx) (Num 2)) st2)))
             else if \<not> isStatic bodyA then
               sub_y rnd (position bodyA) (fmul rnd overlap ny)
                 (sub_x rnd (position bodyA) (fmul rnd overlap nx) st2)
             else if \<not> isStatic bodyB then
               add_y rnd (position bodyB) (fmul rnd overlap ny)
                 (add_x rnd (position bodyB) (fmul rnd overlap nx) st2)
             else st2)
          else st2)"

subsection \<open>Pairwise scan\<close>

text \<open>
  \<open>checkCollisions\<close>: the inner loop pairs \<open>bodies[i]\<close> with every later element of the
  snapshot, the outer loop takes every element of the snapshot as \<open>bodies[i]\<close> in turn.
\<close>

fun checkCollisions_inner :: "rounding \<Rightarrow> heap \<Rightarrow> ref \<Rightarrow> ref list \<Rightarrow> vectors \<Rightarrow> vectors" where
  "checkCollisions_inner rnd h a [] st = st"
| "checkCollisions_inner rnd h a (b # rest) st =
     checkCollisions_inner rnd h a rest
       (if isColliding rnd (h a) (h b) st then resolveCollision rnd (h a) (h b) st else st)"

fun checkCollisions_outer :: "rounding \<Rightarrow> heap \<Rightarrow> ref list \<Rightarrow> vectors \<Rightarrow> vectors" where
  "checkCollisions_outer rnd h [] st = st"
| "checkCollisions_outer rnd h (a # rest) st =
     checkCollisions_outer rnd h rest (checkCollisions_inner rnd h a rest st)"

definition checkCollisions :: "rounding \<Rightarrow> engine \<Rightarrow> heap \<Rightarrow> vectors \<Rightarrow> vectors" where
  "checkCollisions rnd e h st = checkCollisions_outer rnd h (bodies e) st"

subsection \<open>Sub-step\<close>

text \<open>
  The body of the integration loop, for a body that is not static: eight assignments,
  each reading the store the one before it left.
\<close>

definition integrate :: "rounding \<Rightarrow> vec_obj \<Rightarrow> num \<Rightarrow> body \<Rightarrow> vectors \<Rightarrow> vectors" where
  "integrate rnd g deltaTime body0 st =
     (let st1 = add_x rnd (acceleration body0) (vec_x (read_vec g st)) st;
          st2 = add_y rnd (acceleration body0) (vec_y (read_vec g st1)) st1;
          st3 = add_x rnd (velocity body0)
                  (fmul rnd (vec_x (st2 (acceleration body0))) deltaTime) st2;
          st4 = add_y rnd (velocity body0)
                  (fmul rnd (vec_y (st3 (acceleration body0))) deltaTime) st3;
          st5 = add_x rnd (position body0)
                  (fmul rnd (vec_x (st4 (velocity body0))) deltaTime) st4;
          st6 = add_y rnd (position body0)
                  (fmul rnd (vec_y (st5 (velocity body0))) deltaTime) st5;
          st7 = set_x (acceleration body0) (Num 0) st6
      in set_y (acceleration body0) (Num 0) st7)"

fun integrate_all ::
  "rounding \<Rightarrow> vec_obj \<Rightarrow> num \<Rightarrow> heap \<Rightarrow> ref list \<Rightarrow> vectors \<Rightarrow> vectors" where
  "integrate_all rnd g deltaTime h [] st = st"
| "integrate_all rnd g deltaTime h (r # rest) st =
     integrate_all rnd g deltaTime h rest
       (if isStatic (h r) then st else integrate rnd g deltaTime (h r) st)"

definition step :: "rounding \<Rightarrow> num \<Rightarrow> engine \<Rightarrow> heap \<Rightarrow> vectors \<Rightarrow> vectors" where
  "step rnd deltaTime e h st =
     checkCollisions rnd e h (integrate_all rnd (gravity e) deltaTime h (bodies e) st)"

subsection \<open>Frame update\<close>

text \<open>
  \<open>for (let i = 0; i < steps; i++) body\<close>. The counter is a number and \<open>i++\<close> adds one
  with rounding; the loop ends at the first \<open>i\<close> for which \<open>i < steps\<close> is false, and it
  need not end (\<open>steps\<close> infinite, or a counter that rounding holds in place): then the
  result is \<open>None\<close>.
\<close>

partial_function (option) for_loop ::
  "rounding \<Rightarrow> num \<Rightarrow> num \<Rightarrow> ('s \<Rightarrow> 's) \<Rightarrow> 's \<Rightarrow> 's option" where
  "for_loop rnd i steps body s =
     (if i < steps then for_loop rnd (fadd rnd i (Num 1)) steps body (body s) else Some s)"

text \<open>The constant \<open>steps\<close> of \<open>update\<close>.\<close>

definition update_steps :: "rounding \<Rightarrow> num \<Rightarrow> engine \<Rightarrow> num" where
  "update_steps rnd deltaTime e =
     (let scaledDeltaTime = fmul rnd deltaTime (timeScale e)
      in Math_min (maxSteps e) (Math_ceil (fdiv rnd scaledDeltaTime (fixedTimeStep rnd))))"

definition update :: "rounding \<Rightarrow> num \<Rightarrow> engine \<Rightarrow> heap \<Rightarrow> vectors \<Rightarrow> vectors option" where
  "update rnd deltaTime e h st =
     for_loop rnd (Num 0) (update_steps rnd deltaTime e) (step rnd (fixedTimeStep rnd) e h) st"

text \<open>
  The number of sub-steps \<open>update\<close> executes: its loop, run with a body that counts its
  own executions.
\<close>

definition sub_steps :: "rounding \<Rightarrow> num \<Rightarrow> engine \<Rightarrow> nat option" where
  "sub_steps rnd deltaTime e = for_loop rnd (Num 0) (update_steps rnd deltaTime e) Suc 0"

text \<open>A sequence of \<open>update\<close> calls, each with its frame time and the engine as it is
  then.\<close>

fun updates :: "rounding \<Rightarrow> heap \<Rightarrow> (num \<times> engine) list \<Rightarrow> vectors \<Rightarrow> vectors option" where
  "updates rnd h [] st = Some st"
| "updates rnd h ((deltaTime, e) # calls) st =
     (case update rnd deltaTime e h st of None \<Rightarrow> None | Some st' \<Rightarrow> updates rnd h calls st')"

section \<open>Notions used in the statements\<close>

text \<open>
  Laws of the rounding that statements take as hypotheses, each true of the doubles: the
  integers up to \<open>m\<close> are numbers (\<open>m = 2\<^sup>5\<^sup>3\<close> for the doubles), a number is left as
  it is, and a rounded result is a number.
\<close>

definition exact_upto :: "rounding \<Rightarrow> nat \<Rightarrow> bool" where
  "exact_upto rnd m = (\<forall>k. k \<le> m \<longrightarrow> rnd (real k) = Num (real k))"

fun representable :: "rounding \<Rightarrow> num \<Rightarrow> bool" where
  "representable rnd (Num x) = (rnd x = Num x)"
| "representable rnd PosInf = True"
| "representable rnd NegInf = True"
| "representable rnd NaN = True"

definition idempotent :: "rounding \<Rightarrow> bool" where
  "idempotent rnd = (\<forall>x y. rnd x = Num y \<longrightarrow> rnd y = Num y)"

text \<open>
  The number of \<open>i = 0, 1, 2, ...\<close> with \<open>i < steps\<close>, for a \<open>steps\<close> that is not
  \<open>+Infinity\<close>.
\<close>

definition loop_count :: "num \<Rightarrow> nat" where
  "loop_count steps = (case steps of Num r \<Rightarrow> nat \<lceil>r\<rceil> | _ \<Rightarrow> 0)"

text \<open>
  The vector objects of a body, and the vector objects the engine assigns to when the
  registry is \<open>rs\<close>: those of the registered bodies that are not static.
\<close>

definition body_vecs :: "body \<Rightarrow> vref set" where
  "body_vecs b = {position b, velocity b, acceleration b}"

definition written :: "heap \<Rightarrow> ref list \<Rightarrow> vref set" where
  "written h rs = (\<Union>r \<in> set rs. if isStatic (h r) then {} else body_vecs (h r))"

text \<open>
  The pairs \<open>(bodies[i], bodies[j])\<close>, \<open>i < j\<close>, in the order in which the two loops of
  \<open>checkCollisions\<close> visit them, and what the loops do with one pair.
\<close>

fun scan_pairs :: "ref list \<Rightarrow> (ref \<times> ref) list" where
  "scan_pairs [] = []"
| "scan_pairs (a # rest) = map (Pair a) rest @ scan_pairs rest"

definition resolve_pair :: "rounding \<Rightarrow> heap \<Rightarrow> ref \<times> ref \<Rightarrow> vectors \<Rightarrow> vectors" where
  "resolve_pair rnd h p st =
     (if isColliding rnd (h (fst p)) (h (snd p)) st
      then resolveCollision rnd (h (fst p)) (h (snd p)) st else st)"

text \<open>
  The component of a velocity along the vector \<open>(nx, ny)\<close>.
\<close>

definition normal_velocity :: "rounding \<Rightarrow> num \<Rightarrow> num \<Rightarrow> vec2 \<Rightarrow> num" where
  "normal_velocity rnd nx ny v = fadd rnd (fmul rnd (vec_x v) nx) (fmul rnd (vec_y v) ny)"

section \<open>Example bodies\<close>

text \<open>
  A body with unit mass and no friction, for the concrete instances below: the addresses
  of its position, velocity and acceleration, its size, restitution and static flag. And
  a vector with finite components.
\<close>

definition make_body :: "vref \<Rightarrow> vref \<Rightarrow> vref \<Rightarrow> real \<times> real \<Rightarrow> real \<Rightarrow> bool \<Rightarrow> body" where
  "make_body p v a sz r static =
     \<lparr>position = p, velocity = v, acceleration = a, mass = Num 1, restitution = Num r,
      friction = Num 0, isStatic = static,
      bounds = \<lparr>width = Num (fst sz), height = Num (snd sz)\<rparr>\<rparr>"

definition vec :: "real \<Rightarrow> real \<Rightarrow> vec2" where
  "vec a b = \<lparr>vec_x = Num a, vec_y = Num b\<rparr>"

section \<open>The frame loop\<close>

lemma exact_upto_exact: "exact_upto exact m"
  by (simp add: exact_upto_def exact_def)

lemma exact_upto_mono: "exact_upto rnd m \<Longrightarrow> k \<le> m \<Longrightarrow> exact_upto rnd k"
  by (simp add: exact_upto_def)

lemma for_loop_stop: "\<not> i < steps \<Longrightarrow> for_loop rnd i steps body s = Some s"
  by (subst for_loop.simps) simp

lemma for_loop_none: "\<not> Num 0 < steps \<Longrightarrow> loop_count steps = 0"
  by (cases steps) (auto simp add: loop_count_def)

lemma for_loop_Num:
  assumes "exact_upto rnd m" "nat \<lceil>r\<rceil> \<le> m"
  shows "i \<le> nat \<lceil>r\<rceil> \<Longrightarrow>
    for_loop rnd (Num (real i)) (Num r) body s = Some ((body ^^ (nat \<lceil>r\<rceil> - i)) s)"
proof (induction "nat \<lceil>r\<rceil> - i" arbitrary: i s)
  case 0
  then have "\<not> real i < r" by linarith
  with 0 show ?case by (simp add: for_loop_stop)
next
  case (Suc k)
  then have lt: "real i < r" by linarith
  from Suc have k: "k = nat \<lceil>r\<rceil> - Suc i" by simp
  from Suc have le: "Suc i \<le> nat \<lceil>r\<rceil>" by simp
  from le assms(2) have "Suc i \<le> m" by (rule order_trans)
  with assms(1) have "rnd (real (Suc i)) = Num (real (Suc i))"
    unfolding exact_upto_def by blast
  moreover have "real i + 1 = real (Suc i)" by simp
  ultimately have inc: "fadd rnd (Num (real i)) (Num 1) = Num (real (Suc i))"
    by (simp only: fadd.simps)
  have "for_loop rnd (Num (real i)) (Num r) body s
      = for_loop rnd (Num (real (Suc i))) (Num r) body (body s)"
    using lt inc by (subst for_loop.simps) simp
  also have "\<dots> = Some ((body ^^ k) (body s))"
    using Suc.hyps(1) [OF k le] k by simp
  also have "(body ^^ k) (body s) = (body ^^ Suc k) s"
    by (simp add: funpow_swap1)
  finally show ?case using Suc.hyps(2) by simp
qed

lemma for_loop_count:
  assumes "exact_upto rnd m" "loop_count steps \<le> m" "steps \<noteq> PosInf"
  shows "for_loop rnd (Num 0) steps body s = Some ((body ^^ loop_count steps) s)"
proof (cases steps)
  case (Num r)
  then show ?thesis
    using for_loop_Num [OF assms(1), of r 0 body s] assms(2) by (simp add: loop_count_def)
next
  case PosInf
  with assms show ?thesis by simp
next
  case NegInf
  then show ?thesis by (simp add: for_loop_stop loop_count_def)
next
  case NaN
  then show ?thesis by (simp add: for_loop_stop loop_count_def)
qed

lemma sub_steps_count:
  assumes "exact_upto rnd m" "loop_count (update_steps rnd deltaTime e) \<le> m"
    "update_steps rnd deltaTime e \<noteq> PosInf"
  shows "sub_steps rnd deltaTime e = Some (loop_count (update_steps rnd deltaTime e))"
  using for_loop_count [OF assms, of Suc 0] by (simp add: sub_steps_def)

lemma update_count:
  assumes "exact_upto rnd m" "loop_count (update_steps rnd deltaTime e) \<le> m"
    "update_steps rnd deltaTime e \<noteq> PosInf"
  shows "update rnd deltaTime e h st
    = Some ((step rnd (fixedTimeStep rnd) e h ^^ loop_count (update_steps rnd deltaTime e)) st)"
  using for_loop_count [OF assms] by (simp add: update_def)

lemma nonneg_cases: "Num 0 \<le> x \<Longrightarrow> x = PosInf \<or> (\<exists>r. x = Num r \<and> 0 \<le> r)"
  by (cases x) auto

lemma fixedTimeStep_eq: "fixedTimeStep rnd = fdiv rnd (Num 1) (Num 60)"
  by (simp add: fixedTimeStep_def)

lemma loop_count_nat: "loop_count (Num (real k)) = k"
  by (simp add: loop_count_def)

lemma Math_min_not_pos: "\<not> Num 0 < x \<Longrightarrow> \<not> Num 0 < Math_min x y"
  by (cases x; cases y) auto

lemma Math_min_not_pos2: "\<not> Num 0 < y \<Longrightarrow> \<not> Num 0 < Math_min x y"
  by (cases x; cases y) auto

lemma Math_min_clamp: "Num r \<le> c \<Longrightarrow> Math_min (Num r) c = Num r"
  by (cases c) auto

lemma update_no_step:
  assumes "\<not> Num 0 < update_steps rnd deltaTime e"
  shows "update rnd deltaTime e h st = Some st" "sub_steps rnd deltaTime e = Some 0"
  using assms by (simp_all add: update_def sub_steps_def for_loop_stop)

lemma update_Num:
  assumes "exact_upto rnd m" "update_steps rnd deltaTime e = Num s" "nat \<lceil>s\<rceil> \<le> m"
  shows "sub_steps rnd deltaTime e = Some (nat \<lceil>s\<rceil>)"
    "update rnd deltaTime e h st = Some ((step rnd (fdiv rnd (Num 1) (Num 60)) e h ^^ nat \<lceil>s\<rceil>) st)"
    "for_loop rnd (Num 0) (update_steps rnd deltaTime e) f x = Some ((f ^^ nat \<lceil>s\<rceil>) x)"
proof -
  have c: "loop_count (update_steps rnd deltaTime e) = nat \<lceil>s\<rceil>"
    by (simp add: assms(2) loop_count_def)
  have le: "loop_count (update_steps rnd deltaTime e) \<le> m" "update_steps rnd deltaTime e \<noteq> PosInf"
    using assms c by simp_all
  show "sub_steps rnd deltaTime e = Some (nat \<lceil>s\<rceil>)"
    using sub_steps_count [OF assms(1) le] c by simp
  show "update rnd deltaTime e h st = Some ((step rnd (fdiv rnd (Num 1) (Num 60)) e h ^^ nat \<lceil>s\<rceil>) st)"
    using update_count [OF assms(1) le] c by (simp add: fixedTimeStep_eq)
  show "for_loop rnd (Num 0) (update_steps rnd deltaTime e) f x = Some ((f ^^ nat \<lceil>s\<rceil>) x)"
    using for_loop_count [OF assms(1) le] c by simp
qed

lemma update_steps_nonneg:
  assumes nn: "\<And>x. 0 \<le> x \<Longrightarrow> Num 0 \<le> rnd x"
    and d: "deltaTime = Num d" "0 \<le> d" and t: "timeScale e = Num t" "0 \<le> t"
    and f: "fdiv rnd (Num 1) (Num 60) = Num f0" "0 < f0"
    and n: "maxSteps e = Num (real n)"
  shows "\<exists>k. k \<le> n \<and> update_steps rnd deltaTime e = Num (real k)"
proof -
  from f(1) have f': "rnd (1 / 60) = Num f0" by simp
  have "Num 0 \<le> rnd (d * t)" using d t by (simp add: nn)
  then consider "rnd (d * t) = PosInf" | p where "rnd (d * t) = Num p" "0 \<le> p"
    using nonneg_cases by blast
  then have "Num 0 \<le> fdiv rnd (rnd (d * t)) (Num f0)"
  proof cases
    case 1
    then show ?thesis using f by (simp add: infinity_def)
  next
    case 2
    then show ?thesis using f by (simp add: nn)
  qed
  then consider "fdiv rnd (rnd (d * t)) (Num f0) = PosInf"
    | q where "fdiv rnd (rnd (d * t)) (Num f0) = Num q" "0 \<le> q"
    using nonneg_cases by blast
  then show ?thesis
  proof cases
    case 1
    then have "update_steps rnd deltaTime e = Num (real n)"
      by (simp add: update_steps_def fixedTimeStep_def d t f' n)
    then show ?thesis by blast
  next
    case 2
    then have c: "0 \<le> \<lceil>q\<rceil>" by linarith
    have "min (real n) (real_of_int \<lceil>q\<rceil>) = real (min n (nat \<lceil>q\<rceil>))"
      using c by (simp add: min_def) linarith
    then have "update_steps rnd deltaTime e = Num (real (min n (nat \<lceil>q\<rceil>)))"
      using 2 by (simp add: update_steps_def fixedTimeStep_def d t f' n)
    moreover have "min n (nat \<lceil>q\<rceil>) \<le> n" by simp
    ultimately show ?thesis by blast
  qed
qed

text \<open>
  C1 (as amended). Every number is a double and every operation is the one of the code,
  rounded: \<open>steps = Math.min(maxSteps, Math.ceil((deltaTime * timeScale) / (1 / 60)))\<close>.
  \<open>update(deltaTime)\<close> runs the sub-step once for every \<open>i = 0, 1, 2, ...\<close> with
  \<open>i < steps\<close>, each time with the constant duration \<open>1 / 60\<close> as the code computes it:
  no sub-step when \<open>steps\<close> is not positive or is \<open>NaN\<close>, and the ceiling of \<open>steps\<close>
  sub-steps when \<open>steps\<close> is finite and the loop counter counts that far exactly (the
  hypothesis, true of the doubles up to \<open>2\<^sup>5\<^sup>3\<close>). The same loop runs any body that many
  times, which is what \<open>sub_steps\<close> counts. For a finite \<open>deltaTime \<ge> 0\<close>, a finite
  \<open>timeScale \<ge> 0\<close> and \<open>maxSteps\<close> a non-negative integer the number of sub-steps is
  \<open>steps\<close> itself and at most \<open>maxSteps\<close>: it is \<open>maxSteps\<close> when the computed ceiling is
  at least \<open>maxSteps\<close>, and the computed ceiling when that is at most \<open>maxSteps\<close>. For a
  \<open>maxSteps\<close> that is not an integer and is reached, it is the ceiling of \<open>maxSteps\<close>.
\<close>

theorem update_executes_sub_steps:
  "exact_upto rnd m \<Longrightarrow>
   update_steps rnd deltaTime e
     = Math_min (maxSteps e)
         (Math_ceil (fdiv rnd (fmul rnd deltaTime (timeScale e)) (fdiv rnd (Num 1) (Num 60))))
   \<and> (\<not> Num 0 < update_steps rnd deltaTime e \<longrightarrow>
        sub_steps rnd deltaTime e = Some 0 \<and> update rnd deltaTime e h st = Some st)
   \<and> (update_steps rnd deltaTime e = Num s \<and> nat \<lceil>s\<rceil> \<le> m \<longrightarrow>
        sub_steps rnd deltaTime e = Some (nat \<lceil>s\<rceil>)
        \<and> update rnd deltaTime e h st
            = Some ((step rnd (fdiv rnd (Num 1) (Num 60)) e h ^^ nat \<lceil>s\<rceil>) st)
        \<and> for_loop rnd (Num 0) (update_steps rnd deltaTime e) f x = Some ((f ^^ nat \<lceil>s\<rceil>) x))
   \<and> (update_steps rnd deltaTime e = Num (real k) \<and> k \<le> m \<longrightarrow>
        sub_steps rnd deltaTime e = Some k
        \<and> update rnd deltaTime e h st = Some ((step rnd (fdiv rnd (Num 1) (Num 60)) e h ^^ k) st))
   \<and> ((\<forall>y. 0 \<le> y \<longrightarrow> Num 0 \<le> rnd y) \<and> fdiv rnd (Num 1) (Num 60) = Num f0 \<and> 0 < f0
        \<and> deltaTime = Num d \<and> 0 \<le> d \<and> timeScale e = Num t \<and> 0 \<le> t
        \<and> maxSteps e = Num (real n) \<and> n \<le> m \<longrightarrow>
        (\<exists>j. j \<le> n \<and> update_steps rnd deltaTime e = Num (real j)
           \<and> sub_steps rnd deltaTime e = Some j
           \<and> update rnd deltaTime e h st
               = Some ((step rnd (fdiv rnd (Num 1) (Num 60)) e h ^^ j) st)))
   \<and> (maxSteps e = Num (real n) \<and> n \<le> m
        \<and> Num (real n)
            \<le> Math_ceil (fdiv rnd (fmul rnd deltaTime (timeScale e)) (fdiv rnd (Num 1) (Num 60)))
        \<longrightarrow> sub_steps rnd deltaTime e = Some n)
   \<and> (maxSteps e = Num (real n) \<and> n \<le> m \<and> k \<le> n
        \<and> Math_ceil (fdiv rnd (fmul rnd deltaTime (timeScale e)) (fdiv rnd (Num 1) (Num 60)))
            = Num (real k)
        \<longrightarrow> sub_steps rnd deltaTime e = Some k)
   \<and> (maxSteps e = Num r \<and> nat \<lceil>r\<rceil> \<le> m
        \<and> Num r
            \<le> Math_ceil (fdiv rnd (fmul rnd deltaTime (timeScale e)) (fdiv rnd (Num 1) (Num 60)))
        \<longrightarrow> sub_steps rnd deltaTime e = Some (nat \<lceil>r\<rceil>))"
proof -
  assume ex: "exact_upto rnd m"
  let ?c = "Math_ceil (fdiv rnd (fmul rnd deltaTime (timeScale e)) (fdiv rnd (Num 1) (Num 60)))"
  have A: "update_steps rnd deltaTime e = Math_min (maxSteps e) ?c"
    by (simp add: update_steps_def fixedTimeStep_def)
  have B: "sub_steps rnd deltaTime e = Some 0 \<and> update rnd deltaTime e h st = Some st"
    if "\<not> Num 0 < update_steps rnd deltaTime e"
    using update_no_step [OF that] by simp
  have C: "sub_steps rnd deltaTime e = Some (nat \<lceil>s\<rceil>)
        \<and> update rnd deltaTime e h st
            = Some ((step rnd (fdiv rnd (Num 1) (Num 60)) e h ^^ nat \<lceil>s\<rceil>) st)
        \<and> for_loop rnd (Num 0) (update_steps rnd deltaTime e) f x = Some ((f ^^ nat \<lceil>s\<rceil>) x)"
    if "update_steps rnd deltaTime e = Num s \<and> nat \<lceil>s\<rceil> \<le> m"
    using update_Num [OF ex, of deltaTime e s] that by simp
  have D: "sub_steps rnd deltaTime e = Some j
        \<and> update rnd deltaTime e h st = Some ((step rnd (fdiv rnd (Num 1) (Num 60)) e h ^^ j) st)"
    if "update_steps rnd deltaTime e = Num (real j) \<and> j \<le> m" for j
    using update_Num(1,2) [OF ex, of deltaTime e "real j"] that by simp
  have E: "\<exists>j. j \<le> n \<and> update_steps rnd deltaTime e = Num (real j)
           \<and> sub_steps rnd deltaTime e = Some j
           \<and> update rnd deltaTime e h st
               = Some ((step rnd (fdiv rnd (Num 1) (Num 60)) e h ^^ j) st)"
    if h: "(\<forall>y. 0 \<le> y \<longrightarrow> Num 0 \<le> rnd y) \<and> fdiv rnd (Num 1) (Num 60) = Num f0 \<and> 0 < f0
        \<and> deltaTime = Num d \<and> 0 \<le> d \<and> timeScale e = Num t \<and> 0 \<le> t
        \<and> maxSteps e = Num (real n) \<and> n \<le> m"
  proof -
    from h obtain j where j: "j \<le> n" "update_steps rnd deltaTime e = Num (real j)"
      using update_steps_nonneg [of rnd deltaTime d e t f0 n] by blast
    with h have "j \<le> m" by simp
    with j D [of j] show ?thesis by blast
  qed
  have F: "sub_steps rnd deltaTime e = Some n"
    if "maxSteps e = Num (real n) \<and> n \<le> m \<and> Num (real n) \<le> ?c"
  proof -
    from that have "update_steps rnd deltaTime e = Num (real n)"
      by (simp add: A Math_min_clamp)
    with that D [of n] show ?thesis by simp
  qed
  have G: "sub_steps rnd deltaTime e = Some k"
    if "maxSteps e = Num (real n) \<and> n \<le> m \<and> k \<le> n \<and> ?c = Num (real k)"
  proof -
    from that have "update_steps rnd deltaTime e = Num (real k)"
      by (simp add: A min_def)
    moreover from that have "k \<le> m" by simp
    ultimately show ?thesis using D [of k] by simp
  qed
  have H: "sub_steps rnd deltaTime e = Some (nat \<lceil>r\<rceil>)"
    if "maxSteps e = Num r \<and> nat \<lceil>r\<rceil> \<le> m \<and> Num r \<le> ?c"
  proof -
    from that have "update_steps rnd deltaTime e = Num r"
      by (simp add: A Math_min_clamp)
    with that update_Num(1) [OF ex, of deltaTime e r] show ?thesis by simp
  qed
  show ?thesis
    using A B C D [of k] E F G H by blast
qed

lemma exact_nonneg: "\<forall>y. 0 \<le> y \<longrightarrow> Num 0 \<le> exact y"
  by (simp add: exact_def)

text \<open>
  Without rounding, on a new engine with one registered body: a frame of \<open>1 / 100\<close> runs
  one sub-step, a frame of \<open>1 / 20\<close> three, a frame of one second the three that
  \<open>maxSteps\<close> allows, a frame of zero none, and a frame of \<open>1 / 30\<close> at most three.
\<close>

theorem update_executes_sub_steps_witness:
  "exact_upto exact 100
   \<and> fdiv exact (Num 1) (Num 60) = Num (1 / 60)
   \<and> timeScale (addBody 7 (new_engine exact)) = Num 1
   \<and> maxSteps (addBody 7 (new_engine exact)) = Num (real 3)
   \<and> update_steps exact (Num (1 / 100)) (addBody 7 (new_engine exact)) = Num (real 1)
   \<and> sub_steps exact (Num (1 / 100)) (addBody 7 (new_engine exact)) = Some 1
   \<and> update_steps exact (Num (1 / 20)) (addBody 7 (new_engine exact)) = Num (real 3)
   \<and> sub_steps exact (Num (1 / 20)) (addBody 7 (new_engine exact)) = Some 3
   \<and> sub_steps exact (Num 1) (addBody 7 (new_engine exact)) = Some 3
   \<and> update exact (Num 1) (addBody 7 (new_engine exact))
        (\<lambda>r. make_body 0 1 2 (1, 1) 0 False) (\<lambda>v. vec 0 0)
      = Some ((step exact (Num (1 / 60)) (addBody 7 (new_engine exact))
                 (\<lambda>r. make_body 0 1 2 (1, 1) 0 False) ^^ 3) (\<lambda>v. vec 0 0))
   \<and> sub_steps exact (Num 0) (addBody 7 (new_engine exact)) = Some 0
   \<and> (\<exists>j. j \<le> 3
         \<and> update_steps exact (Num (1 / 30)) (addBody 7 (new_engine exact)) = Num (real j)
         \<and> sub_steps exact (Num (1 / 30)) (addBody 7 (new_engine exact)) = Some j)"
proof -
  let ?E = "addBody 7 (new_engine exact)"
  let ?h = "\<lambda>r::ref. make_body 0 1 2 (1, 1) 0 False"
  let ?st = "\<lambda>v::vref. vec 0 0"
  have ex: "exact_upto exact 100" by (rule exact_upto_exact)
  have E: "timeScale ?E = Num 1" "maxSteps ?E = Num (real 3)" "maxSteps ?E = Num 3"
    by (simp_all add: addBody_def new_engine_def)
  have f: "fdiv exact (Num 1) (Num 60) = Num (1 / 60)"
    by (simp add: exact_def)
  have s1: "update_steps exact (Num (1 / 100)) ?E = Num (real 1)"
    and s2: "update_steps exact (Num (1 / 20)) ?E = Num (real 3)"
    and s3: "update_steps exact (Num 1) ?E = Num (real 3)"
    and s0: "\<not> Num 0 < update_steps exact (Num 0) ?E"
    by (simp_all add: update_steps_def fixedTimeStep_def exact_def E)
  note t = update_executes_sub_steps [OF ex]
  note B = t [THEN conjunct2, THEN conjunct1, rule_format]
  note D = t [THEN conjunct2, THEN conjunct2, THEN conjunct2, THEN conjunct1, rule_format]
  have le: "(1::nat) \<le> 100" "(3::nat) \<le> 100" by simp_all
  have c1: "sub_steps exact (Num (1 / 100)) ?E = Some 1"
    using D [of "Num (1 / 100)" ?E 1 ?h ?st, OF conjI [OF s1 le(1)]] by (rule conjunct1)
  have c2: "sub_steps exact (Num (1 / 20)) ?E = Some 3"
    using D [of "Num (1 / 20)" ?E 3 ?h ?st, OF conjI [OF s2 le(2)]] by (rule conjunct1)
  have c3: "sub_steps exact (Num 1) ?E = Some 3
      \<and> update exact (Num 1) ?E ?h ?st
          = Some ((step exact (fdiv exact (Num 1) (Num 60)) ?E ?h ^^ 3) ?st)"
    by (rule D [of "Num 1" ?E 3 ?h ?st, OF conjI [OF s3 le(2)]])
  have c0: "sub_steps exact (Num 0) ?E = Some 0"
    using B [of "Num 0" ?E ?h ?st, OF s0] by (rule conjunct1)
  note G = t [THEN conjunct2, THEN conjunct2, THEN conjunct2, THEN conjunct2, THEN conjunct1,
      rule_format]
  have pre: "(\<forall>y. 0 \<le> y \<longrightarrow> Num 0 \<le> exact y) \<and> fdiv exact (Num 1) (Num 60) = Num (1 / 60)
      \<and> 0 < (1 / 60 :: real) \<and> Num (1 / 30) = Num (1 / 30) \<and> 0 \<le> (1 / 30 :: real)
      \<and> timeScale ?E = Num 1 \<and> 0 \<le> (1 :: real) \<and> maxSteps ?E = Num (real 3)
      \<and> (3 :: nat) \<le> 100"
    using exact_nonneg f E(1,2) by simp
  have "\<exists>j. j \<le> 3 \<and> update_steps exact (Num (1 / 30)) ?E = Num (real j)
      \<and> sub_steps exact (Num (1 / 30)) ?E = Some j
      \<and> update exact (Num (1 / 30)) ?E ?h ?st
          = Some ((step exact (fdiv exact (Num 1) (Num 60)) ?E ?h ^^ j) ?st)"
    using pre by (rule G)
  then have c4: "\<exists>j. j \<le> 3 \<and> update_steps exact (Num (1 / 30)) ?E = Num (real j)
      \<and> sub_steps exact (Num (1 / 30)) ?E = Some j"
    by blast
  show ?thesis
    using ex f E(1,2) s1 s2 c1 c2 c3 c0 c4 by (simp only: f simp_thms)
qed

text \<open>
  The configuration is stored as given. With \<open>maxSteps = 2.5\<close> a frame of one second
  runs three sub-steps, and \<open>min(maxSteps, ceil(...))\<close> is \<open>2.5\<close>; with \<open>maxSteps = -1\<close>
  or \<open>timeScale = -1\<close> it runs none, and \<open>min(maxSteps, ceil(...))\<close> is negative.
\<close>

theorem update_sub_steps_counterexample:
  "Num 0 \<le> Num 1
   \<and> sub_steps exact (Num 1)
        (initialize \<lparr>config_gravity = None, config_timeScale = None,
           config_maxSteps = Some (Num (5 / 2))\<rparr> (new_engine exact)) = Some 3
   \<and> Math_min
        (maxSteps (initialize \<lparr>config_gravity = None, config_timeScale = None,
           config_maxSteps = Some (Num (5 / 2))\<rparr> (new_engine exact)))
        (Math_ceil (fdiv exact (fmul exact (Num 1) (timeScale (initialize \<lparr>config_gravity = None,
           config_timeScale = None, config_maxSteps = Some (Num (5 / 2))\<rparr> (new_engine exact))))
           (fdiv exact (Num 1) (Num 60)))) = Num (5 / 2)
   \<and> sub_steps exact (Num 1)
        (initialize \<lparr>config_gravity = None, config_timeScale = None,
           config_maxSteps = Some (Num (- 1))\<rparr> (new_engine exact)) = Some 0
   \<and> Math_min
        (maxSteps (initialize \<lparr>config_gravity = None, config_timeScale = None,
           config_maxSteps = Some (Num (- 1))\<rparr> (new_engine exact)))
        (Math_ceil (fdiv exact (fmul exact (Num 1) (timeScale (initialize \<lparr>config_gravity = None,
           config_timeScale = None, config_maxSteps = Some (Num (- 1))\<rparr> (new_engine exact))))
           (fdiv exact (Num 1) (Num 60)))) = Num (- 1)
   \<and> sub_steps exact (Num 1)
        (initialize \<lparr>config_gravity = None, config_timeScale = Some (Num (- 1)),
           config_maxSteps = None\<rparr> (new_engine exact)) = Some 0
   \<and> Math_min
        (maxSteps (initialize \<lparr>config_gravity = None, config_timeScale = Some (Num (- 1)),
           config_maxSteps = None\<rparr> (new_engine exact)))
        (Math_ceil (fdiv exact (fmul exact (Num 1) (timeScale (initialize \<lparr>config_gravity = None,
           config_timeScale = Some (Num (- 1)), config_maxSteps = None\<rparr> (new_engine exact))))
           (fdiv exact (Num 1) (Num 60)))) = Num (- 60)"
proof -
  let ?E1 = "initialize \<lparr>config_gravity = None, config_timeScale = None,
           config_maxSteps = Some (Num (5 / 2))\<rparr> (new_engine exact)"
  let ?E2 = "initialize \<lparr>config_gravity = None, config_timeScale = None,
           config_maxSteps = Some (Num (- 1))\<rparr> (new_engine exact)"
  let ?E3 = "initialize \<lparr>config_gravity = None, config_timeScale = Some (Num (- 1)),
           config_maxSteps = None\<rparr> (new_engine exact)"
  have ex: "exact_upto exact 3" by (rule exact_upto_exact)
  have E: "maxSteps ?E1 = Num (5 / 2)" "timeScale ?E1 = Num 1"
    "maxSteps ?E2 = Num (- 1)" "timeScale ?E2 = Num 1"
    "maxSteps ?E3 = Num 3" "timeScale ?E3 = Num (- 1)"
    by (simp_all add: initialize_def new_engine_def)
  have s: "update_steps exact (Num 1) ?E1 = Num (5 / 2)"
    "update_steps exact (Num 1) ?E2 = Num (- 1)"
    "update_steps exact (Num 1) ?E3 = Num (- 60)"
    unfolding update_steps_def fixedTimeStep_def Let_def E by (simp_all add: exact_def)
  have "loop_count (update_steps exact (Num 1) ?E1) = 3"
    unfolding s by (simp add: loop_count_def)
  then have c1: "sub_steps exact (Num 1) ?E1 = Some 3"
    using sub_steps_count [OF ex, of "Num 1" ?E1] s(1) by simp
  have c2: "sub_steps exact (Num 1) ?E2 = Some 0"
    by (rule update_no_step(2)) (simp add: s)
  have c3: "sub_steps exact (Num 1) ?E3 = Some 0"
    by (rule update_no_step(2)) (simp add: s)
  have f: "Math_min (maxSteps ?E1)
        (Math_ceil (fdiv exact (fmul exact (Num 1) (timeScale ?E1)) (fdiv exact (Num 1) (Num 60))))
      = Num (5 / 2)"
    "Math_min (maxSteps ?E2)
        (Math_ceil (fdiv exact (fmul exact (Num 1) (timeScale ?E2)) (fdiv exact (Num 1) (Num 60))))
      = Num (- 1)"
    "Math_min (maxSteps ?E3)
        (Math_ceil (fdiv exact (fmul exact (Num 1) (timeScale ?E3)) (fdiv exact (Num 1) (Num 60))))
      = Num (- 60)"
    unfolding E by (simp_all add: exact_def)
  show ?thesis
    using c1 c2 c3 f by simp
qed

section \<open>The time scale\<close>

lemma update_steps_timeScale_zero:
  assumes z: "rnd 0 = Num 0" and t: "timeScale e = Num 0" and d: "Num 0 \<le> deltaTime"
  shows "\<not> Num 0 < update_steps rnd deltaTime e"
proof -
  have a: "fmul rnd deltaTime (Num 0) = Num 0 \<or> fmul rnd deltaTime (Num 0) = NaN"
    using d z by (cases deltaTime) simp_all
  have b: "fdiv rnd (Num 0) y = Num 0 \<or> fdiv rnd (Num 0) y = NaN" for y
    using z by (cases y) simp_all
  have "fdiv rnd NaN y = NaN" for y
    by (cases y) simp_all
  with a b have "fdiv rnd (fmul rnd deltaTime (Num 0)) (fixedTimeStep rnd) = Num 0
      \<or> fdiv rnd (fmul rnd deltaTime (Num 0)) (fixedTimeStep rnd) = NaN"
    by metis
  then have "\<not> Num 0 < Math_ceil (fdiv rnd (fmul rnd deltaTime (Num 0)) (fixedTimeStep rnd))"
    by auto
  then show ?thesis
    unfolding update_steps_def Let_def t by (rule Math_min_not_pos2)
qed

text \<open>
  C8. When \<open>timeScale = 0\<close>, every \<open>update(deltaTime)\<close> with \<open>deltaTime \<ge> 0\<close>
  (\<open>+Infinity\<close> included) executes zero sub-steps and returns, and every position,
  velocity and acceleration is unchanged across any number of \<open>update\<close> calls. The
  hypothesis on the rounding, that zero is a number, is true of the doubles.
\<close>

theorem timeScale_zero_freezes:
  "rnd 0 = Num 0 \<Longrightarrow>
   (\<forall>(deltaTime, e) \<in> set calls. timeScale e = Num 0 \<and> Num 0 \<le> deltaTime) \<Longrightarrow>
   (\<forall>(deltaTime, e) \<in> set calls.
      sub_steps rnd deltaTime e = Some 0 \<and> update rnd deltaTime e h st = Some st)
   \<and> updates rnd h calls st = Some st"
proof (induction calls)
  case Nil
  show ?case by simp
next
  case (Cons c calls)
  obtain deltaTime e where c: "c = (deltaTime, e)" by (cases c)
  from Cons.prems c have "\<not> Num 0 < update_steps rnd deltaTime e"
    by (simp add: update_steps_timeScale_zero)
  then have "sub_steps rnd deltaTime e = Some 0" "update rnd deltaTime e h st = Some st"
    by (rule update_no_step)+
  with Cons show ?case using c by simp
qed

text \<open>
  An engine with time scale zero and a registered body: a frame of five seconds and a
  frame of \<open>+Infinity\<close> run no sub-step and leave the store as it was.
\<close>

theorem timeScale_zero_freezes_witness:
  "exact 0 = Num 0
   \<and> timeScale (setTimeScale (Num 0) (addBody 7 (new_engine exact))) = Num 0
   \<and> Num 0 \<le> Num 5 \<and> Num 0 \<le> PosInf
   \<and> sub_steps exact (Num 5) (setTimeScale (Num 0) (addBody 7 (new_engine exact))) = Some 0
   \<and> sub_steps exact PosInf (setTimeScale (Num 0) (addBody 7 (new_engine exact))) = Some 0
   \<and> updates exact (\<lambda>r. make_body 0 1 2 (1, 1) 0 False)
        [(Num 5, setTimeScale (Num 0) (addBody 7 (new_engine exact))),
         (PosInf, setTimeScale (Num 0) (addBody 7 (new_engine exact)))]
        ((\<lambda>v. vec 0 0)(0 := vec 3 4))
      = Some ((\<lambda>v. vec 0 0)(0 := vec 3 4))"
proof -
  let ?E = "setTimeScale (Num 0) (addBody 7 (new_engine exact))"
  have z: "exact 0 = Num 0" by (simp add: exact_def)
  have E: "timeScale ?E = Num 0"
    by (simp add: setTimeScale_def)
  have c: "\<forall>(deltaTime, e) \<in> set [(Num 5, ?E), (PosInf, ?E)]. timeScale e = Num 0 \<and> Num 0 \<le> deltaTime"
    by (simp add: E)
  note t = timeScale_zero_freezes [where rnd = exact and calls = "[(Num 5, ?E), (PosInf, ?E)]"
      and h = "\<lambda>r. make_body 0 1 2 (1, 1) 0 False" and st = "(\<lambda>v. vec 0 0)(0 := vec 3 4)",
      OF z c]
  from t have "sub_steps exact (Num 5) ?E = Some 0" "sub_steps exact PosInf ?E = Some 0"
    by simp_all
  with t z E show ?thesis by simp
qed

text \<open>
  C9 (as amended). \<open>setTimeScale(scale)\<close> stores \<open>Math.max(0, scale)\<close>: a negative
  scale is clamped to zero by the setter itself, a non-negative scale is stored unchanged,
  so for every scale other than \<open>NaN\<close> the stored time scale is \<open>\<ge> 0\<close>; for \<open>NaN\<close> it
  stores \<open>NaN\<close>. The setter changes nothing else. \<open>update\<close> does not clamp: it computes
  its number of steps from the stored time scale as it is, which for a stored \<open>-1\<close> and a
  frame of one second is \<open>-60\<close>.
\<close>

theorem setTimeScale_clamps:
  "timeScale (setTimeScale scale e) = Math_max (Num 0) scale
   \<and> (scale < Num 0 \<longrightarrow> timeScale (setTimeScale scale e) = Num 0)
   \<and> (Num 0 \<le> scale \<longrightarrow> timeScale (setTimeScale scale e) = scale)
   \<and> (scale \<noteq> NaN \<longrightarrow> Num 0 \<le> timeScale (setTimeScale scale e))
   \<and> (scale = NaN \<longrightarrow> timeScale (setTimeScale scale e) = NaN)
   \<and> gravity (setTimeScale scale e) = gravity e
   \<and> maxSteps (setTimeScale scale e) = maxSteps e
   \<and> bodies (setTimeScale scale e) = bodies e
   \<and> update_steps rnd deltaTime e
       = Math_min (maxSteps e)
           (Math_ceil (fdiv rnd (fmul rnd deltaTime (timeScale e)) (fdiv rnd (Num 1) (Num 60))))
   \<and> update_steps exact (Num 1) ((new_engine exact)\<lparr>timeScale := Num (- 1)\<rparr>) = Num (- 60)"
  by (cases scale)
    (simp_all add: setTimeScale_def update_steps_def fixedTimeStep_def new_engine_def exact_def)

theorem setTimeScale_clamps_witness:
  "Num (- 2) < Num 0 \<and> timeScale (setTimeScale (Num (- 2)) (new_engine exact)) = Num 0
   \<and> NegInf < Num 0 \<and> timeScale (setTimeScale NegInf (new_engine exact)) = Num 0
   \<and> Num 0 \<le> Num (1 / 2)
   \<and> timeScale (setTimeScale (Num (1 / 2)) (new_engine exact)) = Num (1 / 2)
   \<and> Num 0 \<le> PosInf \<and> timeScale (setTimeScale PosInf (new_engine exact)) = PosInf
   \<and> timeScale (setTimeScale NaN (new_engine exact)) = NaN"
  using setTimeScale_clamps [of "Num (- 2)" "new_engine exact"]
    setTimeScale_clamps [of "Num (1 / 2)" "new_engine exact"]
    setTimeScale_clamps [of NegInf "new_engine exact"]
    setTimeScale_clamps [of PosInf "new_engine exact"]
    setTimeScale_clamps [of NaN "new_engine exact"]
  by simp

text \<open>
  \<open>setTimeScale(NaN)\<close> stores \<open>NaN\<close>, which is not \<open>\<ge> 0\<close>.
\<close>

theorem setTimeScale_counterexample:
  "timeScale (setTimeScale NaN (new_engine exact)) = NaN
   \<and> \<not> Num 0 \<le> timeScale (setTimeScale NaN (new_engine exact))"
  by (simp add: setTimeScale_def)

section \<open>The collision test and separating bodies\<close>

lemma exact_upto_numeral:
  "exact_upto rnd m \<Longrightarrow> numeral k \<le> m \<Longrightarrow> rnd (numeral k) = Num (numeral k)"
  unfolding exact_upto_def by (metis of_nat_numeral)

text \<open>
  C4. The test reports no collision iff one of the four strict separating conditions
  holds, the edges being the position (top-left corner) and the position plus the bounds,
  the sums rounded as the code computes them; so for finite boxes it reports a collision
  iff the closed boxes with these edges meet, touching edges included. The boxes
  \<open>[0,0,10,10]\<close> and \<open>[5,5,10,10]\<close> collide, \<open>[0,0,10,10]\<close> and \<open>[11,0,10,10]\<close> do not,
  and \<open>[0,0,10,10]\<close> and \<open>[10,0,10,10]\<close>, which touch, collide, for every rounding that
  leaves the integers up to 21 as they are.
\<close>

theorem isColliding_separating_conditions:
  "(\<not> isColliding rnd bodyA bodyB st) =
     (fadd rnd (vec_x (st (position bodyA))) (width (bounds bodyA)) < vec_x (st (position bodyB))
      \<or> vec_x (st (position bodyA))
          > fadd rnd (vec_x (st (position bodyB))) (width (bounds bodyB))
      \<or> fadd rnd (vec_y (st (position bodyA))) (height (bounds bodyA))
          < vec_y (st (position bodyB))
      \<or> vec_y (st (position bodyA))
          > fadd rnd (vec_y (st (position bodyB))) (height (bounds bodyB)))
   \<and> (st (position bodyA) = \<lparr>vec_x = Num ax, vec_y = Num ay\<rparr>
        \<and> bounds bodyA = \<lparr>width = Num aw, height = Num ah\<rparr>
        \<and> st (position bodyB) = \<lparr>vec_x = Num bx, vec_y = Num by\<rparr>
        \<and> bounds bodyB = \<lparr>width = Num bw, height = Num bh\<rparr>
        \<and> rnd (ax + aw) = Num ar \<and> rnd (ay + ah) = Num ab
        \<and> rnd (bx + bw) = Num br \<and> rnd (by + bh) = Num bb \<longrightarrow>
        isColliding rnd bodyA bodyB st = (bx \<le> ar \<and> ax \<le> br \<and> by \<le> ab \<and> ay \<le> bb))
   \<and> (st (position bodyA) = \<lparr>vec_x = Num ax, vec_y = Num ay\<rparr>
        \<and> bounds bodyA = \<lparr>width = Num aw, height = Num ah\<rparr>
        \<and> st (position bodyB) = \<lparr>vec_x = Num bx, vec_y = Num by\<rparr>
        \<and> bounds bodyB = \<lparr>width = Num bw, height = Num bh\<rparr> \<longrightarrow>
        isColliding exact bodyA bodyB st
          = (bx \<le> ax + aw \<and> ax \<le> bx + bw \<and> by \<le> ay + ah \<and> ay \<le> by + bh))
   \<and> (exact_upto rnd 21
        \<and> st (position bodyA) = \<lparr>vec_x = Num 0, vec_y = Num 0\<rparr>
        \<and> bounds bodyA = \<lparr>width = Num 10, height = Num 10\<rparr>
        \<and> st (position bodyB) = \<lparr>vec_x = Num 5, vec_y = Num 5\<rparr>
        \<and> bounds bodyB = \<lparr>width = Num 10, height = Num 10\<rparr> \<longrightarrow>
        isColliding rnd bodyA bodyB st)
   \<and> (exact_upto rnd 21
        \<and> st (position bodyA) = \<lparr>vec_x = Num 0, vec_y = Num 0\<rparr>
        \<and> bounds bodyA = \<lparr>width = Num 10, height = Num 10\<rparr>
        \<and> st (position bodyB) = \<lparr>vec_x = Num 11, vec_y = Num 0\<rparr>
        \<and> bounds bodyB = \<lparr>width = Num 10, height = Num 10\<rparr> \<longrightarrow>
        \<not> isColliding rnd bodyA bodyB st)
   \<and> (exact_upto rnd 21
        \<and> st (position bodyA) = \<lparr>vec_x = Num 0, vec_y = Num 0\<rparr>
        \<and> bounds bodyA = \<lparr>width = Num 10, height = Num 10\<rparr>
        \<and> st (position bodyB) = \<lparr>vec_x = Num 10, vec_y = Num 0\<rparr>
        \<and> bounds bodyB = \<lparr>width = Num 10, height = Num 10\<rparr> \<longrightarrow>
        isColliding rnd bodyA bodyB st)"
proof -
  have r: "rnd 10 = Num 10" "rnd 15 = Num 15" "rnd 20 = Num 20" "rnd 21 = Num 21"
    if "exact_upto rnd 21"
    using that by (simp_all add: exact_upto_numeral)
  show ?thesis
    by (auto simp add: isColliding_def Let_def exact_def r)
qed

text \<open>
  The three pairs of boxes, without rounding.
\<close>

theorem isColliding_separating_conditions_witness:
  "exact_upto exact 21
   \<and> isColliding exact (make_body 0 1 2 (10, 10) 0 False) (make_body 3 4 5 (10, 10) 0 False)
        ((\<lambda>v. vec 0 0)(3 := vec 5 5))
   \<and> \<not> isColliding exact (make_body 0 1 2 (10, 10) 0 False) (make_body 3 4 5 (10, 10) 0 False)
        ((\<lambda>v. vec 0 0)(3 := vec 11 0))
   \<and> isColliding exact (make_body 0 1 2 (10, 10) 0 False) (make_body 3 4 5 (10, 10) 0 False)
        ((\<lambda>v. vec 0 0)(3 := vec 10 0))"
proof -
  let ?A = "make_body 0 1 2 (10, 10) 0 False" and ?B = "make_body 3 4 5 (10, 10) 0 False"
  have ex: "exact_upto exact 21" by (rule exact_upto_exact)
  have b: "bounds ?A = \<lparr>width = Num 10, height = Num 10\<rparr>"
    "bounds ?B = \<lparr>width = Num 10, height = Num 10\<rparr>" "position ?A = 0" "position ?B = 3"
    by (simp_all add: make_body_def)
  note t = isColliding_separating_conditions [where rnd = exact and bodyA = ?A and bodyB = ?B]
  have "isColliding exact ?A ?B ((\<lambda>v. vec 0 0)(3 := vec 5 5))"
    using t [of "(\<lambda>v. vec 0 0)(3 := vec 5 5)"] ex b by (simp add: vec_def)
  moreover have "\<not> isColliding exact ?A ?B ((\<lambda>v. vec 0 0)(3 := vec 11 0))"
    using t [of "(\<lambda>v. vec 0 0)(3 := vec 11 0)"] ex b by (simp add: vec_def)
  moreover have "isColliding exact ?A ?B ((\<lambda>v. vec 0 0)(3 := vec 10 0))"
    using t [of "(\<lambda>v. vec 0 0)(3 := vec 10 0)"] ex b by (simp add: vec_def)
  ultimately show ?thesis using ex by simp
qed

text \<open>
  C7. When the relative velocity along the collision normal is positive, the resolver
  changes nothing: the store after it is the store before it, so neither body's velocity
  nor position changes, although the boxes may overlap.
\<close>

theorem resolveCollision_separating_skipped:
  "relativeVelocity rnd bodyA bodyB st > Num 0 \<Longrightarrow>
   resolveCollision rnd bodyA bodyB st = st
   \<and> resolveCollision rnd bodyA bodyB st (velocity bodyA) = st (velocity bodyA)
   \<and> resolveCollision rnd bodyA bodyB st (position bodyA) = st (position bodyA)
   \<and> resolveCollision rnd bodyA bodyB st (velocity bodyB) = st (velocity bodyB)
   \<and> resolveCollision rnd bodyA bodyB st (position bodyB) = st (position bodyB)"
  by (simp add: resolveCollision_def Let_def)

lemma sqrt_25: "sqrt 25 = 5"
  by (rule real_sqrt_unique) simp_all

lemma sqrt_100: "sqrt 100 = 10"
  by (rule real_sqrt_unique) simp_all

lemmas collision_defs = collision_dx_def collision_dy_def collision_length_def collision_nx_def
  collision_ny_def relativeVelocity_def collision_impulse_def collision_overlap_def

lemmas exact_ops = exact_def fsub_def infinity_def

theorem resolveCollision_separating_skipped_witness:
  "isColliding exact (make_body 10 11 12 (10, 10) 0 False) (make_body 20 21 22 (10, 10) 0 False)
     ((\<lambda>v. vec 0 0)(11 := vec (- 1) 0, 20 := vec 5 0, 21 := vec 1 0))
   \<and> relativeVelocity exact (make_body 10 11 12 (10, 10) 0 False)
        (make_body 20 21 22 (10, 10) 0 False)
        ((\<lambda>v. vec 0 0)(11 := vec (- 1) 0, 20 := vec 5 0, 21 := vec 1 0)) = Num 2
   \<and> Num 2 > Num 0
   \<and> resolveCollision exact (make_body 10 11 12 (10, 10) 0 False)
        (make_body 20 21 22 (10, 10) 0 False)
        ((\<lambda>v. vec 0 0)(11 := vec (- 1) 0, 20 := vec 5 0, 21 := vec 1 0))
      = (\<lambda>v. vec 0 0)(11 := vec (- 1) 0, 20 := vec 5 0, 21 := vec 1 0)"
proof -
  let ?A = "make_body 10 11 12 (10, 10) 0 False"
  let ?B = "make_body 20 21 22 (10, 10) 0 False"
  let ?st = "(\<lambda>v::vref. vec 0 0)(11 := vec (- 1) 0, 20 := vec 5 0, 21 := vec 1 0)"
  have c: "isColliding exact ?A ?B ?st"
    by (simp add: make_body_def vec_def isColliding_def exact_ops)
  have rv: "relativeVelocity exact ?A ?B ?st = Num 2"
    by (simp add: make_body_def vec_def collision_defs Let_def exact_ops sqrt_25)
  have gt: "relativeVelocity exact ?A ?B ?st > Num 0"
    by (simp add: rv)
  have "resolveCollision exact ?A ?B ?st = ?st"
    using resolveCollision_separating_skipped [OF gt] by (rule conjunct1)
  with c rv show ?thesis by simp
qed

section \<open>Static bodies\<close>

lemmas assign_defs = set_x_def set_y_def add_x_def add_y_def sub_x_def sub_y_def

lemma assign_frame:
  "v \<noteq> w \<Longrightarrow> set_x w a st v = st v" "v \<noteq> w \<Longrightarrow> set_y w a st v = st v"
  "v \<noteq> w \<Longrightarrow> add_x rnd w a st v = st v" "v \<noteq> w \<Longrightarrow> add_y rnd w a st v = st v"
  "v \<noteq> w \<Longrightarrow> sub_x rnd w a st v = st v" "v \<noteq> w \<Longrightarrow> sub_y rnd w a st v = st v"
  by (simp_all add: assign_defs)

lemma integrate_frame:
  "v \<notin> body_vecs body0 \<Longrightarrow> integrate rnd g deltaTime body0 st v = st v"
  by (simp add: integrate_def Let_def body_vecs_def assign_frame)

lemma resolveCollision_frame:
  assumes "isStatic bodyA \<or> (v \<noteq> position bodyA \<and> v \<noteq> velocity bodyA)"
    and "isStatic bodyB \<or> (v \<noteq> position bodyB \<and> v \<noteq> velocity bodyB)"
  shows "resolveCollision rnd bodyA bodyB st v = st v"
  using assms by (auto simp add: resolveCollision_def Let_def assign_frame)

lemma written_Cons:
  "written h (r # rs) = (if isStatic (h r) then {} else body_vecs (h r)) \<union> written h rs"
  by (simp add: written_def)

lemma written_mem:
  "r \<in> set rs \<Longrightarrow> \<not> isStatic (h r) \<Longrightarrow> body_vecs (h r) \<subseteq> written h rs"
  by (auto simp add: written_def)

lemma integrate_all_frame:
  "v \<notin> written h rs \<Longrightarrow> integrate_all rnd g deltaTime h rs st v = st v"
proof (induction rs arbitrary: st)
  case Nil
  show ?case by simp
next
  case (Cons r rs)
  from Cons.prems have a: "isStatic (h r) \<or> v \<notin> body_vecs (h r)" and b: "v \<notin> written h rs"
    by (auto simp add: written_Cons split: if_splits)
  have "(if isStatic (h r) then st else integrate rnd g deltaTime (h r) st) v = st v"
    using a by (auto simp add: integrate_frame)
  with Cons.IH [OF b] show ?case by simp
qed

lemma resolve_written_frame:
  assumes "v \<notin> written h rs" "a \<in> set rs" "b \<in> set rs"
  shows "resolveCollision rnd (h a) (h b) st v = st v"
proof (rule resolveCollision_frame)
  show "isStatic (h a) \<or> (v \<noteq> position (h a) \<and> v \<noteq> velocity (h a))"
    using assms(1) written_mem [OF assms(2), of h] by (auto simp add: body_vecs_def)
  show "isStatic (h b) \<or> (v \<noteq> position (h b) \<and> v \<noteq> velocity (h b))"
    using assms(1) written_mem [OF assms(3), of h] by (auto simp add: body_vecs_def)
qed

lemma inner_frame:
  "v \<notin> written h rs \<Longrightarrow> a \<in> set rs \<Longrightarrow> set rest \<subseteq> set rs \<Longrightarrow>
   checkCollisions_inner rnd h a rest st v = st v"
proof (induction rest arbitrary: st)
  case Nil
  show ?case by simp
next
  case (Cons b rest)
  have "(if isColliding rnd (h a) (h b) st then resolveCollision rnd (h a) (h b) st else st) v
      = st v"
    using Cons.prems by (simp add: resolve_written_frame)
  moreover have "set rest \<subseteq> set rs" using Cons.prems by simp
  ultimately show ?case using Cons.IH [OF Cons.prems(1,2)] by simp
qed

lemma outer_frame:
  "v \<notin> written h rs \<Longrightarrow> set rs' \<subseteq> set rs \<Longrightarrow> checkCollisions_outer rnd h rs' st v = st v"
proof (induction rs' arbitrary: st)
  case Nil
  show ?case by simp
next
  case (Cons a rest)
  have a: "a \<in> set rs" and r: "set rest \<subseteq> set rs" using Cons.prems by simp_all
  have "checkCollisions_inner rnd h a rest st v = st v"
    using Cons.prems(1) a r by (rule inner_frame)
  with Cons.IH [OF Cons.prems(1) r] show ?case by simp
qed

lemma step_frame: "v \<notin> written h (bodies e) \<Longrightarrow> step rnd deltaTime e h st v = st v"
  by (simp add: step_def checkCollisions_def outer_frame integrate_all_frame)

lemma steps_frame:
  "v \<notin> written h (bodies e) \<Longrightarrow> (step rnd deltaTime e h ^^ n) st v = st v"
  by (induction n) (simp_all add: step_frame)

lemma for_loop_funpow_ex:
  assumes "for_loop rnd i steps body s = Some s'"
  shows "\<exists>n. s' = (body ^^ n) s"
proof (rule for_loop.raw_induct
    [where P = "\<lambda>rnd i steps body s y. \<exists>n. y = (body ^^ n) s", OF _ assms])
  fix loop :: "rounding \<Rightarrow> num \<Rightarrow> num \<Rightarrow> ('a \<Rightarrow> 'a) \<Rightarrow> 'a \<Rightarrow> 'a option"
    and rnd i steps body s y
  assume IH: "\<And>rnd i steps body s y.
      loop rnd i steps body s = Some y \<Longrightarrow> \<exists>n. y = (body ^^ n) s"
    and eq: "(if i < steps then loop rnd (fadd rnd i (Num 1)) steps body (body s) else Some s)
      = Some y"
  show "\<exists>n. y = (body ^^ n) s"
  proof (cases "i < steps")
    case True
    with eq have "loop rnd (fadd rnd i (Num 1)) steps body (body s) = Some y" by simp
    from IH [OF this] obtain n where "y = (body ^^ n) (body s)" by blast
    then have "y = (body ^^ Suc n) s" by (simp add: funpow_swap1)
    then show ?thesis by blast
  next
    case False
    with eq have "y = (body ^^ 0) s" by simp
    then show ?thesis by blast
  qed
qed

lemma update_funpow_ex:
  "update rnd deltaTime e h st = Some st' \<Longrightarrow>
   \<exists>n. st' = (step rnd (fixedTimeStep rnd) e h ^^ n) st"
  unfolding update_def by (rule for_loop_funpow_ex)

lemma update_frame:
  "v \<notin> written h (bodies e) \<Longrightarrow> update rnd deltaTime e h st = Some st' \<Longrightarrow> st' v = st v"
  using update_funpow_ex steps_frame by metis

lemma updates_frame:
  "(\<forall>(deltaTime, e) \<in> set calls. v \<notin> written h (bodies e)) \<Longrightarrow>
   updates rnd h calls st = Some st' \<Longrightarrow> st' v = st v"
proof (induction calls arbitrary: st)
  case Nil
  then show ?case by simp
next
  case (Cons c calls)
  obtain deltaTime e where c: "c = (deltaTime, e)" by (cases c)
  from Cons.prems(2) c obtain st1 where u: "update rnd deltaTime e h st = Some st1"
    and r: "updates rnd h calls st1 = Some st'"
    by (auto split: option.splits)
  from Cons.prems(1) c have w: "v \<notin> written h (bodies e)"
    and rest: "\<forall>(deltaTime, e) \<in> set calls. v \<notin> written h (bodies e)"
    by simp_all
  have "st1 v = st v"
    using w u by (rule update_frame)
  moreover have "st' v = st1 v"
    using rest r by (rule Cons.IH)
  ultimately show ?case by simp
qed

lemma updates_total:
  assumes ex: "exact_upto rnd m"
  shows "(\<forall>(deltaTime, e) \<in> set calls.
      loop_count (update_steps rnd deltaTime e) \<le> m \<and> update_steps rnd deltaTime e \<noteq> PosInf) \<Longrightarrow>
    \<exists>st'. updates rnd h calls st = Some st'"
proof (induction calls arbitrary: st)
  case Nil
  show ?case by simp
next
  case (Cons c calls)
  obtain deltaTime e where c: "c = (deltaTime, e)" by (cases c)
  from Cons.prems c have a: "loop_count (update_steps rnd deltaTime e) \<le> m"
    and b: "update_steps rnd deltaTime e \<noteq> PosInf"
    and rest: "\<forall>(deltaTime, e) \<in> set calls.
      loop_count (update_steps rnd deltaTime e) \<le> m \<and> update_steps rnd deltaTime e \<noteq> PosInf"
    by simp_all
  from update_count [OF ex a b, of h st] obtain st1
    where u: "update rnd deltaTime e h st = Some st1" by blast
  from Cons.IH [OF rest, of st1] obtain st' where "updates rnd h calls st1 = Some st'" by blast
  with u c show ?case by simp
qed

lemma written_iff:
  "(v \<in> written h rs) =
     (\<exists>r' \<in> set rs. \<not> isStatic (h r')
        \<and> (v = position (h r') \<or> v = velocity (h r') \<or> v = acceleration (h r')))"
  by (auto simp add: written_def body_vecs_def split: if_splits)

lemma static_not_written:
  assumes "isStatic (h r)" "\<forall>r' \<in> set rs. r' \<noteq> r \<longrightarrow> body_vecs (h r') \<inter> body_vecs (h r) = {}"
  shows "body_vecs (h r) \<inter> written h rs = {}"
proof -
  have "v \<notin> written h rs" if v: "v \<in> body_vecs (h r)" for v
  proof
    assume "v \<in> written h rs"
    then obtain r' where r': "r' \<in> set rs" "\<not> isStatic (h r')" "v \<in> body_vecs (h r')"
      by (auto simp add: written_def split: if_splits)
    with assms(1) have "r' \<noteq> r" by auto
    with assms(2) r' v show False by blast
  qed
  then show ?thesis by blast
qed

text \<open>
  C3 (as amended). The engine assigns to the position, velocity and acceleration objects
  of the registered non-static bodies and to no other vector object. So the position and
  velocity of a static body that shares no vector object with another registered body
  are the same before and after any sequence of \<open>update\<close> calls, whatever the frame
  times and the engine's gravity, time scale, step limit and registry at each call: a
  call whose \<open>steps\<close> is not \<open>+Infinity\<close> (and is below \<open>2\<^sup>5\<^sup>3\<close>) returns, and no
  sub-step of any call changes them. A vector object that is not one of a registered
  non-static body is the same after one \<open>update\<close>, any number of sub-steps, the
  integration loop (no gravity is accumulated), the pairwise scan and one resolution (no
  impulse and no positional correction).
\<close>

theorem static_body_never_mutated:
  "(v \<in> written h rs) =
     (\<exists>r' \<in> set rs. \<not> isStatic (h r')
        \<and> (v = position (h r') \<or> v = velocity (h r') \<or> v = acceleration (h r')))
   \<and> (isStatic (h r)
        \<and> (\<forall>r' \<in> set rs. r' \<noteq> r \<longrightarrow> body_vecs (h r') \<inter> body_vecs (h r) = {}) \<longrightarrow>
        position (h r) \<notin> written h rs \<and> velocity (h r) \<notin> written h rs)
   \<and> (v \<notin> written h (bodies e) \<longrightarrow>
        integrate_all rnd g deltaTime h (bodies e) st v = st v
        \<and> checkCollisions rnd e h st v = st v
        \<and> step rnd deltaTime e h st v = st v
        \<and> (step rnd deltaTime e h ^^ n) st v = st v
        \<and> (update rnd deltaTime e h st = Some st' \<longrightarrow> st' v = st v))
   \<and> ((\<forall>(deltaTime, e) \<in> set calls. v \<notin> written h (bodies e))
        \<and> updates rnd h calls st = Some st'' \<longrightarrow> st'' v = st v)
   \<and> (isStatic (h r)
        \<and> (\<forall>(deltaTime, e) \<in> set calls.
              position (h r) \<notin> written h (bodies e) \<and> velocity (h r) \<notin> written h (bodies e))
        \<and> updates rnd h calls st = Some st'' \<longrightarrow>
        st'' (position (h r)) = st (position (h r))
        \<and> st'' (velocity (h r)) = st (velocity (h r)))
   \<and> ((isStatic bodyA \<or> (v \<noteq> position bodyA \<and> v \<noteq> velocity bodyA))
        \<and> (isStatic bodyB \<or> (v \<noteq> position bodyB \<and> v \<noteq> velocity bodyB)) \<longrightarrow>
        resolveCollision rnd bodyA bodyB st v = st v)
   \<and> (exact_upto rnd m \<and> isStatic (h r)
        \<and> (\<forall>(deltaTime, e) \<in> set calls.
              position (h r) \<notin> written h (bodies e) \<and> velocity (h r) \<notin> written h (bodies e)
              \<and> loop_count (update_steps rnd deltaTime e) \<le> m
              \<and> update_steps rnd deltaTime e \<noteq> PosInf) \<longrightarrow>
        (\<exists>st1. updates rnd h calls st = Some st1
           \<and> st1 (position (h r)) = st (position (h r))
           \<and> st1 (velocity (h r)) = st (velocity (h r))))"
proof (intro conjI impI)
  show "(v \<in> written h rs) =
     (\<exists>r' \<in> set rs. \<not> isStatic (h r')
        \<and> (v = position (h r') \<or> v = velocity (h r') \<or> v = acceleration (h r')))"
    by (rule written_iff)
next
  assume a: "isStatic (h r)
        \<and> (\<forall>r' \<in> set rs. r' \<noteq> r \<longrightarrow> body_vecs (h r') \<inter> body_vecs (h r) = {})"
  then have "body_vecs (h r) \<inter> written h rs = {}"
    using static_not_written [of h r rs] by blast
  then show "position (h r) \<notin> written h rs" "velocity (h r) \<notin> written h rs"
    by (auto simp add: body_vecs_def)
next
  assume a: "v \<notin> written h (bodies e)"
  show "integrate_all rnd g deltaTime h (bodies e) st v = st v"
    using a by (rule integrate_all_frame)
  show "checkCollisions rnd e h st v = st v"
    using a by (simp add: checkCollisions_def outer_frame)
  show "step rnd deltaTime e h st v = st v"
    using a by (rule step_frame)
  show "(step rnd deltaTime e h ^^ n) st v = st v"
    using a by (rule steps_frame)
  show "st' v = st v" if "update rnd deltaTime e h st = Some st'"
    using a that by (rule update_frame)
next
  assume "(\<forall>(deltaTime, e) \<in> set calls. v \<notin> written h (bodies e))
        \<and> updates rnd h calls st = Some st''"
  then show "st'' v = st v"
    using updates_frame [of calls v h rnd st st''] by blast
next
  assume a: "isStatic (h r)
        \<and> (\<forall>(deltaTime, e) \<in> set calls.
              position (h r) \<notin> written h (bodies e) \<and> velocity (h r) \<notin> written h (bodies e))
        \<and> updates rnd h calls st = Some st''"
  then have p: "\<forall>(deltaTime, e) \<in> set calls. position (h r) \<notin> written h (bodies e)"
    and q: "\<forall>(deltaTime, e) \<in> set calls. velocity (h r) \<notin> written h (bodies e)"
    and u: "updates rnd h calls st = Some st''"
    by auto
  show "st'' (position (h r)) = st (position (h r))"
    using p u by (rule updates_frame)
  show "st'' (velocity (h r)) = st (velocity (h r))"
    using q u by (rule updates_frame)
next
  assume "(isStatic bodyA \<or> (v \<noteq> position bodyA \<and> v \<noteq> velocity bodyA))
        \<and> (isStatic bodyB \<or> (v \<noteq> position bodyB \<and> v \<noteq> velocity bodyB))"
  then show "resolveCollision rnd bodyA bodyB st v = st v"
    using resolveCollision_frame by blast
next
  assume a: "exact_upto rnd m \<and> isStatic (h r)
        \<and> (\<forall>(deltaTime, e) \<in> set calls.
              position (h r) \<notin> written h (bodies e) \<and> velocity (h r) \<notin> written h (bodies e)
              \<and> loop_count (update_steps rnd deltaTime e) \<le> m
              \<and> update_steps rnd deltaTime e \<noteq> PosInf)"
  then have ex: "exact_upto rnd m"
    and p: "\<forall>(deltaTime, e) \<in> set calls. position (h r) \<notin> written h (bodies e)"
    and q: "\<forall>(deltaTime, e) \<in> set calls. velocity (h r) \<notin> written h (bodies e)"
    and t: "\<forall>(deltaTime, e) \<in> set calls.
      loop_count (update_steps rnd deltaTime e) \<le> m \<and> update_steps rnd deltaTime e \<noteq> PosInf"
    by auto
  from updates_total [OF ex t, of h st] obtain st1
    where u: "updates rnd h calls st = Some st1" by blast
  have "st1 (position (h r)) = st (position (h r))" using p u by (rule updates_frame)
  moreover have "st1 (velocity (h r)) = st (velocity (h r))" using q u by (rule updates_frame)
  ultimately show "\<exists>st1. updates rnd h calls st = Some st1
           \<and> st1 (position (h r)) = st (position (h r))
           \<and> st1 (velocity (h r)) = st (velocity (h r))"
    using u by blast
qed

lemma sqrt_81: "sqrt 81 = 9"
  by (rule real_sqrt_unique) simp_all

lemma update_one_step:
  assumes "update_steps exact deltaTime e = Num 1"
  shows "update exact deltaTime e h st = Some (step exact (fixedTimeStep exact) e h st)"
proof -
  have "loop_count (update_steps exact deltaTime e) = 1"
    by (simp add: assms loop_count_def)
  then show ?thesis
    using update_count [of exact 1 deltaTime e h st] assms by (simp add: exact_upto_exact)
qed

text \<open>
  A static body whose position object is also the position of a registered dynamic body,
  at \<open>(0, 0)\<close> under gravity \<open>(0, 3600)\<close>: one \<open>update(1/60)\<close> moves the shared position
  to \<open>(0, 1)\<close>, the pair collides, and the resolution leaves the position of the static
  body at \<open>(-10, 1)\<close>.
\<close>

theorem static_body_counterexample:
  "isStatic (make_body 10 11 12 (30, 10) 0 True)
   \<and> position (make_body 10 11 12 (30, 10) 0 True) = 10
   \<and> position (make_body 10 21 22 (10, 10) 0 False) = 10
   \<and> map_option (\<lambda>st'. st' 10)
        (update exact (Num (1 / 60))
           (addBody 5 (addBody 3 (setGravity (Num 0) (Num 3600) (new_engine exact))))
           ((\<lambda>r. make_body 10 11 12 (30, 10) 0 True)(5 := make_body 10 21 22 (10, 10) 0 False))
           (\<lambda>v. vec 0 0))
      = Some (vec (- 10) 1)
   \<and> vec (- 10) 1 \<noteq> vec 0 0"
proof -
  let ?S = "make_body 10 11 12 (30, 10) 0 True"
  let ?D = "make_body 10 21 22 (10, 10) 0 False"
  let ?h = "(\<lambda>r::ref. ?S)(5 := ?D)"
  let ?E = "addBody 5 (addBody 3 (setGravity (Num 0) (Num 3600) (new_engine exact)))"
  let ?st = "\<lambda>v::vref. vec 0 0"
  let ?st1 = "(\<lambda>v::vref. vec 0 0)(10 := vec 0 1, 21 := vec 0 60)"
  have E: "bodies ?E = [3, 5]" "gravity ?E = Own \<lparr>vec_x = Num 0, vec_y = Num 3600\<rparr>"
    "timeScale ?E = Num 1" "maxSteps ?E = Num 3"
    by (simp_all add: addBody_def setGravity_def new_engine_def)
  have f: "fixedTimeStep exact = Num (1 / 60)"
    by (simp add: fixedTimeStep_def exact_def)
  have n: "update_steps exact (Num (1 / 60)) ?E = Num 1"
    by (simp add: update_steps_def f E) (simp add: exact_def)
  have u: "update exact (Num (1 / 60)) ?E ?h ?st = Some (step exact (Num (1 / 60)) ?E ?h ?st)"
    using update_one_step [OF n] by (simp add: f)
  have hs: "?h 3 = ?S" "?h 5 = ?D" by simp_all
  have i: "integrate exact (gravity ?E) (Num (1 / 60)) ?D ?st = ?st1"
    unfolding E by (rule ext) (simp add: integrate_def Let_def make_body_def vec_def assign_defs exact_ops)
  have ia: "integrate_all exact (gravity ?E) (Num (1 / 60)) ?h (bodies ?E) ?st = ?st1"
    unfolding E(1) integrate_all.simps hs using i by (simp add: make_body_def)
  have c: "isColliding exact ?S ?D ?st1"
    by (simp add: make_body_def vec_def isColliding_def exact_ops)
  have r: "resolveCollision exact ?S ?D ?st1 10 = vec (- 10) 1"
    by (simp add: resolveCollision_def Let_def make_body_def vec_def collision_defs sqrt_100
        assign_defs exact_ops)
  have "step exact (Num (1 / 60)) ?E ?h ?st 10 = vec (- 10) 1"
    unfolding step_def checkCollisions_def ia unfolding E(1) checkCollisions_outer.simps
      checkCollisions_inner.simps hs using c r by simp
  with u show ?thesis by (simp add: make_body_def vec_def)
qed

text \<open>
  A static floor and a dynamic box that share no vector: the engine assigns to the three
  vectors of the box only; after one \<open>update(1/60)\<close> under gravity \<open>(0, 3600)\<close>, in which
  the box collides with the floor and is pushed out, position and velocity of the floor
  are what they were.
\<close>

theorem static_body_never_mutated_witness:
  "isStatic (make_body 10 11 12 (100, 10) 0 True)
   \<and> written ((\<lambda>r. make_body 10 11 12 (100, 10) 0 True)(5 := make_body 20 21 22 (10, 10) 0 False))
        (bodies (addBody 5 (addBody 3 (setGravity (Num 0) (Num 3600) (new_engine exact)))))
      = {20, 21, 22}
   \<and> map_option (\<lambda>st'. (st' 10, st' 11, st' 20, st' 21))
        (updates exact
           ((\<lambda>r. make_body 10 11 12 (100, 10) 0 True)(5 := make_body 20 21 22 (10, 10) 0 False))
           [(Num (1 / 60), addBody 5 (addBody 3 (setGravity (Num 0) (Num 3600) (new_engine exact))))]
           ((\<lambda>v. vec 0 0)(10 := vec 0 10, 20 := vec 45 0)))
      = Some (vec 0 10, vec 0 0, vec 45 (- 54), vec 0 0)"
proof -
  let ?S = "make_body 10 11 12 (100, 10) 0 True"
  let ?D = "make_body 20 21 22 (10, 10) 0 False"
  let ?h = "(\<lambda>r::ref. ?S)(5 := ?D)"
  let ?E = "addBody 5 (addBody 3 (setGravity (Num 0) (Num 3600) (new_engine exact)))"
  let ?st = "(\<lambda>v::vref. vec 0 0)(10 := vec 0 10, 20 := vec 45 0)"
  let ?st1 = "(\<lambda>v::vref. vec 0 0)(10 := vec 0 10, 20 := vec 45 1, 21 := vec 0 60)"
  have E: "bodies ?E = [3, 5]" "gravity ?E = Own \<lparr>vec_x = Num 0, vec_y = Num 3600\<rparr>"
    "timeScale ?E = Num 1" "maxSteps ?E = Num 3"
    by (simp_all add: addBody_def setGravity_def new_engine_def)
  have f: "fixedTimeStep exact = Num (1 / 60)"
    by (simp add: fixedTimeStep_def exact_def)
  have n: "update_steps exact (Num (1 / 60)) ?E = Num 1"
    by (simp add: update_steps_def f E) (simp add: exact_def)
  have u: "update exact (Num (1 / 60)) ?E ?h ?st = Some (step exact (Num (1 / 60)) ?E ?h ?st)"
    using update_one_step [OF n] by (simp add: f)
  have us: "updates exact ?h [(Num (1 / 60), ?E)] ?st = Some (step exact (Num (1 / 60)) ?E ?h ?st)"
    by (simp add: u)
  have hs: "?h 3 = ?S" "?h 5 = ?D" by simp_all
  have s: "isStatic (?h 3)" by (simp add: make_body_def)
  have w: "written ?h (bodies ?E) = {20, 21, 22}"
    unfolding E(1) by (auto simp add: written_def body_vecs_def make_body_def)
  have pv: "position (?h 3) = 10" "velocity (?h 3) = 11"
    by (simp_all add: make_body_def)
  have c: "\<forall>(deltaTime, e) \<in> set [(Num (1 / 60), ?E)].
      position (?h 3) \<notin> written ?h (bodies e) \<and> velocity (?h 3) \<notin> written ?h (bodies e)"
    unfolding pv by (simp add: w)
  note t = static_body_never_mutated [where h = ?h and r = 3 and rnd = exact
      and calls = "[(Num (1 / 60), ?E)]" and st = ?st
      and st'' = "step exact (Num (1 / 60)) ?E ?h ?st"]
  have fl: "step exact (Num (1 / 60)) ?E ?h ?st 10 = vec 0 10
      \<and> step exact (Num (1 / 60)) ?E ?h ?st 11 = vec 0 0"
    using t s c us unfolding pv by simp
  have i: "integrate exact (gravity ?E) (Num (1 / 60)) ?D ?st = ?st1"
    unfolding E
    by (rule ext) (simp add: integrate_def Let_def make_body_def vec_def assign_defs exact_ops)
  have ia: "integrate_all exact (gravity ?E) (Num (1 / 60)) ?h (bodies ?E) ?st = ?st1"
    unfolding E(1) integrate_all.simps hs using i by (simp add: make_body_def)
  have cl: "isColliding exact ?S ?D ?st1"
    by (simp add: make_body_def vec_def isColliding_def exact_ops)
  have r: "resolveCollision exact ?S ?D ?st1 20 = vec 45 (- 54)"
    "resolveCollision exact ?S ?D ?st1 21 = vec 0 0"
    by (simp_all add: resolveCollision_def Let_def make_body_def vec_def collision_defs sqrt_81
        assign_defs exact_ops)
  have "step exact (Num (1 / 60)) ?E ?h ?st 20 = vec 45 (- 54)
      \<and> step exact (Num (1 / 60)) ?E ?h ?st 21 = vec 0 0"
    unfolding step_def checkCollisions_def ia unfolding E(1) checkCollisions_outer.simps
      checkCollisions_inner.simps hs using cl r by simp
  with fl us w s show ?thesis by simp
qed

section \<open>The integrator\<close>

lemma idempotent_exact: "idempotent exact"
  by (simp add: idempotent_def exact_def)

lemma representable_exact: "representable exact x"
  by (cases x) (simp_all add: exact_def)

lemma fadd_zero_left: "representable rnd x \<Longrightarrow> fadd rnd (Num 0) x = x"
  by (cases x) simp_all

lemma fadd_zero_right: "representable rnd x \<Longrightarrow> fadd rnd x (Num 0) = x"
  by (cases x) simp_all

lemma representable_rnd: "idempotent rnd \<Longrightarrow> representable rnd (rnd x)"
  by (cases "rnd x") (auto simp add: idempotent_def)

lemma representable_fmul: "idempotent rnd \<Longrightarrow> representable rnd (fmul rnd a b)"
  by (cases a; cases b) (simp_all add: representable_rnd infinity_def)

lemma step_single:
  "bodies e = [r] \<Longrightarrow> \<not> isStatic (h r) \<Longrightarrow>
   step rnd deltaTime e h st = integrate rnd (gravity e) deltaTime (h r) st"
  by (simp add: step_def checkCollisions_def)

lemma read_vec_y_add_x: "vec_y (read_vec g (add_x rnd w a st)) = vec_y (read_vec g st)"
  by (cases g) (simp_all add: assign_defs)

lemma integrate_values:
  assumes d: "distinct [position body0, velocity body0, acceleration body0]"
  shows "integrate rnd g deltaTime body0 st (velocity body0) =
       \<lparr>vec_x = fadd rnd (vec_x (st (velocity body0)))
                  (fmul rnd (fadd rnd (vec_x (st (acceleration body0))) (vec_x (read_vec g st)))
                     deltaTime),
        vec_y = fadd rnd (vec_y (st (velocity body0)))
                  (fmul rnd (fadd rnd (vec_y (st (acceleration body0))) (vec_y (read_vec g st)))
                     deltaTime)\<rparr>"
    and "integrate rnd g deltaTime body0 st (position body0) =
       \<lparr>vec_x = fadd rnd (vec_x (st (position body0)))
                  (fmul rnd (vec_x (integrate rnd g deltaTime body0 st (velocity body0)))
                     deltaTime),
        vec_y = fadd rnd (vec_y (st (position body0)))
                  (fmul rnd (vec_y (integrate rnd g deltaTime body0 st (velocity body0)))
                     deltaTime)\<rparr>"
    and "integrate rnd g deltaTime body0 st (acceleration body0) = \<lparr>vec_x = Num 0, vec_y = Num 0\<rparr>"
  using d by (simp_all add: integrate_def Let_def assign_defs read_vec_y_add_x [unfolded add_x_def set_x_def])

text \<open>
  C2 (as amended). A non-static body whose position, velocity and acceleration are three
  different objects, with zero velocity and zero acceleration, registered alone under
  gravity \<open>(0, g)\<close>, has after one sub-step \<open>velocity.y = g * fixedStep\<close> and
  \<open>position.y\<close> its initial \<open>position.y\<close> plus \<open>(g * fixedStep) * fixedStep\<close>, every
  product and sum rounded as the code computes it, and the acceleration \<open>(0, 0)\<close>; its
  \<open>velocity.x\<close> is zero and its \<open>position.x\<close> is unchanged. The sub-step on a registry of
  one non-static body is the integration of that body. The order of the integration shows
  in its result for any body with three different vector objects: the new velocity is the
  old one plus (acceleration plus gravity) times the step, the new position is the old one
  plus the new velocity times the step, and the acceleration is zero afterwards. The
  hypotheses on the rounding hold for the doubles: zero, \<open>g\<close> and \<open>position.x\<close> are
  numbers, a rounded result is a number, and \<open>1 / 60\<close> is finite.
\<close>

theorem single_body_one_sub_step:
  "rnd 0 = Num 0 \<Longrightarrow> idempotent rnd \<Longrightarrow> fixedTimeStep rnd = Num fs \<Longrightarrow>
   \<not> isStatic (h r) \<Longrightarrow> bodies e = [r] \<Longrightarrow>
   distinct [position (h r), velocity (h r), acceleration (h r)] \<Longrightarrow>
   st (velocity (h r)) = \<lparr>vec_x = Num 0, vec_y = Num 0\<rparr> \<Longrightarrow>
   st (acceleration (h r)) = \<lparr>vec_x = Num 0, vec_y = Num 0\<rparr> \<Longrightarrow>
   read_vec (gravity e) st = \<lparr>vec_x = Num 0, vec_y = g\<rparr> \<Longrightarrow>
   representable rnd g \<Longrightarrow> representable rnd (vec_x (st (position (h r)))) \<Longrightarrow>
   vec_y (step rnd (fixedTimeStep rnd) e h st (velocity (h r))) = fmul rnd g (fixedTimeStep rnd)
   \<and> vec_y (step rnd (fixedTimeStep rnd) e h st (position (h r)))
       = fadd rnd (vec_y (st (position (h r))))
           (fmul rnd (fmul rnd g (fixedTimeStep rnd)) (fixedTimeStep rnd))
   \<and> step rnd (fixedTimeStep rnd) e h st (acceleration (h r)) = \<lparr>vec_x = Num 0, vec_y = Num 0\<rparr>
   \<and> vec_x (step rnd (fixedTimeStep rnd) e h st (velocity (h r))) = Num 0
   \<and> vec_x (step rnd (fixedTimeStep rnd) e h st (position (h r))) = vec_x (st (position (h r)))
   \<and> fixedTimeStep rnd = fdiv rnd (Num 1) (Num 60)
   \<and> step rnd (fixedTimeStep rnd) e h st = integrate rnd (gravity e) (fixedTimeStep rnd) (h r) st
   \<and> (distinct [position body0, velocity body0, acceleration body0] \<longrightarrow>
        integrate rnd g' deltaTime body0 st0 (velocity body0) =
          \<lparr>vec_x = fadd rnd (vec_x (st0 (velocity body0)))
                     (fmul rnd (fadd rnd (vec_x (st0 (acceleration body0)))
                        (vec_x (read_vec g' st0))) deltaTime),
           vec_y = fadd rnd (vec_y (st0 (velocity body0)))
                     (fmul rnd (fadd rnd (vec_y (st0 (acceleration body0)))
                        (vec_y (read_vec g' st0))) deltaTime)\<rparr>
        \<and> integrate rnd g' deltaTime body0 st0 (position body0) =
          \<lparr>vec_x = fadd rnd (vec_x (st0 (position body0)))
                     (fmul rnd (vec_x (integrate rnd g' deltaTime body0 st0 (velocity body0)))
                        deltaTime),
           vec_y = fadd rnd (vec_y (st0 (position body0)))
                     (fmul rnd (vec_y (integrate rnd g' deltaTime body0 st0 (velocity body0)))
                        deltaTime)\<rparr>
        \<and> integrate rnd g' deltaTime body0 st0 (acceleration body0)
            = \<lparr>vec_x = Num 0, vec_y = Num 0\<rparr>)"
proof -
  assume z: "rnd 0 = Num 0" and id: "idempotent rnd" and fs: "fixedTimeStep rnd = Num fs"
    and ns: "\<not> isStatic (h r)" and b: "bodies e = [r]"
    and d: "distinct [position (h r), velocity (h r), acceleration (h r)]"
    and v0: "st (velocity (h r)) = \<lparr>vec_x = Num 0, vec_y = Num 0\<rparr>"
    and a0: "st (acceleration (h r)) = \<lparr>vec_x = Num 0, vec_y = Num 0\<rparr>"
    and g: "read_vec (gravity e) st = \<lparr>vec_x = Num 0, vec_y = g\<rparr>"
    and rg: "representable rnd g" and rp: "representable rnd (vec_x (st (position (h r))))"
  let ?st' = "step rnd (fixedTimeStep rnd) e h st"
  have s: "?st' = integrate rnd (gravity e) (fixedTimeStep rnd) (h r) st"
    using b ns by (rule step_single)
  note iv = integrate_values [OF d, of rnd "gravity e" "fixedTimeStep rnd" st]
  have ay: "fadd rnd (Num 0) g = g" using rg by (rule fadd_zero_left)
  have my: "fadd rnd (Num 0) (fmul rnd g (Num fs)) = fmul rnd g (Num fs)"
    using representable_fmul [OF id] by (rule fadd_zero_left)
  have vel: "?st' (velocity (h r)) = \<lparr>vec_x = Num 0, vec_y = fmul rnd g (Num fs)\<rparr>"
    unfolding s iv(1) v0 a0 g by (simp add: fs z ay my)
  have pos: "?st' (position (h r)) =
      \<lparr>vec_x = vec_x (st (position (h r))),
       vec_y = fadd rnd (vec_y (st (position (h r)))) (fmul rnd (fmul rnd g (Num fs)) (Num fs))\<rparr>"
    unfolding s iv(2) unfolding s [symmetric] vel
    by (simp add: fs z fadd_zero_right [OF rp])
  have acc: "?st' (acceleration (h r)) = \<lparr>vec_x = Num 0, vec_y = Num 0\<rparr>"
    unfolding s by (rule iv(3))
  have gen: "integrate rnd g' deltaTime body0 st0 (velocity body0) =
          \<lparr>vec_x = fadd rnd (vec_x (st0 (velocity body0)))
                     (fmul rnd (fadd rnd (vec_x (st0 (acceleration body0)))
                        (vec_x (read_vec g' st0))) deltaTime),
           vec_y = fadd rnd (vec_y (st0 (velocity body0)))
                     (fmul rnd (fadd rnd (vec_y (st0 (acceleration body0)))
                        (vec_y (read_vec g' st0))) deltaTime)\<rparr>
        \<and> integrate rnd g' deltaTime body0 st0 (position body0) =
          \<lparr>vec_x = fadd rnd (vec_x (st0 (position body0)))
                     (fmul rnd (vec_x (integrate rnd g' deltaTime body0 st0 (velocity body0)))
                        deltaTime),
           vec_y = fadd rnd (vec_y (st0 (position body0)))
                     (fmul rnd (vec_y (integrate rnd g' deltaTime body0 st0 (velocity body0)))
                        deltaTime)\<rparr>
        \<and> integrate rnd g' deltaTime body0 st0 (acceleration body0)
            = \<lparr>vec_x = Num 0, vec_y = Num 0\<rparr>"
    if "distinct [position body0, velocity body0, acceleration body0]"
    using integrate_values [OF that] by blast
  have f: "fixedTimeStep rnd = fdiv rnd (Num 1) (Num 60)" by (rule fixedTimeStep_def)
  have c1: "vec_y (?st' (velocity (h r))) = fmul rnd g (fixedTimeStep rnd)"
    using vel by (simp add: fs)
  have c2: "vec_y (?st' (position (h r)))
       = fadd rnd (vec_y (st (position (h r))))
           (fmul rnd (fmul rnd g (fixedTimeStep rnd)) (fixedTimeStep rnd))"
    using pos by (simp add: fs)
  have c4: "vec_x (?st' (velocity (h r))) = Num 0" unfolding vel by simp
  have c5: "vec_x (?st' (position (h r))) = vec_x (st (position (h r)))" unfolding pos by simp
  from gen have c8: "distinct [position body0, velocity body0, acceleration body0] \<longrightarrow>
        integrate rnd g' deltaTime body0 st0 (velocity body0) =
          \<lparr>vec_x = fadd rnd (vec_x (st0 (velocity body0)))
                     (fmul rnd (fadd rnd (vec_x (st0 (acceleration body0)))
                        (vec_x (read_vec g' st0))) deltaTime),
           vec_y = fadd rnd (vec_y (st0 (velocity body0)))
                     (fmul rnd (fadd rnd (vec_y (st0 (acceleration body0)))
                        (vec_y (read_vec g' st0))) deltaTime)\<rparr>
        \<and> integrate rnd g' deltaTime body0 st0 (position body0) =
          \<lparr>vec_x = fadd rnd (vec_x (st0 (position body0)))
                     (fmul rnd (vec_x (integrate rnd g' deltaTime body0 st0 (velocity body0)))
                        deltaTime),
           vec_y = fadd rnd (vec_y (st0 (position body0)))
                     (fmul rnd (vec_y (integrate rnd g' deltaTime body0 st0 (velocity body0)))
                        deltaTime)\<rparr>
        \<and> integrate rnd g' deltaTime body0 st0 (acceleration body0)
            = \<lparr>vec_x = Num 0, vec_y = Num 0\<rparr>"
    by (rule impI)
  show ?thesis
    by (rule conjI c1 c2 acc c4 c5 f s c8)+
qed

text \<open>
  Without rounding, a body at \<open>(3, 4)\<close> under gravity \<open>(0, 9)\<close>: after the one sub-step
  of a frame of \<open>1 / 60\<close> its velocity is \<open>(0, 3/20)\<close> and its position
  \<open>(3, 4 + 1/400)\<close>.
\<close>

theorem single_body_one_sub_step_witness:
  "fixedTimeStep exact = Num (1 / 60)
   \<and> update exact (Num (1 / 60))
        (addBody 5 (setGravity (Num 0) (Num 9) (new_engine exact)))
        (\<lambda>r. make_body 10 11 12 (10, 10) 0 False) ((\<lambda>v. vec 0 0)(10 := vec 3 4))
      = Some (step exact (fixedTimeStep exact)
          (addBody 5 (setGravity (Num 0) (Num 9) (new_engine exact)))
          (\<lambda>r. make_body 10 11 12 (10, 10) 0 False) ((\<lambda>v. vec 0 0)(10 := vec 3 4)))
   \<and> step exact (fixedTimeStep exact)
        (addBody 5 (setGravity (Num 0) (Num 9) (new_engine exact)))
        (\<lambda>r. make_body 10 11 12 (10, 10) 0 False) ((\<lambda>v. vec 0 0)(10 := vec 3 4)) 11
      = vec 0 (3 / 20)
   \<and> step exact (fixedTimeStep exact)
        (addBody 5 (setGravity (Num 0) (Num 9) (new_engine exact)))
        (\<lambda>r. make_body 10 11 12 (10, 10) 0 False) ((\<lambda>v. vec 0 0)(10 := vec 3 4)) 10
      = vec 3 (1601 / 400)
   \<and> step exact (fixedTimeStep exact)
        (addBody 5 (setGravity (Num 0) (Num 9) (new_engine exact)))
        (\<lambda>r. make_body 10 11 12 (10, 10) 0 False) ((\<lambda>v. vec 0 0)(10 := vec 3 4)) 12
      = vec 0 0"
proof -
  let ?D = "make_body 10 11 12 (10, 10) 0 False"
  let ?h = "\<lambda>r::ref. ?D"
  let ?E = "addBody 5 (setGravity (Num 0) (Num 9) (new_engine exact))"
  let ?st = "(\<lambda>v::vref. vec 0 0)(10 := vec 3 4)"
  let ?st' = "step exact (fixedTimeStep exact) ?E ?h ?st"
  have E: "bodies ?E = [5]" "gravity ?E = Own \<lparr>vec_x = Num 0, vec_y = Num 9\<rparr>"
    "timeScale ?E = Num 1" "maxSteps ?E = Num 3"
    by (simp_all add: addBody_def setGravity_def new_engine_def)
  have f: "fixedTimeStep exact = Num (1 / 60)"
    by (simp add: fixedTimeStep_def exact_def)
  have n: "update_steps exact (Num (1 / 60)) ?E = Num 1"
    by (simp add: update_steps_def f E) (simp add: exact_def)
  have u: "update exact (Num (1 / 60)) ?E ?h ?st = Some ?st'"
    using n by (rule update_one_step)
  have z: "exact 0 = Num 0" by (simp add: exact_def)
  have ns: "\<not> isStatic (?h 5)" by (simp add: make_body_def)
  have pv: "position (?h 5) = 10" "velocity (?h 5) = 11" "acceleration (?h 5) = 12"
    by (simp_all add: make_body_def)
  have d: "distinct [position (?h 5), velocity (?h 5), acceleration (?h 5)]"
    unfolding pv by simp
  have v0: "?st (velocity (?h 5)) = \<lparr>vec_x = Num 0, vec_y = Num 0\<rparr>"
    unfolding pv by (simp add: vec_def)
  have a0: "?st (acceleration (?h 5)) = \<lparr>vec_x = Num 0, vec_y = Num 0\<rparr>"
    unfolding pv by (simp add: vec_def)
  have g: "read_vec (gravity ?E) ?st = \<lparr>vec_x = Num 0, vec_y = Num 9\<rparr>"
    unfolding E by simp
  have rg: "representable exact (Num 9)" by (rule representable_exact)
  have rp: "representable exact (vec_x (?st (position (?h 5))))" by (rule representable_exact)
  note t = single_body_one_sub_step [where rnd = exact and h = ?h and r = 5 and e = ?E
      and st = ?st and g = "Num 9" and fs = "1 / 60",
      OF z idempotent_exact f ns E(1) d v0 a0 g rg rp]
  note c1 = t [THEN conjunct1]
  note c2 = t [THEN conjunct2, THEN conjunct1]
  note c3 = t [THEN conjunct2, THEN conjunct2, THEN conjunct1]
  note c4 = t [THEN conjunct2, THEN conjunct2, THEN conjunct2, THEN conjunct1]
  note c5 = t [THEN conjunct2, THEN conjunct2, THEN conjunct2, THEN conjunct2, THEN conjunct1]
  have vy: "vec_y (?st' 11) = Num (3 / 20)"
    using c1 unfolding pv by (simp add: f exact_def)
  have vx: "vec_x (?st' 11) = Num 0" using c4 unfolding pv .
  have py: "vec_y (?st' 10) = Num (1601 / 400)"
    using c2 unfolding pv by (simp add: f exact_def vec_def)
  have px: "vec_x (?st' 10) = Num 3" using c5 unfolding pv by (simp add: vec_def)
  have a: "?st' 12 = vec 0 0" using c3 unfolding pv by (simp add: vec_def)
  have v: "?st' 11 = vec 0 (3 / 20)" using vx vy by (simp add: vec_def)
  have p: "?st' 10 = vec 3 (1601 / 400)" using px py by (simp add: vec_def)
  show ?thesis by (rule conjI f u v p a)+
qed

text \<open>
  A body whose velocity and acceleration are one object, at \<open>(3, 4)\<close> under gravity
  \<open>(0, 9)\<close>: gravity is added to the shared object, which is then increased by itself
  times the step, moves the position, and is reset. After the sub-step the velocity is
  \<open>(0, 0)\<close>, not \<open>(0, 3/20)\<close>, and \<open>position.y\<close> is \<open>4 + 61/400\<close>, not \<open>4 + 1/400\<close>.
\<close>

theorem single_body_one_sub_step_counterexample:
  "\<not> isStatic (make_body 10 11 11 (10, 10) 0 False)
   \<and> velocity (make_body 10 11 11 (10, 10) 0 False)
       = acceleration (make_body 10 11 11 (10, 10) 0 False)
   \<and> ((\<lambda>v::vref. vec 0 0)(10 := vec 3 4)) 11 = vec 0 0
   \<and> bodies (addBody 5 (setGravity (Num 0) (Num 9) (new_engine exact))) = [5]
   \<and> step exact (fixedTimeStep exact)
        (addBody 5 (setGravity (Num 0) (Num 9) (new_engine exact)))
        (\<lambda>r. make_body 10 11 11 (10, 10) 0 False) ((\<lambda>v. vec 0 0)(10 := vec 3 4)) 11
      = vec 0 0
   \<and> step exact (fixedTimeStep exact)
        (addBody 5 (setGravity (Num 0) (Num 9) (new_engine exact)))
        (\<lambda>r. make_body 10 11 11 (10, 10) 0 False) ((\<lambda>v. vec 0 0)(10 := vec 3 4)) 10
      = vec 3 (1661 / 400)
   \<and> fmul exact (Num 9) (fixedTimeStep exact) = Num (3 / 20)
   \<and> fadd exact (Num 4) (fmul exact (fmul exact (Num 9) (fixedTimeStep exact)) (fixedTimeStep exact))
       = Num (1601 / 400)
   \<and> Num 0 \<noteq> Num (3 / 20) \<and> Num (1661 / 400) \<noteq> Num (1601 / 400)"
proof -
  let ?D = "make_body 10 11 11 (10, 10) 0 False"
  let ?h = "\<lambda>r::ref. ?D"
  let ?E = "addBody 5 (setGravity (Num 0) (Num 9) (new_engine exact))"
  let ?st = "(\<lambda>v::vref. vec 0 0)(10 := vec 3 4)"
  have E: "bodies ?E = [5]" "gravity ?E = Own \<lparr>vec_x = Num 0, vec_y = Num 9\<rparr>"
    by (simp_all add: addBody_def setGravity_def new_engine_def)
  have f: "fixedTimeStep exact = Num (1 / 60)"
    by (simp add: fixedTimeStep_def exact_def)
  have ns: "\<not> isStatic (?h 5)" by (simp add: make_body_def)
  have s: "step exact (Num (1 / 60)) ?E ?h ?st
      = integrate exact (gravity ?E) (Num (1 / 60)) (?h 5) ?st"
    using E(1) ns by (rule step_single)
  have i: "integrate exact (gravity ?E) (Num (1 / 60)) ?D ?st
      = (\<lambda>v::vref. vec 0 0)(10 := vec 3 (1661 / 400))"
    unfolding E
    by (rule ext) (simp add: integrate_def Let_def make_body_def vec_def assign_defs exact_ops)
  show ?thesis
    unfolding f s i using E(1) by (simp add: make_body_def vec_def exact_def)
qed

section \<open>The registry\<close>

lemma checkCollisions_inner_fold:
  "checkCollisions_inner rnd h a rest st = fold (resolve_pair rnd h) (map (Pair a) rest) st"
  by (induction rest arbitrary: st) (simp_all add: resolve_pair_def)

lemma checkCollisions_outer_fold:
  "checkCollisions_outer rnd h rs st = fold (resolve_pair rnd h) (scan_pairs rs) st"
  by (induction rs arbitrary: st) (simp_all add: checkCollisions_inner_fold)

lemma set_scan_pairs: "(a, b) \<in> set (scan_pairs rs) \<Longrightarrow> a \<in> set rs \<and> b \<in> set rs"
  by (induction rs) auto

lemma distinct_scan_pairs: "distinct rs \<Longrightarrow> distinct (scan_pairs rs)"
proof (induction rs)
  case Nil
  show ?case by simp
next
  case (Cons a rest)
  have "distinct (map (Pair a) rest)"
    using Cons.prems by (simp add: distinct_map inj_on_def)
  moreover have "set (map (Pair a) rest) \<inter> set (scan_pairs rest) = {}"
    using Cons.prems set_scan_pairs by fastforce
  ultimately show ?case using Cons by simp
qed

lemma scan_pairs_irrefl: "distinct rs \<Longrightarrow> (a, b) \<in> set (scan_pairs rs) \<Longrightarrow> a \<noteq> b"
  by (induction rs) (auto dest: set_scan_pairs)

lemma scan_pairs_asym:
  "distinct rs \<Longrightarrow> (a, b) \<in> set (scan_pairs rs) \<Longrightarrow> (b, a) \<notin> set (scan_pairs rs)"
  by (induction rs) (auto dest: set_scan_pairs)

lemma scan_pairs_complete:
  "a \<in> set rs \<Longrightarrow> b \<in> set rs \<Longrightarrow> a \<noteq> b \<Longrightarrow>
   (a, b) \<in> set (scan_pairs rs) \<or> (b, a) \<in> set (scan_pairs rs)"
  by (induction rs) auto

lemma integrate_all_fold:
  "integrate_all rnd g deltaTime h rs st
     = fold (\<lambda>r. integrate rnd g deltaTime (h r)) (filter (\<lambda>r. \<not> isStatic (h r)) rs) st"
  by (induction rs arbitrary: st) simp_all

text \<open>The integration of a body reads its own three vectors and the gravity, nothing else.\<close>

lemma assign_agree:
  assumes "\<forall>v \<in> S. st v = st' v" and "a = a'"
  shows "\<forall>v \<in> S. add_x rnd w a st v = add_x rnd w a' st' v"
    and "\<forall>v \<in> S. add_y rnd w a st v = add_y rnd w a' st' v"
    and "\<forall>v \<in> S. set_x w a st v = set_x w a' st' v"
    and "\<forall>v \<in> S. set_y w a st v = set_y w a' st' v"
  using assms by (simp_all add: assign_defs)

lemma read_vec_agree:
  "\<forall>v \<in> S. st v = st' v \<Longrightarrow> \<forall>w. g = Ref w \<longrightarrow> w \<in> S \<Longrightarrow> read_vec g st = read_vec g st'"
  by (cases g) simp_all

lemma integrate_agree:
  assumes ag: "\<forall>v \<in> S. st v = st' v" and sub: "body_vecs body0 \<subseteq> S"
    and gS: "\<forall>w. g = Ref w \<longrightarrow> w \<in> S"
  shows "\<forall>v \<in> S. integrate rnd g deltaTime body0 st v = integrate rnd g deltaTime body0 st' v"
proof -
  let ?p = "position body0" and ?v = "velocity body0" and ?a = "acceleration body0"
  have m: "?p \<in> S" "?v \<in> S" "?a \<in> S" using sub by (auto simp add: body_vecs_def)
  define s1 where "s1 = add_x rnd ?a (vec_x (read_vec g st)) st"
  define t1 where "t1 = add_x rnd ?a (vec_x (read_vec g st')) st'"
  define s2 where "s2 = add_y rnd ?a (vec_y (read_vec g s1)) s1"
  define t2 where "t2 = add_y rnd ?a (vec_y (read_vec g t1)) t1"
  define s3 where "s3 = add_x rnd ?v (fmul rnd (vec_x (s2 ?a)) deltaTime) s2"
  define t3 where "t3 = add_x rnd ?v (fmul rnd (vec_x (t2 ?a)) deltaTime) t2"
  define s4 where "s4 = add_y rnd ?v (fmul rnd (vec_y (s3 ?a)) deltaTime) s3"
  define t4 where "t4 = add_y rnd ?v (fmul rnd (vec_y (t3 ?a)) deltaTime) t3"
  define s5 where "s5 = add_x rnd ?p (fmul rnd (vec_x (s4 ?v)) deltaTime) s4"
  define t5 where "t5 = add_x rnd ?p (fmul rnd (vec_x (t4 ?v)) deltaTime) t4"
  define s6 where "s6 = add_y rnd ?p (fmul rnd (vec_y (s5 ?v)) deltaTime) s5"
  define t6 where "t6 = add_y rnd ?p (fmul rnd (vec_y (t5 ?v)) deltaTime) t5"
  define s7 where "s7 = set_x ?a (Num 0) s6"
  define t7 where "t7 = set_x ?a (Num 0) t6"
  have 1: "\<forall>v \<in> S. s1 v = t1 v"
    unfolding s1_def t1_def using ag by (rule assign_agree) (simp add: read_vec_agree [OF ag gS])
  have 2: "\<forall>v \<in> S. s2 v = t2 v"
    unfolding s2_def t2_def using 1 by (rule assign_agree) (simp add: read_vec_agree [OF 1 gS])
  have 3: "\<forall>v \<in> S. s3 v = t3 v"
    unfolding s3_def t3_def using 2 by (rule assign_agree) (simp add: 2 m)
  have 4: "\<forall>v \<in> S. s4 v = t4 v"
    unfolding s4_def t4_def using 3 by (rule assign_agree) (simp add: 3 m)
  have 5: "\<forall>v \<in> S. s5 v = t5 v"
    unfolding s5_def t5_def using 4 by (rule assign_agree) (simp add: 4 m)
  have 6: "\<forall>v \<in> S. s6 v = t6 v"
    unfolding s6_def t6_def using 5 by (rule assign_agree) (simp add: 5 m)
  have 7: "\<forall>v \<in> S. s7 v = t7 v"
    unfolding s7_def t7_def using 6 by (rule assign_agree) simp
  have 8: "\<forall>v \<in> S. set_y ?a (Num 0) s7 v = set_y ?a (Num 0) t7 v"
    using 7 by (rule assign_agree) simp
  have i: "integrate rnd g deltaTime body0 st = set_y ?a (Num 0) s7"
    unfolding integrate_def Let_def s7_def s6_def s5_def s4_def s3_def s2_def s1_def ..
  have j: "integrate rnd g deltaTime body0 st' = set_y ?a (Num 0) t7"
    unfolding integrate_def Let_def t7_def t6_def t5_def t4_def t3_def t2_def t1_def ..
  show ?thesis unfolding i j by (rule 8)
qed

lemma integrate_local:
  assumes "\<forall>v \<in> body_vecs body0. st v = st' v" and "read_vec g st = read_vec g st'"
    and "v \<in> body_vecs body0"
  shows "integrate rnd g deltaTime body0 st v = integrate rnd g deltaTime body0 st' v"
proof -
  let ?S = "body_vecs body0 \<union> (case g of Own gv \<Rightarrow> {} | Ref w \<Rightarrow> {w})"
  have ag: "\<forall>v \<in> ?S. st v = st' v"
    using assms(1,2) by (cases g) auto
  have gS: "\<forall>w. g = Ref w \<longrightarrow> w \<in> ?S" by simp
  have "\<forall>v \<in> ?S. integrate rnd g deltaTime body0 st v = integrate rnd g deltaTime body0 st' v"
    using ag _ gS by (rule integrate_agree) simp
  then show ?thesis using assms(3) by simp
qed

lemma integrate_all_once:
  assumes "distinct rs"
    and "\<forall>a \<in> set rs. \<forall>c \<in> set rs. a \<noteq> c \<and> \<not> isStatic (h a) \<and> \<not> isStatic (h c) \<longrightarrow>
           body_vecs (h a) \<inter> body_vecs (h c) = {}"
    and "\<forall>w. g = Ref w \<longrightarrow> w \<notin> written h rs"
    and "r \<in> set rs" and "\<not> isStatic (h r)" and "v \<in> body_vecs (h r)"
  shows "integrate_all rnd g deltaTime h rs st v = integrate rnd g deltaTime (h r) st v"
  using assms
proof (induction rs arbitrary: st)
  case Nil
  then show ?case by simp
next
  case (Cons a rest)
  let ?st1 = "if isStatic (h a) then st else integrate rnd g deltaTime (h a) st"
  have d: "distinct rest" and an: "a \<notin> set rest" using Cons.prems(1) by simp_all
  have dj: "\<forall>a \<in> set rest. \<forall>c \<in> set rest. a \<noteq> c \<and> \<not> isStatic (h a) \<and> \<not> isStatic (h c) \<longrightarrow>
           body_vecs (h a) \<inter> body_vecs (h c) = {}"
    using Cons.prems(2) by simp
  have gr: "\<forall>w. g = Ref w \<longrightarrow> w \<notin> written h rest"
    using Cons.prems(3) by (simp add: written_Cons)
  show ?case
  proof (cases "r = a")
    case True
    have "v \<notin> written h rest"
    proof
      assume "v \<in> written h rest"
      then obtain c where c: "c \<in> set rest" "\<not> isStatic (h c)" "v \<in> body_vecs (h c)"
        by (auto simp add: written_def split: if_splits)
      have cr: "r \<noteq> c" using c(1) an True by auto
      have cm: "c \<in> set (a # rest)" using c(1) by simp
      have "body_vecs (h r) \<inter> body_vecs (h c) = {}"
        using Cons.prems(2,4,5) c(2) cr cm by blast
      then show False using c(3) Cons.prems(6) by auto
    qed
    then have "integrate_all rnd g deltaTime h rest ?st1 v = ?st1 v"
      by (rule integrate_all_frame)
    then show ?thesis using True Cons.prems(5) by simp
  next
    case False
    then have rr: "r \<in> set rest" using Cons.prems(4) by simp
    have ih: "integrate_all rnd g deltaTime h rest ?st1 v = integrate rnd g deltaTime (h r) ?st1 v"
      using d dj gr rr Cons.prems(5,6) by (rule Cons.IH)
    have "integrate rnd g deltaTime (h r) ?st1 v = integrate rnd g deltaTime (h r) st v"
    proof (cases "isStatic (h a)")
      case True
      then show ?thesis by simp
    next
      case ns: False
      have am: "a \<in> set (a # rest)" by simp
      have dis: "body_vecs (h r) \<inter> body_vecs (h a) = {}"
        using Cons.prems(2,4,5) False ns am by blast
      have a1: "\<forall>u \<in> body_vecs (h r). integrate rnd g deltaTime (h a) st u = st u"
        using dis by (auto intro: integrate_frame)
      have a2: "read_vec g (integrate rnd g deltaTime (h a) st) = read_vec g st"
      proof (cases g)
        case (Own gv)
        then show ?thesis by simp
      next
        case (Ref w)
        then have "w \<notin> body_vecs (h a)"
          using Cons.prems(3) ns by (auto simp add: written_Cons)
        then show ?thesis unfolding Ref by (simp add: integrate_frame)
      qed
      have "integrate rnd g deltaTime (h r) (integrate rnd g deltaTime (h a) st) v
          = integrate rnd g deltaTime (h r) st v"
        using a1 a2 Cons.prems(6) by (rule integrate_local)
      then show ?thesis using ns by simp
    qed
    with ih show ?thesis by simp
  qed
qed

lemma count_list_distinct:
  "distinct xs \<Longrightarrow> count_list xs x = (if x \<in> set xs then 1 else 0)"
  by (induction xs) auto

lemma distinct_addBody: "distinct (bodies e) \<Longrightarrow> distinct (bodies (addBody b e))"
  by (simp add: addBody_def)

lemma distinct_removeBody: "distinct (bodies e) \<Longrightarrow> distinct (bodies (removeBody b e))"
  by (simp add: removeBody_def distinct_removeAll)

text \<open>
  C10. Removing a body that is not in the registry and adding a body that is in it leave
  the engine unchanged (the mutators take and return the engine only, no body and no
  vector is touched); adding twice is adding once, removing twice is removing once. The
  registry of a new engine holds no reference twice, and the mutators keep it so: a body
  is a member at most once. Then the integration loop is one pass over the registered
  non-static bodies, each taken once: where no two of them share a vector object and the
  gravity is none of their vectors, the vectors of each are after the loop what one
  integration of that body makes of them, and every other vector is unchanged. The
  pairwise scan is one pass over the list \<open>scan_pairs\<close>, which holds no pair twice, no
  pair of a body with itself, never both orders of a pair, and one order of every pair
  of distinct members.
\<close>

theorem registry_mutators_idempotent:
  "(b \<notin> set (bodies e) \<longrightarrow> removeBody b e = e)
   \<and> (b \<in> set (bodies e) \<longrightarrow> addBody b e = e)
   \<and> addBody b (addBody b e) = addBody b e
   \<and> removeBody b (removeBody b e) = removeBody b e
   \<and> b \<in> set (bodies (addBody b e))
   \<and> b \<notin> set (bodies (removeBody b e))
   \<and> distinct (bodies (new_engine rnd))
   \<and> (distinct (bodies e) \<longrightarrow>
        distinct (bodies (addBody b e)) \<and> distinct (bodies (removeBody b e))
        \<and> count_list (bodies (addBody b e)) b = 1
        \<and> integrate_all rnd g deltaTime h (bodies e) st
            = fold (\<lambda>r. integrate rnd g deltaTime (h r))
                (filter (\<lambda>r. \<not> isStatic (h r)) (bodies e)) st
        \<and> distinct (filter (\<lambda>r. \<not> isStatic (h r)) (bodies e))
        \<and> ((\<forall>a \<in> set (bodies e). \<forall>c \<in> set (bodies e).
               a \<noteq> c \<and> \<not> isStatic (h a) \<and> \<not> isStatic (h c) \<longrightarrow>
               body_vecs (h a) \<inter> body_vecs (h c) = {})
            \<and> (\<forall>w. g = Ref w \<longrightarrow> w \<notin> written h (bodies e)) \<longrightarrow>
            (\<forall>r \<in> set (bodies e). \<not> isStatic (h r) \<longrightarrow>
               (\<forall>v \<in> body_vecs (h r).
                  integrate_all rnd g deltaTime h (bodies e) st v
                    = integrate rnd g deltaTime (h r) st v)))
        \<and> (\<forall>v. v \<notin> written h (bodies e) \<longrightarrow>
              integrate_all rnd g deltaTime h (bodies e) st v = st v)
        \<and> checkCollisions rnd e h st = fold (resolve_pair rnd h) (scan_pairs (bodies e)) st
        \<and> distinct (scan_pairs (bodies e))
        \<and> (\<forall>a c. (a, c) \<in> set (scan_pairs (bodies e)) \<longrightarrow>
              a \<noteq> c \<and> (c, a) \<notin> set (scan_pairs (bodies e)))
        \<and> (\<forall>a c. a \<in> set (bodies e) \<and> c \<in> set (bodies e) \<and> a \<noteq> c \<longrightarrow>
              (a, c) \<in> set (scan_pairs (bodies e)) \<or> (c, a) \<in> set (scan_pairs (bodies e))))"
proof (intro conjI impI allI ballI)
  show "removeBody b e = e" if "b \<notin> set (bodies e)"
    using that by (simp add: removeBody_def)
  show "addBody b e = e" if "b \<in> set (bodies e)"
    using that by (simp add: addBody_def)
  show "addBody b (addBody b e) = addBody b e"
    by (simp add: addBody_def)
  show "removeBody b (removeBody b e) = removeBody b e"
    by (simp add: removeBody_def)
  show "b \<in> set (bodies (addBody b e))"
    by (simp add: addBody_def)
  show "b \<notin> set (bodies (removeBody b e))"
    by (simp add: removeBody_def)
  show "distinct (bodies (new_engine rnd))"
    by (simp add: new_engine_def)
next
  assume d: "distinct (bodies e)"
  show "distinct (bodies (addBody b e))" using d by (rule distinct_addBody)
  show "distinct (bodies (removeBody b e))" using d by (rule distinct_removeBody)
  show "count_list (bodies (addBody b e)) b = 1"
    using distinct_addBody [OF d, of b] by (simp add: count_list_distinct) (simp add: addBody_def)
  show "integrate_all rnd g deltaTime h (bodies e) st
      = fold (\<lambda>r. integrate rnd g deltaTime (h r))
          (filter (\<lambda>r. \<not> isStatic (h r)) (bodies e)) st"
    by (rule integrate_all_fold)
  show "distinct (filter (\<lambda>r. \<not> isStatic (h r)) (bodies e))"
    using d by simp
  show "integrate_all rnd g deltaTime h (bodies e) st v = integrate rnd g deltaTime (h r) st v"
    if "(\<forall>a \<in> set (bodies e). \<forall>c \<in> set (bodies e).
           a \<noteq> c \<and> \<not> isStatic (h a) \<and> \<not> isStatic (h c) \<longrightarrow>
           body_vecs (h a) \<inter> body_vecs (h c) = {})
        \<and> (\<forall>w. g = Ref w \<longrightarrow> w \<notin> written h (bodies e))"
      and "r \<in> set (bodies e)" and "\<not> isStatic (h r)" and "v \<in> body_vecs (h r)" for r v
    using d that(1) [THEN conjunct1] that(1) [THEN conjunct2] that(2,3,4)
    by (rule integrate_all_once)
  show "integrate_all rnd g deltaTime h (bodies e) st v = st v"
    if "v \<notin> written h (bodies e)" for v
    using that by (rule integrate_all_frame)
  show "checkCollisions rnd e h st = fold (resolve_pair rnd h) (scan_pairs (bodies e)) st"
    by (simp add: checkCollisions_def checkCollisions_outer_fold)
  show "distinct (scan_pairs (bodies e))" using d by (rule distinct_scan_pairs)
  show "a \<noteq> c" if "(a, c) \<in> set (scan_pairs (bodies e))" for a c
    using d that by (rule scan_pairs_irrefl)
  show "(c, a) \<notin> set (scan_pairs (bodies e))" if "(a, c) \<in> set (scan_pairs (bodies e))" for a c
    using d that by (rule scan_pairs_asym)
  show "(a, c) \<in> set (scan_pairs (bodies e)) \<or> (c, a) \<in> set (scan_pairs (bodies e))"
    if "a \<in> set (bodies e) \<and> c \<in> set (bodies e) \<and> a \<noteq> c" for a c
    using that scan_pairs_complete by blast
qed

theorem registry_mutators_idempotent_witness:
  "7 \<notin> set (bodies (addBody 4 (new_engine exact)))
   \<and> removeBody 7 (addBody 4 (new_engine exact)) = addBody 4 (new_engine exact)
   \<and> 4 \<in> set (bodies (addBody 4 (new_engine exact)))
   \<and> addBody 4 (addBody 4 (new_engine exact)) = addBody 4 (new_engine exact)
   \<and> bodies (addBody 4 (addBody 9 (addBody 4 (new_engine exact)))) = [4, 9]
   \<and> distinct (bodies (addBody 9 (addBody 4 (new_engine exact))))
   \<and> scan_pairs (bodies (addBody 2 (addBody 9 (addBody 4 (new_engine exact)))))
       = [(4, 9), (4, 2), (9, 2)]"
  using registry_mutators_idempotent [of 7 "addBody 4 (new_engine exact)"]
    registry_mutators_idempotent [of 4 "addBody 4 (new_engine exact)"]
    registry_mutators_idempotent [of 9 "addBody 4 (new_engine exact)"]
  by (simp add: addBody_def new_engine_def)

section \<open>Collision resolution\<close>

subsection \<open>Finite numbers without rounding\<close>

lemma fadd_exact_Num:
  "fadd exact a b = Num r \<Longrightarrow> \<exists>x y. a = Num x \<and> b = Num y \<and> r = x + y"
  by (cases a; cases b) (simp_all add: exact_def)

lemma fsub_exact_Num:
  "fsub exact a b = Num r \<Longrightarrow> \<exists>x y. a = Num x \<and> b = Num y \<and> r = x - y"
  by (cases a; cases b) (simp_all add: exact_def fsub_def)

lemma fmul_exact_Num:
  "fmul exact a b = Num r \<Longrightarrow> \<exists>x y. a = Num x \<and> b = Num y \<and> r = x * y"
  by (cases a; cases b) (simp_all add: exact_def infinity_def split: if_splits)

lemma fdiv_exact_Num:
  "fdiv exact a b = Num r \<Longrightarrow>
   \<exists>x. a = Num x \<and> ((\<exists>y. b = Num y \<and> y \<noteq> 0 \<and> r = x / y) \<or> ((b = PosInf \<or> b = NegInf) \<and> r = 0))"
  by (cases a; cases b) (simp_all add: exact_def infinity_def split: if_splits)

lemma Math_sqrt_exact_Num:
  "Math_sqrt exact a = Num r \<Longrightarrow> \<exists>x. a = Num x \<and> 0 \<le> x \<and> r = sqrt x"
  by (cases a) (simp_all add: exact_def split: if_splits)

lemma unit_normal:
  fixes dx dy :: real
  assumes "sqrt (dx * dx + dy * dy) \<noteq> 0"
  shows "dx / sqrt (dx * dx + dy * dy) * (dx / sqrt (dx * dx + dy * dy))
       + dy / sqrt (dx * dx + dy * dy) * (dy / sqrt (dx * dx + dy * dy)) = 1"
proof -
  let ?s = "dx * dx + dy * dy"
  have s0: "?s \<noteq> 0" using assms by auto
  have "dx / sqrt ?s * (dx / sqrt ?s) + dy / sqrt ?s * (dy / sqrt ?s)
      = dx * dx / ?s + dy * dy / ?s"
    by simp
  also have "\<dots> = ?s / ?s"
    by (simp only: add_divide_distrib)
  also have "\<dots> = 1" using s0 by simp
  finally show ?thesis .
qed

text \<open>Without rounding, a finite relative normal velocity is computed from finite
  numbers only, and the normal is a unit vector.\<close>

lemma normal_finite:
  assumes len: "len = Math_sqrt exact (fadd exact (fmul exact dx dx) (fmul exact dy dy))"
    and nx: "fdiv exact dx len = Num a" and ny: "fdiv exact dy len = Num b"
  shows "a * a + b * b = 1"
proof -
  from nx obtain x where x: "dx = Num x" using fdiv_exact_Num by blast
  from ny obtain y where y: "dy = Num y" using fdiv_exact_Num by blast
  have nn: "\<not> x * x + y * y < 0" by (simp add: not_less)
  have l: "len = Num (sqrt (x * x + y * y))"
    unfolding len x y by (simp add: exact_def nn)
  have l0: "sqrt (x * x + y * y) \<noteq> 0"
    using nx unfolding l x by (auto simp add: exact_def infinity_def split: if_splits)
  have "a = x / sqrt (x * x + y * y)" "b = y / sqrt (x * x + y * y)"
    using nx ny l0 unfolding l x y by (auto simp add: exact_def split: if_splits)
  then show ?thesis using unit_normal [OF l0] by simp
qed

lemma relativeVelocity_finite:
  assumes len: "len = Math_sqrt exact (fadd exact (fmul exact dx dx) (fmul exact dy dy))"
    and rv: "fadd exact (fmul exact (fsub exact vbx vax) (fdiv exact dx len))
                (fmul exact (fsub exact vby vay) (fdiv exact dy len)) = Num v"
  obtains a b ax ay bx by' where "fdiv exact dx len = Num a" "fdiv exact dy len = Num b"
    "vax = Num ax" "vay = Num ay" "vbx = Num bx" "vby = Num by'"
    "a * a + b * b = 1" "v = (bx - ax) * a + (by' - ay) * b"
proof -
  from rv obtain p q where p: "fmul exact (fsub exact vbx vax) (fdiv exact dx len) = Num p"
    and q: "fmul exact (fsub exact vby vay) (fdiv exact dy len) = Num q" and v: "v = p + q"
    using fadd_exact_Num by blast
  from p obtain rx a where rx: "fsub exact vbx vax = Num rx" and a: "fdiv exact dx len = Num a"
    and pe: "p = rx * a"
    using fmul_exact_Num by blast
  from q obtain ry b where ry: "fsub exact vby vay = Num ry" and b: "fdiv exact dy len = Num b"
    and qe: "q = ry * b"
    using fmul_exact_Num by blast
  from rx obtain bx ax where x: "vbx = Num bx" "vax = Num ax" "rx = bx - ax"
    using fsub_exact_Num by blast
  from ry obtain by' ay where y: "vby = Num by'" "vay = Num ay" "ry = by' - ay"
    using fsub_exact_Num by blast
  have u: "a * a + b * b = 1" using len a b by (rule normal_finite)
  show thesis
    using a b x(2) y(2) x(1) y(1) u by (rule that) (simp add: v pe qe x y)
qed

lemma normal_exchange:
  fixes nx ny :: real
  assumes u: "nx * nx + ny * ny = 1"
    and j: "j = - (1 + e) * ((vbx - vax) * nx + (vby - vay) * ny) / 2"
  shows "e = 1 \<Longrightarrow> (vax - j * nx) * nx + (vay - j * ny) * ny = vbx * nx + vby * ny"
    and "e = 1 \<Longrightarrow> (vbx + j * nx) * nx + (vby + j * ny) * ny = vax * nx + vay * ny"
    and "e = 0 \<Longrightarrow> (vax - j * nx) * nx + (vay - j * ny) * ny
          = (vbx + j * nx) * nx + (vby + j * ny) * ny"
proof -
  have a: "(vax - j * nx) * nx + (vay - j * ny) * ny
      = vax * nx + vay * ny - j * (nx * nx + ny * ny)"
    by (simp add: algebra_simps)
  have b: "(vbx + j * nx) * nx + (vby + j * ny) * ny
      = vbx * nx + vby * ny + j * (nx * nx + ny * ny)"
    by (simp add: algebra_simps)
  show "e = 1 \<Longrightarrow> (vax - j * nx) * nx + (vay - j * ny) * ny = vbx * nx + vby * ny"
    unfolding a u by (simp add: j field_simps)
  show "e = 1 \<Longrightarrow> (vbx + j * nx) * nx + (vby + j * ny) * ny = vax * nx + vay * ny"
    unfolding b u by (simp add: j field_simps)
  show "e = 0 \<Longrightarrow> (vax - j * nx) * nx + (vay - j * ny) * ny
          = (vbx + j * nx) * nx + (vby + j * ny) * ny"
    unfolding a b u by (simp add: j field_simps)
qed

subsection \<open>Velocities after a resolution\<close>

lemma resolveCollision_velocity_A:
  assumes "\<not> isStatic bodyA" "\<not> relativeVelocity rnd bodyA bodyB st > Num 0"
    and "isStatic bodyB \<or> velocity bodyA \<noteq> velocity bodyB"
    and "velocity bodyA \<noteq> position bodyA"
    and "isStatic bodyB \<or> velocity bodyA \<noteq> position bodyB"
  shows "resolveCollision rnd bodyA bodyB st (velocity bodyA) =
       \<lparr>vec_x = fsub rnd (vec_x (st (velocity bodyA)))
                  (fmul rnd (collision_impulse rnd bodyA bodyB st) (collision_nx rnd bodyA bodyB st)),
        vec_y = fsub rnd (vec_y (st (velocity bodyA)))
                  (fmul rnd (collision_impulse rnd bodyA bodyB st) (collision_ny rnd bodyA bodyB st))\<rparr>"
  using assms by (auto simp add: resolveCollision_def Let_def assign_defs)

lemma resolveCollision_velocity_B:
  assumes "\<not> isStatic bodyB" "\<not> relativeVelocity rnd bodyA bodyB st > Num 0"
    and "isStatic bodyA \<or> velocity bodyA \<noteq> velocity bodyB"
    and "isStatic bodyA \<or> velocity bodyB \<noteq> position bodyA"
    and "velocity bodyB \<noteq> position bodyB"
  shows "resolveCollision rnd bodyA bodyB st (velocity bodyB) =
       \<lparr>vec_x = fadd rnd (vec_x (st (velocity bodyB)))
                  (fmul rnd (collision_impulse rnd bodyA bodyB st) (collision_nx rnd bodyA bodyB st)),
        vec_y = fadd rnd (vec_y (st (velocity bodyB)))
                  (fmul rnd (collision_impulse rnd bodyA bodyB st) (collision_ny rnd bodyA bodyB st))\<rparr>"
  using assms by (auto simp add: resolveCollision_def Let_def assign_defs)

lemma not_pos_if_neg: "x < Num 0 \<Longrightarrow> \<not> x > Num 0"
  by (cases x) simp_all

lemma not_pos_if_le: "x \<le> Num 0 \<Longrightarrow> \<not> x > Num 0"
  by (cases x) simp_all

text \<open>
  C5 (as amended). Two non-static bodies whose velocity objects are two different objects
  and none of the two position objects. With \<open>dx\<close>, \<open>dy\<close> the differences of the centres
  (position plus half the width, half the height), \<open>len = sqrt(dx * dx + dy * dy)\<close>, the
  normal \<open>(dx / len, dy / len)\<close> and \<open>rv\<close> the relative velocity along it, all computed
  as in the code: when \<open>rv < 0\<close> the resolver applies the impulse
  \<open>(-(1 + min(A.restitution, B.restitution)) * rv) / 2\<close>, whatever the masses; the
  impulse times the normal is subtracted from A's velocity and added to B's. Without
  rounding and for a finite \<open>rv\<close>, the normal is a unit vector and \<open>rv\<close> is the difference
  of the two normal velocity components, so with restitution 1 the two bodies exchange
  their normal velocity components, and with restitution 0 they end with the same normal
  velocity component.
\<close>

theorem head_on_dynamic_impulse:
  "\<not> isStatic bodyA \<Longrightarrow> \<not> isStatic bodyB \<Longrightarrow>
   velocity bodyA \<noteq> velocity bodyB \<Longrightarrow>
   velocity bodyA \<noteq> position bodyA \<Longrightarrow> velocity bodyA \<noteq> position bodyB \<Longrightarrow>
   velocity bodyB \<noteq> position bodyA \<Longrightarrow> velocity bodyB \<noteq> position bodyB \<Longrightarrow>
   dx = fsub rnd
          (fadd rnd (vec_x (st (position bodyB))) (fdiv rnd (width (bounds bodyB)) (Num 2)))
          (fadd rnd (vec_x (st (position bodyA))) (fdiv rnd (width (bounds bodyA)) (Num 2))) \<Longrightarrow>
   dy = fsub rnd
          (fadd rnd (vec_y (st (position bodyB))) (fdiv rnd (height (bounds bodyB)) (Num 2)))
          (fadd rnd (vec_y (st (position bodyA))) (fdiv rnd (height (bounds bodyA)) (Num 2))) \<Longrightarrow>
   len = Math_sqrt rnd (fadd rnd (fmul rnd dx dx) (fmul rnd dy dy)) \<Longrightarrow>
   nx = fdiv rnd dx len \<Longrightarrow> ny = fdiv rnd dy len \<Longrightarrow>
   rv = fadd rnd
          (fmul rnd (fsub rnd (vec_x (st (velocity bodyB))) (vec_x (st (velocity bodyA)))) nx)
          (fmul rnd (fsub rnd (vec_y (st (velocity bodyB))) (vec_y (st (velocity bodyA)))) ny) \<Longrightarrow>
   rv < Num 0 \<Longrightarrow>
   impulse = fdiv rnd
               (fmul rnd (neg (fadd rnd (Num 1) (Math_min (restitution bodyA) (restitution bodyB))))
                  rv)
               (Num 2) \<Longrightarrow>
   st' = resolveCollision rnd bodyA bodyB st \<Longrightarrow>
   st' (velocity bodyA) =
       \<lparr>vec_x = fsub rnd (vec_x (st (velocity bodyA))) (fmul rnd impulse nx),
        vec_y = fsub rnd (vec_y (st (velocity bodyA))) (fmul rnd impulse ny)\<rparr>
   \<and> st' (velocity bodyB) =
       \<lparr>vec_x = fadd rnd (vec_x (st (velocity bodyB))) (fmul rnd impulse nx),
        vec_y = fadd rnd (vec_y (st (velocity bodyB))) (fmul rnd impulse ny)\<rparr>
   \<and> collision_dx rnd bodyA bodyB st = dx \<and> collision_dy rnd bodyA bodyB st = dy
   \<and> collision_length rnd bodyA bodyB st = len
   \<and> collision_nx rnd bodyA bodyB st = nx \<and> collision_ny rnd bodyA bodyB st = ny
   \<and> relativeVelocity rnd bodyA bodyB st = rv
   \<and> collision_impulse rnd bodyA bodyB st = impulse
   \<and> resolveCollision rnd (bodyA\<lparr>mass := ma\<rparr>) (bodyB\<lparr>mass := mb\<rparr>) st = st'
   \<and> (rnd = exact \<and> NegInf < rv \<longrightarrow>
        fadd exact (fmul exact nx nx) (fmul exact ny ny) = Num 1
        \<and> rv = fsub exact (normal_velocity exact nx ny (st (velocity bodyB)))
                  (normal_velocity exact nx ny (st (velocity bodyA)))
        \<and> (Math_min (restitution bodyA) (restitution bodyB) = Num 1 \<longrightarrow>
             normal_velocity exact nx ny (st' (velocity bodyA))
               = normal_velocity exact nx ny (st (velocity bodyB))
             \<and> normal_velocity exact nx ny (st' (velocity bodyB))
               = normal_velocity exact nx ny (st (velocity bodyA)))
        \<and> (Math_min (restitution bodyA) (restitution bodyB) = Num 0 \<longrightarrow>
             normal_velocity exact nx ny (st' (velocity bodyA))
               = normal_velocity exact nx ny (st' (velocity bodyB))))"
proof -
  assume sa: "\<not> isStatic bodyA" and sb: "\<not> isStatic bodyB"
    and vv: "velocity bodyA \<noteq> velocity bodyB"
    and va1: "velocity bodyA \<noteq> position bodyA" and va2: "velocity bodyA \<noteq> position bodyB"
    and vb1: "velocity bodyB \<noteq> position bodyA" and vb2: "velocity bodyB \<noteq> position bodyB"
    and dx: "dx = fsub rnd
          (fadd rnd (vec_x (st (position bodyB))) (fdiv rnd (width (bounds bodyB)) (Num 2)))
          (fadd rnd (vec_x (st (position bodyA))) (fdiv rnd (width (bounds bodyA)) (Num 2)))"
    and dy: "dy = fsub rnd
          (fadd rnd (vec_y (st (position bodyB))) (fdiv rnd (height (bounds bodyB)) (Num 2)))
          (fadd rnd (vec_y (st (position bodyA))) (fdiv rnd (height (bounds bodyA)) (Num 2)))"
    and len: "len = Math_sqrt rnd (fadd rnd (fmul rnd dx dx) (fmul rnd dy dy))"
    and nx: "nx = fdiv rnd dx len" and ny: "ny = fdiv rnd dy len"
    and rv: "rv = fadd rnd
          (fmul rnd (fsub rnd (vec_x (st (velocity bodyB))) (vec_x (st (velocity bodyA)))) nx)
          (fmul rnd (fsub rnd (vec_y (st (velocity bodyB))) (vec_y (st (velocity bodyA)))) ny)"
    and neg: "rv < Num 0"
    and imp: "impulse = fdiv rnd
               (fmul rnd (neg (fadd rnd (Num 1) (Math_min (restitution bodyA) (restitution bodyB))))
                  rv)
               (Num 2)"
    and st': "st' = resolveCollision rnd bodyA bodyB st"
  have c1: "collision_dx rnd bodyA bodyB st = dx" unfolding dx collision_dx_def ..
  have c2: "collision_dy rnd bodyA bodyB st = dy" unfolding dy collision_dy_def ..
  have c3: "collision_length rnd bodyA bodyB st = len"
    unfolding collision_length_def Let_def c1 c2 len ..
  have c4: "collision_nx rnd bodyA bodyB st = nx" unfolding collision_nx_def c1 c3 nx ..
  have c5: "collision_ny rnd bodyA bodyB st = ny" unfolding collision_ny_def c2 c3 ny ..
  have c6: "relativeVelocity rnd bodyA bodyB st = rv"
    unfolding relativeVelocity_def Let_def c4 c5 rv ..
  have c7: "collision_impulse rnd bodyA bodyB st = impulse"
    unfolding collision_impulse_def Let_def c6 imp using sa sb by simp
  have ngt: "\<not> relativeVelocity rnd bodyA bodyB st > Num 0"
    unfolding c6 using neg by (rule not_pos_if_neg)
  have a: "st' (velocity bodyA) =
       \<lparr>vec_x = fsub rnd (vec_x (st (velocity bodyA))) (fmul rnd impulse nx),
        vec_y = fsub rnd (vec_y (st (velocity bodyA))) (fmul rnd impulse ny)\<rparr>"
    unfolding st' using resolveCollision_velocity_A [OF sa ngt] vv va1 va2
    by (simp add: c4 c5 c7)
  have b: "st' (velocity bodyB) =
       \<lparr>vec_x = fadd rnd (vec_x (st (velocity bodyB))) (fmul rnd impulse nx),
        vec_y = fadd rnd (vec_y (st (velocity bodyB))) (fmul rnd impulse ny)\<rparr>"
    unfolding st' using resolveCollision_velocity_B [OF sb ngt] vv vb1 vb2
    by (simp add: c4 c5 c7)
  have m: "resolveCollision rnd (bodyA\<lparr>mass := ma\<rparr>) (bodyB\<lparr>mass := mb\<rparr>) st = st'"
    unfolding st'
    by (simp add: resolveCollision_def collision_impulse_def collision_overlap_def
        relativeVelocity_def collision_nx_def collision_ny_def collision_length_def
        collision_dx_def collision_dy_def cong: if_cong)
  have ex: "fadd exact (fmul exact nx nx) (fmul exact ny ny) = Num 1
        \<and> rv = fsub exact (normal_velocity exact nx ny (st (velocity bodyB)))
                  (normal_velocity exact nx ny (st (velocity bodyA)))
        \<and> (Math_min (restitution bodyA) (restitution bodyB) = Num 1 \<longrightarrow>
             normal_velocity exact nx ny (st' (velocity bodyA))
               = normal_velocity exact nx ny (st (velocity bodyB))
             \<and> normal_velocity exact nx ny (st' (velocity bodyB))
               = normal_velocity exact nx ny (st (velocity bodyA)))
        \<and> (Math_min (restitution bodyA) (restitution bodyB) = Num 0 \<longrightarrow>
             normal_velocity exact nx ny (st' (velocity bodyA))
               = normal_velocity exact nx ny (st' (velocity bodyB)))"
    if rf: "rnd = exact \<and> NegInf < rv"
  proof -
    from rf have r: "rnd = exact" and fin: "NegInf < rv" by simp_all
    from neg fin obtain v where v: "rv = Num v" by (cases rv) simp_all
    have len': "len = Math_sqrt exact (fadd exact (fmul exact dx dx) (fmul exact dy dy))"
      using len unfolding r .
    have rv': "fadd exact
          (fmul exact (fsub exact (vec_x (st (velocity bodyB))) (vec_x (st (velocity bodyA))))
             (fdiv exact dx len))
          (fmul exact (fsub exact (vec_y (st (velocity bodyB))) (vec_y (st (velocity bodyA))))
             (fdiv exact dy len)) = Num v"
      using rv unfolding r nx ny v by simp
    from len' rv' obtain p q ax ay bx by' where f:
      "fdiv exact dx len = Num p" "fdiv exact dy len = Num q"
      "vec_x (st (velocity bodyA)) = Num ax" "vec_y (st (velocity bodyA)) = Num ay"
      "vec_x (st (velocity bodyB)) = Num bx" "vec_y (st (velocity bodyB)) = Num by'"
      "p * p + q * q = 1" "v = (bx - ax) * p + (by' - ay) * q"
      by (rule relativeVelocity_finite)
    have n: "nx = Num p" "ny = Num q" using f(1,2) unfolding nx ny r by simp_all
    have unit: "fadd exact (fmul exact nx nx) (fmul exact ny ny) = Num 1"
      unfolding n using f(7) by (simp add: exact_def)
    have rel: "rv = fsub exact (normal_velocity exact nx ny (st (velocity bodyB)))
                  (normal_velocity exact nx ny (st (velocity bodyA)))"
      unfolding v n normal_velocity_def f
      by (simp add: exact_def fsub_def f(8) algebra_simps)
    have e1: "normal_velocity exact nx ny (st' (velocity bodyA))
               = normal_velocity exact nx ny (st (velocity bodyB))
             \<and> normal_velocity exact nx ny (st' (velocity bodyB))
               = normal_velocity exact nx ny (st (velocity bodyA))"
      if e: "Math_min (restitution bodyA) (restitution bodyB) = Num 1"
    proof -
      define j where "j = - (1 + 1) * ((bx - ax) * p + (by' - ay) * q) / 2"
      have ji: "impulse = Num j"
        unfolding imp e r v by (simp add: exact_def f(8) j_def)
      show ?thesis
        unfolding a b r ji n normal_velocity_def f
        using normal_exchange(1,2) [OF f(7) j_def]
        by (simp add: exact_def fsub_def)
    qed
    have e0: "normal_velocity exact nx ny (st' (velocity bodyA))
               = normal_velocity exact nx ny (st' (velocity bodyB))"
      if e: "Math_min (restitution bodyA) (restitution bodyB) = Num 0"
    proof -
      define j where "j = - (1 + 0) * ((bx - ax) * p + (by' - ay) * q) / 2"
      have ji: "impulse = Num j"
        unfolding imp e r v by (simp add: exact_def f(8) j_def)
      show ?thesis
        unfolding a b r ji n normal_velocity_def f
        using normal_exchange(3) [OF f(7) j_def]
        by (simp add: exact_def fsub_def)
    qed
    show ?thesis using unit rel e1 e0 by blast
  qed
  show ?thesis
    using a b c1 c2 c3 c4 c5 c6 c7 m ex by blast
qed

text \<open>
  Without rounding, a box of size \<open>10 \<times> 10\<close> at \<open>(0, 0)\<close> with velocity \<open>(1, 0)\<close> and a
  box of size \<open>10 \<times> 8\<close> at \<open>(3, 5)\<close> at rest: the centres differ by \<open>(3, 4)\<close>, the normal
  is \<open>(3/5, 4/5)\<close> and \<open>rv = -3/5\<close>. With restitution 1 the impulse is \<open>3/5\<close> and the
  normal velocity components \<open>3/5\<close> and \<open>0\<close> are exchanged; with restitution 0 the impulse
  is \<open>3/10\<close> and both bodies end with the normal velocity component \<open>3/10\<close>.
\<close>

theorem head_on_dynamic_impulse_witness:
  "isColliding exact (make_body 10 11 12 (10, 10) 1 False) (make_body 20 21 22 (10, 8) 1 False)
     ((\<lambda>v. vec 0 0)(11 := vec 1 0, 20 := vec 3 5))
   \<and> collision_dx exact (make_body 10 11 12 (10, 10) 1 False)
        (make_body 20 21 22 (10, 8) 1 False) ((\<lambda>v. vec 0 0)(11 := vec 1 0, 20 := vec 3 5)) = Num 3
   \<and> collision_dy exact (make_body 10 11 12 (10, 10) 1 False)
        (make_body 20 21 22 (10, 8) 1 False) ((\<lambda>v. vec 0 0)(11 := vec 1 0, 20 := vec 3 5)) = Num 4
   \<and> relativeVelocity exact (make_body 10 11 12 (10, 10) 1 False)
        (make_body 20 21 22 (10, 8) 1 False) ((\<lambda>v. vec 0 0)(11 := vec 1 0, 20 := vec 3 5))
      = Num (- 3 / 5)
   \<and> Num (- 3 / 5) < Num 0
   \<and> collision_impulse exact (make_body 10 11 12 (10, 10) 1 False)
        (make_body 20 21 22 (10, 8) 1 False) ((\<lambda>v. vec 0 0)(11 := vec 1 0, 20 := vec 3 5))
      = Num (3 / 5)
   \<and> resolveCollision exact (make_body 10 11 12 (10, 10) 1 False)
        (make_body 20 21 22 (10, 8) 1 False) ((\<lambda>v. vec 0 0)(11 := vec 1 0, 20 := vec 3 5)) 11
      = vec (16 / 25) (- 12 / 25)
   \<and> resolveCollision exact (make_body 10 11 12 (10, 10) 1 False)
        (make_body 20 21 22 (10, 8) 1 False) ((\<lambda>v. vec 0 0)(11 := vec 1 0, 20 := vec 3 5)) 21
      = vec (9 / 25) (12 / 25)
   \<and> normal_velocity exact (Num (3 / 5)) (Num (4 / 5)) (vec 1 0) = Num (3 / 5)
   \<and> normal_velocity exact (Num (3 / 5)) (Num (4 / 5)) (vec 0 0) = Num 0
   \<and> normal_velocity exact (Num (3 / 5)) (Num (4 / 5)) (vec (16 / 25) (- 12 / 25)) = Num 0
   \<and> normal_velocity exact (Num (3 / 5)) (Num (4 / 5)) (vec (9 / 25) (12 / 25)) = Num (3 / 5)
   \<and> collision_impulse exact (make_body 10 11 12 (10, 10) 0 False)
        (make_body 20 21 22 (10, 8) 0 False) ((\<lambda>v. vec 0 0)(11 := vec 1 0, 20 := vec 3 5))
      = Num (3 / 10)
   \<and> resolveCollision exact (make_body 10 11 12 (10, 10) 0 False)
        (make_body 20 21 22 (10, 8) 0 False) ((\<lambda>v. vec 0 0)(11 := vec 1 0, 20 := vec 3 5)) 11
      = vec (41 / 50) (- 6 / 25)
   \<and> resolveCollision exact (make_body 10 11 12 (10, 10) 0 False)
        (make_body 20 21 22 (10, 8) 0 False) ((\<lambda>v. vec 0 0)(11 := vec 1 0, 20 := vec 3 5)) 21
      = vec (9 / 50) (6 / 25)
   \<and> normal_velocity exact (Num (3 / 5)) (Num (4 / 5)) (vec (41 / 50) (- 6 / 25)) = Num (3 / 10)
   \<and> normal_velocity exact (Num (3 / 5)) (Num (4 / 5)) (vec (9 / 50) (6 / 25)) = Num (3 / 10)"
proof -
  let ?A = "make_body 10 11 12 (10, 10) 1 False"
  let ?B = "make_body 20 21 22 (10, 8) 1 False"
  let ?C = "make_body 10 11 12 (10, 10) 0 False"
  let ?D = "make_body 20 21 22 (10, 8) 0 False"
  let ?st = "(\<lambda>v::vref. vec 0 0)(11 := vec 1 0, 20 := vec 3 5)"
  have c: "isColliding exact ?A ?B ?st"
    by (simp add: make_body_def vec_def isColliding_def exact_ops)
  have s: "\<not> isStatic ?A" "\<not> isStatic ?B" "\<not> isStatic ?C" "\<not> isStatic ?D"
    by (simp_all add: make_body_def)
  have d: "velocity ?A \<noteq> velocity ?B" "velocity ?A \<noteq> position ?A"
    "velocity ?A \<noteq> position ?B" "velocity ?B \<noteq> position ?A" "velocity ?B \<noteq> position ?B"
    "velocity ?C \<noteq> velocity ?D" "velocity ?C \<noteq> position ?C"
    "velocity ?C \<noteq> position ?D" "velocity ?D \<noteq> position ?C" "velocity ?D \<noteq> position ?D"
    by (simp_all add: make_body_def)
  have dx: "Num 3 = fsub exact
          (fadd exact (vec_x (?st (position ?B))) (fdiv exact (width (bounds ?B)) (Num 2)))
          (fadd exact (vec_x (?st (position ?A))) (fdiv exact (width (bounds ?A)) (Num 2)))"
    "Num 3 = fsub exact
          (fadd exact (vec_x (?st (position ?D))) (fdiv exact (width (bounds ?D)) (Num 2)))
          (fadd exact (vec_x (?st (position ?C))) (fdiv exact (width (bounds ?C)) (Num 2)))"
    by (simp_all add: make_body_def vec_def exact_ops)
  have dy: "Num 4 = fsub exact
          (fadd exact (vec_y (?st (position ?B))) (fdiv exact (height (bounds ?B)) (Num 2)))
          (fadd exact (vec_y (?st (position ?A))) (fdiv exact (height (bounds ?A)) (Num 2)))"
    "Num 4 = fsub exact
          (fadd exact (vec_y (?st (position ?D))) (fdiv exact (height (bounds ?D)) (Num 2)))
          (fadd exact (vec_y (?st (position ?C))) (fdiv exact (height (bounds ?C)) (Num 2)))"
    by (simp_all add: make_body_def vec_def exact_ops)
  have len: "Num 5 = Math_sqrt exact (fadd exact (fmul exact (Num 3) (Num 3)) (fmul exact (Num 4) (Num 4)))"
    by (simp add: exact_ops sqrt_25)
  have nx: "Num (3 / 5) = fdiv exact (Num 3) (Num 5)" by (simp add: exact_ops)
  have ny: "Num (4 / 5) = fdiv exact (Num 4) (Num 5)" by (simp add: exact_ops)
  have rv: "Num (- 3 / 5) = fadd exact
          (fmul exact (fsub exact (vec_x (?st (velocity ?B))) (vec_x (?st (velocity ?A)))) (Num (3 / 5)))
          (fmul exact (fsub exact (vec_y (?st (velocity ?B))) (vec_y (?st (velocity ?A)))) (Num (4 / 5)))"
    "Num (- 3 / 5) = fadd exact
          (fmul exact (fsub exact (vec_x (?st (velocity ?D))) (vec_x (?st (velocity ?C)))) (Num (3 / 5)))
          (fmul exact (fsub exact (vec_y (?st (velocity ?D))) (vec_y (?st (velocity ?C)))) (Num (4 / 5)))"
    by (simp_all add: make_body_def vec_def exact_ops)
  have neg: "Num (- 3 / 5) < Num 0" by simp
  have fin: "NegInf < Num (- 3 / 5)" by simp
  have j1: "Num (3 / 5) = fdiv exact
               (fmul exact (neg (fadd exact (Num 1) (Math_min (restitution ?A) (restitution ?B))))
                  (Num (- 3 / 5)))
               (Num 2)"
    by (simp add: make_body_def exact_ops)
  have j0: "Num (3 / 10) = fdiv exact
               (fmul exact (neg (fadd exact (Num 1) (Math_min (restitution ?C) (restitution ?D))))
                  (Num (- 3 / 5)))
               (Num 2)"
    by (simp add: make_body_def exact_ops)
  have m1: "Math_min (restitution ?A) (restitution ?B) = Num 1" by (simp add: make_body_def)
  have m0: "Math_min (restitution ?C) (restitution ?D) = Num 0" by (simp add: make_body_def)
  have v: "?st (velocity ?A) = vec 1 0" "?st (velocity ?B) = vec 0 0"
    "?st (velocity ?C) = vec 1 0" "?st (velocity ?D) = vec 0 0"
    by (simp_all add: make_body_def)
  have vr: "velocity ?A = 11" "velocity ?B = 21" "velocity ?C = 11" "velocity ?D = 21"
    by (simp_all add: make_body_def)
  note t1 = head_on_dynamic_impulse [where rnd = exact and bodyA = ?A and bodyB = ?B and st = ?st
      and dx = "Num 3" and dy = "Num 4" and len = "Num 5" and nx = "Num (3 / 5)"
      and ny = "Num (4 / 5)" and rv = "Num (- 3 / 5)" and impulse = "Num (3 / 5)"
      and st' = "resolveCollision exact ?A ?B ?st",
      OF s(1,2) d(1-5) dx(1) dy(1) len nx ny rv(1) neg j1 refl]
  note t0 = head_on_dynamic_impulse [where rnd = exact and bodyA = ?C and bodyB = ?D and st = ?st
      and dx = "Num 3" and dy = "Num 4" and len = "Num 5" and nx = "Num (3 / 5)"
      and ny = "Num (4 / 5)" and rv = "Num (- 3 / 5)" and impulse = "Num (3 / 10)"
      and st' = "resolveCollision exact ?C ?D ?st",
      OF s(3,4) d(6-10) dx(2) dy(2) len nx ny rv(2) neg j0 refl]
  have a1: "resolveCollision exact ?A ?B ?st 11 = vec (16 / 25) (- 12 / 25)"
    using t1 [THEN conjunct1] unfolding v unfolding vr by (simp add: vec_def exact_ops)
  have b1: "resolveCollision exact ?A ?B ?st 21 = vec (9 / 25) (12 / 25)"
    using t1 [THEN conjunct2, THEN conjunct1] unfolding v unfolding vr
    by (simp add: vec_def exact_ops)
  have a0: "resolveCollision exact ?C ?D ?st 11 = vec (41 / 50) (- 6 / 25)"
    using t0 [THEN conjunct1] unfolding v unfolding vr by (simp add: vec_def exact_ops)
  have b0: "resolveCollision exact ?C ?D ?st 21 = vec (9 / 50) (6 / 25)"
    using t0 [THEN conjunct2, THEN conjunct1] unfolding v unfolding vr
    by (simp add: vec_def exact_ops)
  note k1 = t1 [THEN conjunct2, THEN conjunct2]
  note k0 = t0 [THEN conjunct2, THEN conjunct2]
  have cdx: "collision_dx exact ?A ?B ?st = Num 3" using k1 by (rule conjunct1)
  have cdy: "collision_dy exact ?A ?B ?st = Num 4"
    using k1 [THEN conjunct2] by (rule conjunct1)
  note r1 = k1 [THEN conjunct2, THEN conjunct2, THEN conjunct2, THEN conjunct2, THEN conjunct2]
  note r0 = k0 [THEN conjunct2, THEN conjunct2, THEN conjunct2, THEN conjunct2, THEN conjunct2]
  have crv: "relativeVelocity exact ?A ?B ?st = Num (- 3 / 5)" using r1 by (rule conjunct1)
  have cj1: "collision_impulse exact ?A ?B ?st = Num (3 / 5)"
    using r1 [THEN conjunct2] by (rule conjunct1)
  have cj0: "collision_impulse exact ?C ?D ?st = Num (3 / 10)"
    using r0 [THEN conjunct2] by (rule conjunct1)
  note e1 = r1 [THEN conjunct2, THEN conjunct2, THEN conjunct2, rule_format, OF conjI [OF refl fin],
      THEN conjunct2, THEN conjunct2, THEN conjunct1, rule_format, OF m1]
  note e0 = r0 [THEN conjunct2, THEN conjunct2, THEN conjunct2, rule_format, OF conjI [OF refl fin],
      THEN conjunct2, THEN conjunct2, THEN conjunct2, rule_format, OF m0]
  have n: "normal_velocity exact (Num (3 / 5)) (Num (4 / 5)) (vec 1 0) = Num (3 / 5)"
    "normal_velocity exact (Num (3 / 5)) (Num (4 / 5)) (vec 0 0) = Num 0"
    by (simp_all add: normal_velocity_def vec_def exact_ops)
  have x1: "normal_velocity exact (Num (3 / 5)) (Num (4 / 5)) (vec (16 / 25) (- 12 / 25)) = Num 0"
    using e1 [THEN conjunct1] unfolding v unfolding vr a1 n .
  have x2: "normal_velocity exact (Num (3 / 5)) (Num (4 / 5)) (vec (9 / 25) (12 / 25)) = Num (3 / 5)"
    using e1 [THEN conjunct2] unfolding v unfolding vr b1 n .
  have y1: "normal_velocity exact (Num (3 / 5)) (Num (4 / 5)) (vec (41 / 50) (- 6 / 25)) = Num (3 / 10)"
    by (simp add: normal_velocity_def vec_def exact_ops)
  have y2: "normal_velocity exact (Num (3 / 5)) (Num (4 / 5)) (vec (9 / 50) (6 / 25)) = Num (3 / 10)"
    using e0 unfolding vr a0 b0 y1 by simp
  show ?thesis
    by (rule conjI c cdx cdy crv neg cj1 a1 b1 n x1 x2 cj0 a0 b0 y1 y2)+
qed

text \<open>
  A body whose velocity and position are one object \<open>(1, 0)\<close>, and a second body at
  \<open>(6, 0)\<close> with velocity \<open>(-1, 0)\<close>, both of size \<open>10 \<times> 10\<close> with restitution 1: the
  normal is \<open>(1, 0)\<close>, \<open>rv = -2\<close>, the impulse is 2, and the positional correction is
  subtracted from the same object after the impulse. The velocity of the first body ends
  as \<open>(-7/2, 0)\<close>, not as its velocity minus the impulse along the normal, \<open>(-1, 0)\<close>.
\<close>

theorem head_on_dynamic_impulse_counterexample:
  "\<not> isStatic (make_body 10 10 12 (10, 10) 1 False)
   \<and> \<not> isStatic (make_body 20 21 22 (10, 10) 1 False)
   \<and> velocity (make_body 10 10 12 (10, 10) 1 False) = position (make_body 10 10 12 (10, 10) 1 False)
   \<and> isColliding exact (make_body 10 10 12 (10, 10) 1 False) (make_body 20 21 22 (10, 10) 1 False)
       ((\<lambda>v. vec 0 0)(10 := vec 1 0, 20 := vec 6 0, 21 := vec (- 1) 0))
   \<and> relativeVelocity exact (make_body 10 10 12 (10, 10) 1 False)
        (make_body 20 21 22 (10, 10) 1 False)
        ((\<lambda>v. vec 0 0)(10 := vec 1 0, 20 := vec 6 0, 21 := vec (- 1) 0)) = Num (- 2)
   \<and> Num (- 2) < Num 0
   \<and> collision_impulse exact (make_body 10 10 12 (10, 10) 1 False)
        (make_body 20 21 22 (10, 10) 1 False)
        ((\<lambda>v. vec 0 0)(10 := vec 1 0, 20 := vec 6 0, 21 := vec (- 1) 0)) = Num 2
   \<and> collision_nx exact (make_body 10 10 12 (10, 10) 1 False)
        (make_body 20 21 22 (10, 10) 1 False)
        ((\<lambda>v. vec 0 0)(10 := vec 1 0, 20 := vec 6 0, 21 := vec (- 1) 0)) = Num 1
   \<and> collision_ny exact (make_body 10 10 12 (10, 10) 1 False)
        (make_body 20 21 22 (10, 10) 1 False)
        ((\<lambda>v. vec 0 0)(10 := vec 1 0, 20 := vec 6 0, 21 := vec (- 1) 0)) = Num 0
   \<and> resolveCollision exact (make_body 10 10 12 (10, 10) 1 False)
        (make_body 20 21 22 (10, 10) 1 False)
        ((\<lambda>v. vec 0 0)(10 := vec 1 0, 20 := vec 6 0, 21 := vec (- 1) 0))
        (velocity (make_body 10 10 12 (10, 10) 1 False))
      = vec (- 7 / 2) 0
   \<and> vec (- 7 / 2) 0
       \<noteq> \<lparr>vec_x = fsub exact (Num 1) (fmul exact (Num 2) (Num 1)),
           vec_y = fsub exact (Num 0) (fmul exact (Num 2) (Num 0))\<rparr>"
proof -
  let ?A = "make_body 10 10 12 (10, 10) 1 False"
  let ?B = "make_body 20 21 22 (10, 10) 1 False"
  let ?st = "(\<lambda>v::vref. vec 0 0)(10 := vec 1 0, 20 := vec 6 0, 21 := vec (- 1) 0)"
  have c: "isColliding exact ?A ?B ?st"
    by (simp add: make_body_def vec_def isColliding_def exact_ops)
  have n: "collision_nx exact ?A ?B ?st = Num 1" "collision_ny exact ?A ?B ?st = Num 0"
    by (simp_all add: make_body_def vec_def collision_defs Let_def exact_ops sqrt_25)
  have rv: "relativeVelocity exact ?A ?B ?st = Num (- 2)"
    by (simp add: make_body_def vec_def collision_defs Let_def exact_ops sqrt_25)
  have j: "collision_impulse exact ?A ?B ?st = Num 2"
    by (simp add: make_body_def vec_def collision_defs Let_def exact_ops sqrt_25)
  have r: "resolveCollision exact ?A ?B ?st 10 = vec (- 7 / 2) 0"
    by (simp add: resolveCollision_def Let_def make_body_def vec_def collision_defs sqrt_25
        assign_defs exact_ops)
  show ?thesis
    using c n rv j r by (simp add: make_body_def vec_def exact_ops)
qed

subsection \<open>Positions after a resolution\<close>

lemma resolveCollision_position_A:
  assumes "\<not> isStatic bodyA" "\<not> relativeVelocity rnd bodyA bodyB st > Num 0"
    and "velocity bodyA \<noteq> position bodyA"
    and "isStatic bodyB \<or> (velocity bodyB \<noteq> position bodyA \<and> position bodyA \<noteq> position bodyB)"
  shows "resolveCollision rnd bodyA bodyB st (position bodyA) =
     (if collision_overlap rnd bodyA bodyB st > Num 0 then
        (if \<not> isStatic bodyB then
           \<lparr>vec_x = fsub rnd (vec_x (st (position bodyA)))
                      (fdiv rnd (fmul rnd (collision_overlap rnd bodyA bodyB st)
                         (collision_nx rnd bodyA bodyB st)) (Num 2)),
            vec_y = fsub rnd (vec_y (st (position bodyA)))
                      (fdiv rnd (fmul rnd (collision_overlap rnd bodyA bodyB st)
                         (collision_ny rnd bodyA bodyB st)) (Num 2))\<rparr>
         else
           \<lparr>vec_x = fsub rnd (vec_x (st (position bodyA)))
                      (fmul rnd (collision_overlap rnd bodyA bodyB st)
                         (collision_nx rnd bodyA bodyB st)),
            vec_y = fsub rnd (vec_y (st (position bodyA)))
                      (fmul rnd (collision_overlap rnd bodyA bodyB st)
                         (collision_ny rnd bodyA bodyB st))\<rparr>)
      else st (position bodyA))"
  using assms by (auto simp add: resolveCollision_def Let_def assign_defs)

lemma resolveCollision_position_B:
  assumes "\<not> isStatic bodyB" "\<not> relativeVelocity rnd bodyA bodyB st > Num 0"
    and "velocity bodyB \<noteq> position bodyB"
    and "isStatic bodyA \<or> (velocity bodyA \<noteq> position bodyB \<and> position bodyA \<noteq> position bodyB)"
  shows "resolveCollision rnd bodyA bodyB st (position bodyB) =
     (if collision_overlap rnd bodyA bodyB st > Num 0 then
        (if \<not> isStatic bodyA then
           \<lparr>vec_x = fadd rnd (vec_x (st (position bodyB)))
                      (fdiv rnd (fmul rnd (collision_overlap rnd bodyA bodyB st)
                         (collision_nx rnd bodyA bodyB st)) (Num 2)),
            vec_y = fadd rnd (vec_y (st (position bodyB)))
                      (fdiv rnd (fmul rnd (collision_overlap rnd bodyA bodyB st)
                         (collision_ny rnd bodyA bodyB st)) (Num 2))\<rparr>
         else
           \<lparr>vec_x = fadd rnd (vec_x (st (position bodyB)))
                      (fmul rnd (collision_overlap rnd bodyA bodyB st)
                         (collision_nx rnd bodyA bodyB st)),
            vec_y = fadd rnd (vec_y (st (position bodyB)))
                      (fmul rnd (collision_overlap rnd bodyA bodyB st)
                         (collision_ny rnd bodyA bodyB st))\<rparr>)
      else st (position bodyB))"
  using assms by (auto simp add: resolveCollision_def Let_def assign_defs)

lemma half_times_exact:
  "fdiv exact (fmul exact x (Num p)) (Num 2) = fmul exact (fdiv exact x (Num 2)) (Num p)"
  by (cases x) (simp_all add: exact_def infinity_def)

text \<open>
  C6 (as amended). A pair that is not both static, whose position objects are two
  different objects and none of them the velocity object of a non-static body of the
  pair, and whose relative normal velocity \<open>rv\<close> is not positive. With \<open>dx\<close>, \<open>dy\<close>, the
  normal and \<open>rv\<close> computed as in the code, the overlap is
  \<open>(A.width + B.width) / 2 - |dx|\<close>, from the widths and the x distance of the centres
  only. Without a positive overlap no position changes. With a positive overlap: if both
  bodies are dynamic, \<open>(overlap * normal) / 2\<close> is subtracted from A's position and added
  to B's; if only A is dynamic, \<open>overlap * normal\<close> is subtracted from A's position and
  B's is unchanged; if only B is dynamic, \<open>overlap * normal\<close> is added to B's position and
  A's is unchanged. Without rounding and for a finite \<open>rv\<close> the normal is a unit vector
  and \<open>(overlap * normal) / 2\<close> is \<open>(overlap / 2) * normal\<close>.
\<close>

theorem positional_correction:
  "\<not> (isStatic bodyA \<and> isStatic bodyB) \<Longrightarrow>
   position bodyA \<noteq> position bodyB \<Longrightarrow>
   (\<not> isStatic bodyA \<longrightarrow>
      velocity bodyA \<noteq> position bodyA \<and> velocity bodyA \<noteq> position bodyB) \<Longrightarrow>
   (\<not> isStatic bodyB \<longrightarrow>
      velocity bodyB \<noteq> position bodyA \<and> velocity bodyB \<noteq> position bodyB) \<Longrightarrow>
   dx = fsub rnd
          (fadd rnd (vec_x (st (position bodyB))) (fdiv rnd (width (bounds bodyB)) (Num 2)))
          (fadd rnd (vec_x (st (position bodyA))) (fdiv rnd (width (bounds bodyA)) (Num 2))) \<Longrightarrow>
   dy = fsub rnd
          (fadd rnd (vec_y (st (position bodyB))) (fdiv rnd (height (bounds bodyB)) (Num 2)))
          (fadd rnd (vec_y (st (position bodyA))) (fdiv rnd (height (bounds bodyA)) (Num 2))) \<Longrightarrow>
   len = Math_sqrt rnd (fadd rnd (fmul rnd dx dx) (fmul rnd dy dy)) \<Longrightarrow>
   nx = fdiv rnd dx len \<Longrightarrow> ny = fdiv rnd dy len \<Longrightarrow>
   rv = fadd rnd
          (fmul rnd (fsub rnd (vec_x (st (velocity bodyB))) (vec_x (st (velocity bodyA)))) nx)
          (fmul rnd (fsub rnd (vec_y (st (velocity bodyB))) (vec_y (st (velocity bodyA)))) ny) \<Longrightarrow>
   \<not> rv > Num 0 \<Longrightarrow>
   overlap = fsub rnd
               (fdiv rnd (fadd rnd (width (bounds bodyA)) (width (bounds bodyB))) (Num 2))
               (Math_abs dx) \<Longrightarrow>
   st' = resolveCollision rnd bodyA bodyB st \<Longrightarrow>
   collision_overlap rnd bodyA bodyB st = overlap
   \<and> collision_dx rnd bodyA bodyB st = dx \<and> collision_dy rnd bodyA bodyB st = dy
   \<and> collision_nx rnd bodyA bodyB st = nx \<and> collision_ny rnd bodyA bodyB st = ny
   \<and> relativeVelocity rnd bodyA bodyB st = rv
   \<and> (\<not> overlap > Num 0 \<longrightarrow>
        st' (position bodyA) = st (position bodyA) \<and> st' (position bodyB) = st (position bodyB))
   \<and> (overlap > Num 0 \<and> \<not> isStatic bodyA \<and> \<not> isStatic bodyB \<longrightarrow>
        st' (position bodyA) =
          \<lparr>vec_x = fsub rnd (vec_x (st (position bodyA))) (fdiv rnd (fmul rnd overlap nx) (Num 2)),
           vec_y = fsub rnd (vec_y (st (position bodyA))) (fdiv rnd (fmul rnd overlap ny) (Num 2))\<rparr>
        \<and> st' (position bodyB) =
          \<lparr>vec_x = fadd rnd (vec_x (st (position bodyB))) (fdiv rnd (fmul rnd overlap nx) (Num 2)),
           vec_y = fadd rnd (vec_y (st (position bodyB))) (fdiv rnd (fmul rnd overlap ny) (Num 2))\<rparr>)
   \<and> (overlap > Num 0 \<and> \<not> isStatic bodyA \<and> isStatic bodyB \<longrightarrow>
        st' (position bodyA) =
          \<lparr>vec_x = fsub rnd (vec_x (st (position bodyA))) (fmul rnd overlap nx),
           vec_y = fsub rnd (vec_y (st (position bodyA))) (fmul rnd overlap ny)\<rparr>
        \<and> st' (position bodyB) = st (position bodyB))
   \<and> (overlap > Num 0 \<and> isStatic bodyA \<and> \<not> isStatic bodyB \<longrightarrow>
        st' (position bodyB) =
          \<lparr>vec_x = fadd rnd (vec_x (st (position bodyB))) (fmul rnd overlap nx),
           vec_y = fadd rnd (vec_y (st (position bodyB))) (fmul rnd overlap ny)\<rparr>
        \<and> st' (position bodyA) = st (position bodyA))
   \<and> (rnd = exact \<and> NegInf < rv \<longrightarrow>
        fadd exact (fmul exact nx nx) (fmul exact ny ny) = Num 1
        \<and> fdiv exact (fmul exact overlap nx) (Num 2) = fmul exact (fdiv exact overlap (Num 2)) nx
        \<and> fdiv exact (fmul exact overlap ny) (Num 2) = fmul exact (fdiv exact overlap (Num 2)) ny)"
proof -
  assume ns: "\<not> (isStatic bodyA \<and> isStatic bodyB)"
    and pp: "position bodyA \<noteq> position bodyB"
    and va: "\<not> isStatic bodyA \<longrightarrow>
      velocity bodyA \<noteq> position bodyA \<and> velocity bodyA \<noteq> position bodyB"
    and vb: "\<not> isStatic bodyB \<longrightarrow>
      velocity bodyB \<noteq> position bodyA \<and> velocity bodyB \<noteq> position bodyB"
    and dx: "dx = fsub rnd
          (fadd rnd (vec_x (st (position bodyB))) (fdiv rnd (width (bounds bodyB)) (Num 2)))
          (fadd rnd (vec_x (st (position bodyA))) (fdiv rnd (width (bounds bodyA)) (Num 2)))"
    and dy: "dy = fsub rnd
          (fadd rnd (vec_y (st (position bodyB))) (fdiv rnd (height (bounds bodyB)) (Num 2)))
          (fadd rnd (vec_y (st (position bodyA))) (fdiv rnd (height (bounds bodyA)) (Num 2)))"
    and len: "len = Math_sqrt rnd (fadd rnd (fmul rnd dx dx) (fmul rnd dy dy))"
    and nx: "nx = fdiv rnd dx len" and ny: "ny = fdiv rnd dy len"
    and rv: "rv = fadd rnd
          (fmul rnd (fsub rnd (vec_x (st (velocity bodyB))) (vec_x (st (velocity bodyA)))) nx)
          (fmul rnd (fsub rnd (vec_y (st (velocity bodyB))) (vec_y (st (velocity bodyA)))) ny)"
    and ngt': "\<not> rv > Num 0"
    and ov: "overlap = fsub rnd
               (fdiv rnd (fadd rnd (width (bounds bodyA)) (width (bounds bodyB))) (Num 2))
               (Math_abs dx)"
    and st': "st' = resolveCollision rnd bodyA bodyB st"
  have c1: "collision_dx rnd bodyA bodyB st = dx" unfolding dx collision_dx_def ..
  have c2: "collision_dy rnd bodyA bodyB st = dy" unfolding dy collision_dy_def ..
  have c3: "collision_length rnd bodyA bodyB st = len"
    unfolding collision_length_def Let_def c1 c2 len ..
  have c4: "collision_nx rnd bodyA bodyB st = nx" unfolding collision_nx_def c1 c3 nx ..
  have c5: "collision_ny rnd bodyA bodyB st = ny" unfolding collision_ny_def c2 c3 ny ..
  have c6: "relativeVelocity rnd bodyA bodyB st = rv"
    unfolding relativeVelocity_def Let_def c4 c5 rv ..
  have c7: "collision_overlap rnd bodyA bodyB st = overlap"
    unfolding collision_overlap_def c1 ov ..
  have ngt: "\<not> relativeVelocity rnd bodyA bodyB st > Num 0"
    unfolding c6 by (rule ngt')
  have pa: "st' (position bodyA) =
     (if overlap > Num 0 then
        (if \<not> isStatic bodyB then
           \<lparr>vec_x = fsub rnd (vec_x (st (position bodyA))) (fdiv rnd (fmul rnd overlap nx) (Num 2)),
            vec_y = fsub rnd (vec_y (st (position bodyA))) (fdiv rnd (fmul rnd overlap ny) (Num 2))\<rparr>
         else
           \<lparr>vec_x = fsub rnd (vec_x (st (position bodyA))) (fmul rnd overlap nx),
            vec_y = fsub rnd (vec_y (st (position bodyA))) (fmul rnd overlap ny)\<rparr>)
      else st (position bodyA))"
    if sa: "\<not> isStatic bodyA"
  proof -
    have 1: "velocity bodyA \<noteq> position bodyA" using va sa by simp
    have 2: "isStatic bodyB \<or> (velocity bodyB \<noteq> position bodyA \<and> position bodyA \<noteq> position bodyB)"
      using vb pp by blast
    show ?thesis
      unfolding st' resolveCollision_position_A [OF sa ngt 1 2] c4 c5 c7 ..
  qed
  have pb: "st' (position bodyB) =
     (if overlap > Num 0 then
        (if \<not> isStatic bodyA then
           \<lparr>vec_x = fadd rnd (vec_x (st (position bodyB))) (fdiv rnd (fmul rnd overlap nx) (Num 2)),
            vec_y = fadd rnd (vec_y (st (position bodyB))) (fdiv rnd (fmul rnd overlap ny) (Num 2))\<rparr>
         else
           \<lparr>vec_x = fadd rnd (vec_x (st (position bodyB))) (fmul rnd overlap nx),
            vec_y = fadd rnd (vec_y (st (position bodyB))) (fmul rnd overlap ny)\<rparr>)
      else st (position bodyB))"
    if sb: "\<not> isStatic bodyB"
  proof -
    have 1: "velocity bodyB \<noteq> position bodyB" using vb sb by simp
    have 2: "isStatic bodyA \<or> (velocity bodyA \<noteq> position bodyB \<and> position bodyA \<noteq> position bodyB)"
      using va pp by blast
    show ?thesis
      unfolding st' resolveCollision_position_B [OF sb ngt 1 2] c4 c5 c7 ..
  qed
  have sta: "st' (position bodyA) = st (position bodyA)" if sa: "isStatic bodyA"
    unfolding st'
  proof (rule resolveCollision_frame)
    show "isStatic bodyA \<or> (position bodyA \<noteq> position bodyA \<and> position bodyA \<noteq> velocity bodyA)"
      using sa by simp
    show "isStatic bodyB \<or> (position bodyA \<noteq> position bodyB \<and> position bodyA \<noteq> velocity bodyB)"
      using vb pp by auto
  qed
  have stb: "st' (position bodyB) = st (position bodyB)" if sb: "isStatic bodyB"
    unfolding st'
  proof (rule resolveCollision_frame)
    show "isStatic bodyB \<or> (position bodyB \<noteq> position bodyB \<and> position bodyB \<noteq> velocity bodyB)"
      using sb by simp
    show "isStatic bodyA \<or> (position bodyB \<noteq> position bodyA \<and> position bodyB \<noteq> velocity bodyA)"
      using va pp by auto
  qed
  have none: "st' (position bodyA) = st (position bodyA)
      \<and> st' (position bodyB) = st (position bodyB)"
    if "\<not> overlap > Num 0"
    using that pa pb sta stb by (cases "isStatic bodyA"; cases "isStatic bodyB") simp_all
  have both: "st' (position bodyA) =
          \<lparr>vec_x = fsub rnd (vec_x (st (position bodyA))) (fdiv rnd (fmul rnd overlap nx) (Num 2)),
           vec_y = fsub rnd (vec_y (st (position bodyA))) (fdiv rnd (fmul rnd overlap ny) (Num 2))\<rparr>
        \<and> st' (position bodyB) =
          \<lparr>vec_x = fadd rnd (vec_x (st (position bodyB))) (fdiv rnd (fmul rnd overlap nx) (Num 2)),
           vec_y = fadd rnd (vec_y (st (position bodyB))) (fdiv rnd (fmul rnd overlap ny) (Num 2))\<rparr>"
    if "overlap > Num 0 \<and> \<not> isStatic bodyA \<and> \<not> isStatic bodyB"
    using that pa pb by simp
  have onlyA: "st' (position bodyA) =
          \<lparr>vec_x = fsub rnd (vec_x (st (position bodyA))) (fmul rnd overlap nx),
           vec_y = fsub rnd (vec_y (st (position bodyA))) (fmul rnd overlap ny)\<rparr>
        \<and> st' (position bodyB) = st (position bodyB)"
    if "overlap > Num 0 \<and> \<not> isStatic bodyA \<and> isStatic bodyB"
    using that pa stb by simp
  have onlyB: "st' (position bodyB) =
          \<lparr>vec_x = fadd rnd (vec_x (st (position bodyB))) (fmul rnd overlap nx),
           vec_y = fadd rnd (vec_y (st (position bodyB))) (fmul rnd overlap ny)\<rparr>
        \<and> st' (position bodyA) = st (position bodyA)"
    if "overlap > Num 0 \<and> isStatic bodyA \<and> \<not> isStatic bodyB"
    using that pb sta by simp
  have ex: "fadd exact (fmul exact nx nx) (fmul exact ny ny) = Num 1
        \<and> fdiv exact (fmul exact overlap nx) (Num 2) = fmul exact (fdiv exact overlap (Num 2)) nx
        \<and> fdiv exact (fmul exact overlap ny) (Num 2) = fmul exact (fdiv exact overlap (Num 2)) ny"
    if rf: "rnd = exact \<and> NegInf < rv"
  proof -
    from rf have r: "rnd = exact" and fin: "NegInf < rv" by simp_all
    from fin obtain v where v: "rv = Num v" using ngt' by (cases rv) simp_all
    have len': "len = Math_sqrt exact (fadd exact (fmul exact dx dx) (fmul exact dy dy))"
      using len unfolding r .
    have rv': "fadd exact
          (fmul exact (fsub exact (vec_x (st (velocity bodyB))) (vec_x (st (velocity bodyA))))
             (fdiv exact dx len))
          (fmul exact (fsub exact (vec_y (st (velocity bodyB))) (vec_y (st (velocity bodyA))))
             (fdiv exact dy len)) = Num v"
      using rv unfolding r nx ny v by simp
    from len' rv' obtain p q where f:
      "fdiv exact dx len = Num p" "fdiv exact dy len = Num q" "p * p + q * q = 1"
      by (rule relativeVelocity_finite)
    have n: "nx = Num p" "ny = Num q" using f(1,2) unfolding nx ny r by simp_all
    have unit: "fadd exact (fmul exact nx nx) (fmul exact ny ny) = Num 1"
      unfolding n using f(3) by (simp add: exact_def)
    show ?thesis
      using unit unfolding n by (simp add: half_times_exact)
  qed
  show ?thesis
    using c7 c1 c2 c4 c5 c6 none both onlyA onlyB ex by blast
qed

text \<open>
  Without rounding. Two dynamic boxes of size \<open>10 \<times> 10\<close> at \<open>(0, 0)\<close> and \<open>10 \<times> 8\<close> at
  \<open>(3, 5)\<close>, normal \<open>(3/5, 4/5)\<close>, overlap 7: each is moved by \<open>7/2\<close> times the normal,
  in opposite directions. The same boxes at rest with restitution 0, the second static:
  the first is moved by 7 times the normal against it and the static one stays. A box
  that has sunk by 1 into a static floor of width 100 below it: the overlap taken from
  the widths is 55, and the box is moved up by 55.
\<close>

theorem positional_correction_witness:
  "isColliding exact (make_body 10 11 12 (10, 10) 0 False) (make_body 20 21 22 (10, 8) 0 False)
     ((\<lambda>v. vec 0 0)(11 := vec 1 0, 20 := vec 3 5))
   \<and> relativeVelocity exact (make_body 10 11 12 (10, 10) 0 False) (make_body 20 21 22 (10, 8) 0 False)
        ((\<lambda>v. vec 0 0)(11 := vec 1 0, 20 := vec 3 5)) = Num (- 3 / 5)
   \<and> collision_overlap exact (make_body 10 11 12 (10, 10) 0 False) (make_body 20 21 22 (10, 8) 0 False)
        ((\<lambda>v. vec 0 0)(11 := vec 1 0, 20 := vec 3 5)) = Num 7
   \<and> collision_nx exact (make_body 10 11 12 (10, 10) 0 False) (make_body 20 21 22 (10, 8) 0 False)
        ((\<lambda>v. vec 0 0)(11 := vec 1 0, 20 := vec 3 5)) = Num (3 / 5)
   \<and> collision_ny exact (make_body 10 11 12 (10, 10) 0 False) (make_body 20 21 22 (10, 8) 0 False)
        ((\<lambda>v. vec 0 0)(11 := vec 1 0, 20 := vec 3 5)) = Num (4 / 5)
   \<and> resolveCollision exact (make_body 10 11 12 (10, 10) 0 False) (make_body 20 21 22 (10, 8) 0 False)
        ((\<lambda>v. vec 0 0)(11 := vec 1 0, 20 := vec 3 5)) 10 = vec (- 21 / 10) (- 14 / 5)
   \<and> resolveCollision exact (make_body 10 11 12 (10, 10) 0 False) (make_body 20 21 22 (10, 8) 0 False)
        ((\<lambda>v. vec 0 0)(11 := vec 1 0, 20 := vec 3 5)) 20 = vec (51 / 10) (39 / 5)
   \<and> isColliding exact (make_body 10 11 12 (10, 10) 0 False) (make_body 20 21 22 (10, 8) 0 True)
        ((\<lambda>v. vec 0 0)(20 := vec 3 5))
   \<and> relativeVelocity exact (make_body 10 11 12 (10, 10) 0 False) (make_body 20 21 22 (10, 8) 0 True)
        ((\<lambda>v. vec 0 0)(20 := vec 3 5)) = Num 0
   \<and> collision_overlap exact (make_body 10 11 12 (10, 10) 0 False) (make_body 20 21 22 (10, 8) 0 True)
        ((\<lambda>v. vec 0 0)(20 := vec 3 5)) = Num 7
   \<and> resolveCollision exact (make_body 10 11 12 (10, 10) 0 False) (make_body 20 21 22 (10, 8) 0 True)
        ((\<lambda>v. vec 0 0)(20 := vec 3 5)) 10 = vec (- 21 / 5) (- 28 / 5)
   \<and> resolveCollision exact (make_body 10 11 12 (10, 10) 0 False) (make_body 20 21 22 (10, 8) 0 True)
        ((\<lambda>v. vec 0 0)(20 := vec 3 5)) 20 = vec 3 5
   \<and> collision_overlap exact (make_body 10 11 12 (100, 10) 0 True) (make_body 20 21 22 (10, 10) 0 False)
        ((\<lambda>v. vec 0 0)(10 := vec 0 10, 20 := vec 45 1, 21 := vec 0 60)) = Num 55
   \<and> collision_nx exact (make_body 10 11 12 (100, 10) 0 True) (make_body 20 21 22 (10, 10) 0 False)
        ((\<lambda>v. vec 0 0)(10 := vec 0 10, 20 := vec 45 1, 21 := vec 0 60)) = Num 0
   \<and> collision_ny exact (make_body 10 11 12 (100, 10) 0 True) (make_body 20 21 22 (10, 10) 0 False)
        ((\<lambda>v. vec 0 0)(10 := vec 0 10, 20 := vec 45 1, 21 := vec 0 60)) = Num (- 1)
   \<and> resolveCollision exact (make_body 10 11 12 (100, 10) 0 True) (make_body 20 21 22 (10, 10) 0 False)
        ((\<lambda>v. vec 0 0)(10 := vec 0 10, 20 := vec 45 1, 21 := vec 0 60)) 20 = vec 45 (- 54)
   \<and> resolveCollision exact (make_body 10 11 12 (100, 10) 0 True) (make_body 20 21 22 (10, 10) 0 False)
        ((\<lambda>v. vec 0 0)(10 := vec 0 10, 20 := vec 45 1, 21 := vec 0 60)) 10 = vec 0 10"
proof -
  let ?A = "make_body 10 11 12 (10, 10) 0 False"
  let ?B = "make_body 20 21 22 (10, 8) 0 False"
  let ?S = "make_body 20 21 22 (10, 8) 0 True"
  let ?F = "make_body 10 11 12 (100, 10) 0 True"
  let ?G = "make_body 20 21 22 (10, 10) 0 False"
  let ?st1 = "(\<lambda>v::vref. vec 0 0)(11 := vec 1 0, 20 := vec 3 5)"
  let ?st2 = "(\<lambda>v::vref. vec 0 0)(20 := vec 3 5)"
  let ?st3 = "(\<lambda>v::vref. vec 0 0)(10 := vec 0 10, 20 := vec 45 1, 21 := vec 0 60)"
  have c: "isColliding exact ?A ?B ?st1" "isColliding exact ?A ?S ?st2"
    by (simp_all add: make_body_def vec_def isColliding_def exact_ops)
  have h1: "\<not> (isStatic ?A \<and> isStatic ?B)"
    "position ?A \<noteq> position ?B"
    "\<not> isStatic ?A \<longrightarrow> velocity ?A \<noteq> position ?A \<and> velocity ?A \<noteq> position ?B"
    "\<not> isStatic ?B \<longrightarrow> velocity ?B \<noteq> position ?A \<and> velocity ?B \<noteq> position ?B"
    by (simp_all add: make_body_def)
  have h2: "\<not> (isStatic ?A \<and> isStatic ?S)"
    "position ?A \<noteq> position ?S"
    "\<not> isStatic ?A \<longrightarrow> velocity ?A \<noteq> position ?A \<and> velocity ?A \<noteq> position ?S"
    "\<not> isStatic ?S \<longrightarrow> velocity ?S \<noteq> position ?A \<and> velocity ?S \<noteq> position ?S"
    by (simp_all add: make_body_def)
  have h3: "\<not> (isStatic ?F \<and> isStatic ?G)"
    "position ?F \<noteq> position ?G"
    "\<not> isStatic ?F \<longrightarrow> velocity ?F \<noteq> position ?F \<and> velocity ?F \<noteq> position ?G"
    "\<not> isStatic ?G \<longrightarrow> velocity ?G \<noteq> position ?F \<and> velocity ?G \<noteq> position ?G"
    by (simp_all add: make_body_def)
  have g1: "Num (3) = fsub exact
          (fadd exact (vec_x (?st1 (position ?B))) (fdiv exact (width (bounds ?B)) (Num 2)))
          (fadd exact (vec_x (?st1 (position ?A))) (fdiv exact (width (bounds ?A)) (Num 2)))"
    "Num (4) = fsub exact
          (fadd exact (vec_y (?st1 (position ?B))) (fdiv exact (height (bounds ?B)) (Num 2)))
          (fadd exact (vec_y (?st1 (position ?A))) (fdiv exact (height (bounds ?A)) (Num 2)))"
    "Num (5) = Math_sqrt exact (fadd exact (fmul exact (Num (3)) (Num (3))) (fmul exact (Num (4)) (Num (4))))"
    "Num (3 / 5) = fdiv exact (Num (3)) (Num (5))"
    "Num (4 / 5) = fdiv exact (Num (4)) (Num (5))"
    "Num (- 3 / 5) = fadd exact
          (fmul exact (fsub exact (vec_x (?st1 (velocity ?B))) (vec_x (?st1 (velocity ?A)))) (Num (3 / 5)))
          (fmul exact (fsub exact (vec_y (?st1 (velocity ?B))) (vec_y (?st1 (velocity ?A)))) (Num (4 / 5)))"
    "\<not> Num (- 3 / 5) > Num 0"
    "Num (7) = fsub exact
               (fdiv exact (fadd exact (width (bounds ?A)) (width (bounds ?B))) (Num 2))
               (Math_abs (Num (3)))"
    by (simp_all add: make_body_def vec_def exact_ops sqrt_25)
  have g2: "Num (3) = fsub exact
          (fadd exact (vec_x (?st2 (position ?S))) (fdiv exact (width (bounds ?S)) (Num 2)))
          (fadd exact (vec_x (?st2 (position ?A))) (fdiv exact (width (bounds ?A)) (Num 2)))"
    "Num (4) = fsub exact
          (fadd exact (vec_y (?st2 (position ?S))) (fdiv exact (height (bounds ?S)) (Num 2)))
          (fadd exact (vec_y (?st2 (position ?A))) (fdiv exact (height (bounds ?A)) (Num 2)))"
    "Num (5) = Math_sqrt exact (fadd exact (fmul exact (Num (3)) (Num (3))) (fmul exact (Num (4)) (Num (4))))"
    "Num (3 / 5) = fdiv exact (Num (3)) (Num (5))"
    "Num (4 / 5) = fdiv exact (Num (4)) (Num (5))"
    "Num (0) = fadd exact
          (fmul exact (fsub exact (vec_x (?st2 (velocity ?S))) (vec_x (?st2 (velocity ?A)))) (Num (3 / 5)))
          (fmul exact (fsub exact (vec_y (?st2 (velocity ?S))) (vec_y (?st2 (velocity ?A)))) (Num (4 / 5)))"
    "\<not> Num (0) > Num 0"
    "Num (7) = fsub exact
               (fdiv exact (fadd exact (width (bounds ?A)) (width (bounds ?S))) (Num 2))
               (Math_abs (Num (3)))"
    by (simp_all add: make_body_def vec_def exact_ops sqrt_25)
  have g3: "Num (0) = fsub exact
          (fadd exact (vec_x (?st3 (position ?G))) (fdiv exact (width (bounds ?G)) (Num 2)))
          (fadd exact (vec_x (?st3 (position ?F))) (fdiv exact (width (bounds ?F)) (Num 2)))"
    "Num (- 9) = fsub exact
          (fadd exact (vec_y (?st3 (position ?G))) (fdiv exact (height (bounds ?G)) (Num 2)))
          (fadd exact (vec_y (?st3 (position ?F))) (fdiv exact (height (bounds ?F)) (Num 2)))"
    "Num (9) = Math_sqrt exact (fadd exact (fmul exact (Num (0)) (Num (0))) (fmul exact (Num (- 9)) (Num (- 9))))"
    "Num (0) = fdiv exact (Num (0)) (Num (9))"
    "Num (- 1) = fdiv exact (Num (- 9)) (Num (9))"
    "Num (- 60) = fadd exact
          (fmul exact (fsub exact (vec_x (?st3 (velocity ?G))) (vec_x (?st3 (velocity ?F)))) (Num (0)))
          (fmul exact (fsub exact (vec_y (?st3 (velocity ?G))) (vec_y (?st3 (velocity ?F)))) (Num (- 1)))"
    "\<not> Num (- 60) > Num 0"
    "Num (55) = fsub exact
               (fdiv exact (fadd exact (width (bounds ?F)) (width (bounds ?G))) (Num 2))
               (Math_abs (Num (0)))"
    by (simp_all add: make_body_def vec_def exact_ops sqrt_81)
  note t1 = positional_correction [where rnd = exact and bodyA = ?A and bodyB = ?B
      and st = ?st1 and dx = "Num (3)" and dy = "Num (4)" and len = "Num (5)"
      and nx = "Num (3 / 5)" and ny = "Num (4 / 5)" and rv = "Num (- 3 / 5)" and overlap = "Num (7)"
      and st' = "resolveCollision exact ?A ?B ?st1",
      OF h1(1-4) g1(1-8) refl]
  note t2 = positional_correction [where rnd = exact and bodyA = ?A and bodyB = ?S
      and st = ?st2 and dx = "Num (3)" and dy = "Num (4)" and len = "Num (5)"
      and nx = "Num (3 / 5)" and ny = "Num (4 / 5)" and rv = "Num (0)" and overlap = "Num (7)"
      and st' = "resolveCollision exact ?A ?S ?st2",
      OF h2(1-4) g2(1-8) refl]
  note t3 = positional_correction [where rnd = exact and bodyA = ?F and bodyB = ?G
      and st = ?st3 and dx = "Num (0)" and dy = "Num (- 9)" and len = "Num (9)"
      and nx = "Num (0)" and ny = "Num (- 1)" and rv = "Num (- 60)" and overlap = "Num (55)"
      and st' = "resolveCollision exact ?F ?G ?st3",
      OF h3(1-4) g3(1-8) refl]
  have s: "\<not> isStatic ?A" "\<not> isStatic ?B" "isStatic ?S" "isStatic ?F" "\<not> isStatic ?G"
    by (simp_all add: make_body_def)
  have pr: "position ?A = 10" "position ?B = 20" "position ?S = 20" "position ?F = 10"
    "position ?G = 20"
    by (simp_all add: make_body_def)
  have pos: "Num 7 > Num 0" "Num 55 > Num 0" by simp_all
  note k1 = t1 [THEN conjunct2, THEN conjunct2, THEN conjunct2]
  note k2 = t2 [THEN conjunct2, THEN conjunct2, THEN conjunct2]
  note k3 = t3 [THEN conjunct2, THEN conjunct2, THEN conjunct2]
  have o1: "collision_overlap exact ?A ?B ?st1 = Num 7" using t1 by (rule conjunct1)
  have o2: "collision_overlap exact ?A ?S ?st2 = Num 7" using t2 by (rule conjunct1)
  have o3: "collision_overlap exact ?F ?G ?st3 = Num 55" using t3 by (rule conjunct1)
  have n1: "collision_nx exact ?A ?B ?st1 = Num (3 / 5)" using k1 by (rule conjunct1)
  have n2: "collision_ny exact ?A ?B ?st1 = Num (4 / 5)"
    using k1 [THEN conjunct2] by (rule conjunct1)
  have n3: "collision_nx exact ?F ?G ?st3 = Num 0" using k3 by (rule conjunct1)
  have n4: "collision_ny exact ?F ?G ?st3 = Num (- 1)"
    using k3 [THEN conjunct2] by (rule conjunct1)
  have r1: "relativeVelocity exact ?A ?B ?st1 = Num (- 3 / 5)"
    using k1 [THEN conjunct2, THEN conjunct2] by (rule conjunct1)
  have r2: "relativeVelocity exact ?A ?S ?st2 = Num 0"
    using k2 [THEN conjunct2, THEN conjunct2] by (rule conjunct1)
  note m1 = k1 [THEN conjunct2, THEN conjunct2, THEN conjunct2, THEN conjunct2, THEN conjunct1,
      rule_format, OF conjI [OF pos(1) conjI [OF s(1) s(2)]]]
  note m2 = k2 [THEN conjunct2, THEN conjunct2, THEN conjunct2, THEN conjunct2, THEN conjunct2,
      THEN conjunct1, rule_format, OF conjI [OF pos(1) conjI [OF s(1) s(3)]]]
  note m3 = k3 [THEN conjunct2, THEN conjunct2, THEN conjunct2, THEN conjunct2, THEN conjunct2,
      THEN conjunct2, THEN conjunct1, rule_format, OF conjI [OF pos(2) conjI [OF s(4) s(5)]]]
  have a1: "resolveCollision exact ?A ?B ?st1 10 = vec (- 21 / 10) (- 14 / 5)"
    using m1 [THEN conjunct1] unfolding pr by (simp add: vec_def exact_ops)
  have b1: "resolveCollision exact ?A ?B ?st1 20 = vec (51 / 10) (39 / 5)"
    using m1 [THEN conjunct2] unfolding pr by (simp add: vec_def exact_ops)
  have a2: "resolveCollision exact ?A ?S ?st2 10 = vec (- 21 / 5) (- 28 / 5)"
    using m2 [THEN conjunct1] unfolding pr by (simp add: vec_def exact_ops)
  have b2: "resolveCollision exact ?A ?S ?st2 20 = vec 3 5"
    using m2 [THEN conjunct2] unfolding pr by simp
  have a3: "resolveCollision exact ?F ?G ?st3 20 = vec 45 (- 54)"
    using m3 [THEN conjunct1] unfolding pr by (simp add: vec_def exact_ops)
  have b3: "resolveCollision exact ?F ?G ?st3 10 = vec 0 10"
    using m3 [THEN conjunct2] unfolding pr by simp
  show ?thesis
    by (rule conjI c r1 o1 n1 n2 a1 b1 r2 o2 a2 b2 o3 n3 n4 a3 b3)+
qed

text \<open>
  Two dynamic bodies at rest that share one position object \<open>(0, 0)\<close>, of widths 10 and
  20: the normal is \<open>(1, 0)\<close> and the overlap is 10; \<open>5\<close> is subtracted from the shared
  position and then added to it. The position of the first body ends where it was, not
  displaced by \<open>overlap / 2\<close> against the normal.
\<close>

theorem positional_correction_counterexample:
  "\<not> isStatic (make_body 10 11 12 (10, 10) 0 False)
   \<and> \<not> isStatic (make_body 10 21 22 (20, 10) 0 False)
   \<and> position (make_body 10 11 12 (10, 10) 0 False) = position (make_body 10 21 22 (20, 10) 0 False)
   \<and> isColliding exact (make_body 10 11 12 (10, 10) 0 False)
        (make_body 10 21 22 (20, 10) 0 False) (\<lambda>v. vec 0 0)
   \<and> relativeVelocity exact (make_body 10 11 12 (10, 10) 0 False)
        (make_body 10 21 22 (20, 10) 0 False) (\<lambda>v. vec 0 0) = Num 0
   \<and> Num 0 \<le> Num 0
   \<and> collision_nx exact (make_body 10 11 12 (10, 10) 0 False)
        (make_body 10 21 22 (20, 10) 0 False) (\<lambda>v. vec 0 0) = Num 1
   \<and> collision_ny exact (make_body 10 11 12 (10, 10) 0 False)
        (make_body 10 21 22 (20, 10) 0 False) (\<lambda>v. vec 0 0) = Num 0
   \<and> collision_overlap exact (make_body 10 11 12 (10, 10) 0 False)
        (make_body 10 21 22 (20, 10) 0 False) (\<lambda>v. vec 0 0) = Num 10
   \<and> Num 10 > Num 0
   \<and> resolveCollision exact (make_body 10 11 12 (10, 10) 0 False)
        (make_body 10 21 22 (20, 10) 0 False) (\<lambda>v. vec 0 0)
        (position (make_body 10 11 12 (10, 10) 0 False))
      = vec 0 0
   \<and> vec 0 0
       \<noteq> \<lparr>vec_x = fsub exact (Num 0) (fdiv exact (fmul exact (Num 10) (Num 1)) (Num 2)),
           vec_y = fsub exact (Num 0) (fdiv exact (fmul exact (Num 10) (Num 0)) (Num 2))\<rparr>"
proof -
  let ?A = "make_body 10 11 12 (10, 10) 0 False"
  let ?B = "make_body 10 21 22 (20, 10) 0 False"
  let ?st = "\<lambda>v::vref. vec 0 0"
  have c: "isColliding exact ?A ?B ?st"
    by (simp add: make_body_def vec_def isColliding_def exact_ops)
  have n: "collision_nx exact ?A ?B ?st = Num 1" "collision_ny exact ?A ?B ?st = Num 0"
    by (simp_all add: make_body_def vec_def collision_defs Let_def exact_ops sqrt_25)
  have rv: "relativeVelocity exact ?A ?B ?st = Num 0"
    by (simp add: make_body_def vec_def collision_defs Let_def exact_ops sqrt_25)
  have ov: "collision_overlap exact ?A ?B ?st = Num 10"
    by (simp add: make_body_def vec_def collision_defs Let_def exact_ops)
  have r: "resolveCollision exact ?A ?B ?st 10 = vec 0 0"
    by (simp add: resolveCollision_def Let_def make_body_def vec_def collision_defs sqrt_25
        assign_defs exact_ops)
  show ?thesis
    using c n rv ov r by (simp add: make_body_def vec_def exact_ops)
qed

end
